theory Spec2Isabelle
  imports Complex_Main "HOL-Library.Monad_Syntax"
begin

chapter \<open>The model\<close>

section \<open>JavaScript values\<close>

text \<open>
  The program is a Node.js service (\<^verbatim>\<open>src/index.js\<close>).  Its helper functions work on
  untyped JSON-like data, so the embedding has one type of JavaScript values.

  \<^item> A number is \<open>NaN\<close>, an infinity, or a finite value \<open>Fin r\<close> with \<open>r\<close> rational.
    Arithmetic on finite values is exact; a result outside the range of an IEEE double
    becomes an infinity (or zero, on underflow) through \<open>fl\<close>.  The rounding of the
    mantissa and the sign of zero are not modelled.
  \<^item> A string is the list of the bytes of its UTF-8 encoding.  Character classes
    (digits, \<^verbatim>\<open>[a-z]\<close>, white space, upper case) are the ASCII ones, so the
    string functions are exact on ASCII text.
  \<^item> An object is an association list in insertion order; a key is looked up from the
    front.
  \<^item> A JavaScript exception is the value \<open>None\<close> of an \<open>option\<close> result.  The
    exceptions of this code are the \<^verbatim>\<open>TypeError\<close>s of a property read on \<^verbatim>\<open>null\<close> or
    \<^verbatim>\<open>undefined\<close>, of a call of something that is no function, and of the conversion
    of an object that is not convertible to a string or a number.

  The values are those that parsed JSON holds, with \<^verbatim>\<open>undefined\<close>, \<open>NaN\<close> and the
  infinities added.  Functions, accessors and the identity of objects are not modelled;
  where the code mutates an object that a second variable also names, the text says why
  the result does not depend on it.
\<close>

datatype jsnum = NaN | PInf | NInf | Fin rat

datatype jsval =
    JUndefined
  | JNull
  | JBool bool
  | JNum jsnum
  | JStr string
  | JArr "jsval list"
  | JObj "(string \<times> jsval) list"

subsection \<open>Numbers\<close>

text \<open>
  The range of a double.  A value of magnitude \<open>2^1024 - 2^970\<close> or more (half a unit
  in the last place above the greatest double) rounds to an infinity, and one of
  magnitude \<open>2^-1075\<close> or less (half the least subnormal) rounds to zero.
\<close>

definition overflow_threshold :: rat where
  "overflow_threshold = 2 ^ 1024 - 2 ^ 970"

definition underflow_threshold :: rat where
  "underflow_threshold = 1 / 2 ^ 1075"

definition fl :: "rat \<Rightarrow> jsnum" where
  "fl r =
     (if overflow_threshold \<le> r then PInf
      else if r \<le> - overflow_threshold then NInf
      else if \<bar>r\<bar> \<le> underflow_threshold then Fin 0
      else Fin r)"

fun is_finite :: "jsnum \<Rightarrow> bool" where
  "is_finite (Fin r) = True"
| "is_finite n = False"

text \<open>\<^verbatim>\<open>n > 0\<close> on numbers.\<close>

fun positive :: "jsnum \<Rightarrow> bool" where
  "positive (Fin r) = (0 < r)"
| "positive PInf = True"
| "positive n = False"

text \<open>\<^verbatim>\<open>a + b\<close> on numbers.\<close>

fun js_add :: "jsnum \<Rightarrow> jsnum \<Rightarrow> jsnum" where
  "js_add (Fin a) (Fin b) = fl (a + b)"
| "js_add NaN b = NaN"
| "js_add a NaN = NaN"
| "js_add PInf NInf = NaN"
| "js_add NInf PInf = NaN"
| "js_add PInf b = PInf"
| "js_add NInf b = NInf"
| "js_add a PInf = PInf"
| "js_add a NInf = NInf"

text \<open>\<^verbatim>\<open>Math.round\<close>: the nearest integer, a tie going up.\<close>

fun Math_round :: "jsnum \<Rightarrow> jsnum" where
  "Math_round (Fin r) = Fin (of_int \<lfloor>r + 1 / 2\<rfloor>)"
| "Math_round n = n"

text \<open>\<^verbatim>\<open>a <= b\<close> on numbers that are not \<open>NaN\<close>.\<close>

fun js_le :: "jsnum \<Rightarrow> jsnum \<Rightarrow> bool" where
  "js_le (Fin a) (Fin b) = (a \<le> b)"
| "js_le NInf b = (b \<noteq> NaN)"
| "js_le a PInf = (a \<noteq> NaN)"
| "js_le a b = False"

text \<open>\<^verbatim>\<open>Math.max(a, b)\<close> and \<^verbatim>\<open>Math.min(a, b)\<close>: \<open>NaN\<close> if an argument is.\<close>

definition Math_max :: "jsnum \<Rightarrow> jsnum \<Rightarrow> jsnum" where
  "Math_max a b = (if a = NaN \<or> b = NaN then NaN else if js_le a b then b else a)"

definition Math_min :: "jsnum \<Rightarrow> jsnum \<Rightarrow> jsnum" where
  "Math_min a b = (if a = NaN \<or> b = NaN then NaN else if js_le a b then a else b)"

text \<open>\<^verbatim>\<open>Math.max(...xs)\<close>; with no argument it is \<open>-Infinity\<close>.\<close>

definition Math_max_list :: "jsnum list \<Rightarrow> jsnum" where
  "Math_max_list xs = foldl Math_max NInf xs"

subsection \<open>Truthiness and types\<close>

fun truthy :: "jsval \<Rightarrow> bool" where
  "truthy JUndefined = False"
| "truthy JNull = False"
| "truthy (JBool b) = b"
| "truthy (JNum n) = (n \<noteq> NaN \<and> n \<noteq> Fin 0)"
| "truthy (JStr s) = (s \<noteq> [])"
| "truthy (JArr xs) = True"
| "truthy (JObj kvs) = True"

text \<open>\<^verbatim>\<open>v == null\<close>.\<close>

fun nullish :: "jsval \<Rightarrow> bool" where
  "nullish JUndefined = True"
| "nullish JNull = True"
| "nullish v = False"

fun typeof :: "jsval \<Rightarrow> string" where
  "typeof JUndefined = ''undefined''"
| "typeof JNull = ''object''"
| "typeof (JBool b) = ''boolean''"
| "typeof (JNum n) = ''number''"
| "typeof (JStr s) = ''string''"
| "typeof (JArr xs) = ''object''"
| "typeof (JObj kvs) = ''object''"

fun Array_isArray :: "jsval \<Rightarrow> bool" where
  "Array_isArray (JArr xs) = True"
| "Array_isArray v = False"

text \<open>The elements of an array (used only where \<^verbatim>\<open>Array.isArray\<close> has been checked).\<close>

fun elements :: "jsval \<Rightarrow> jsval list" where
  "elements (JArr xs) = xs"
| "elements v = []"

text \<open>\<^verbatim>\<open>a || b\<close> and \<^verbatim>\<open>a ?? b\<close>.\<close>

definition js_or :: "jsval \<Rightarrow> jsval \<Rightarrow> jsval" where
  "js_or a b = (if truthy a then a else b)"

definition js_coalesce :: "jsval \<Rightarrow> jsval \<Rightarrow> jsval" where
  "js_coalesce a b = (if nullish a then b else a)"

subsection \<open>Property access\<close>

text \<open>
  \<open>get v k\<close> is the property \<open>k\<close> of a value that is neither \<^verbatim>\<open>null\<close> nor
  \<^verbatim>\<open>undefined\<close>.  The program reads data properties only (named fields and
  \<^verbatim>\<open>length\<close>); methods are modelled where they are called.  A string's length is
  used for its truthiness only.
\<close>

fun get :: "jsval \<Rightarrow> string \<Rightarrow> jsval" where
  "get (JObj kvs) k = (case map_of kvs k of Some v \<Rightarrow> v | None \<Rightarrow> JUndefined)"
| "get (JArr xs) k = (if k = ''length'' then JNum (Fin (of_int (int (length xs)))) else JUndefined)"
| "get (JStr s) k = (if k = ''length'' then JNum (Fin (of_int (int (length s)))) else JUndefined)"
| "get v k = JUndefined"

text \<open>\<^verbatim>\<open>v.k\<close>: a \<^verbatim>\<open>TypeError\<close> on \<^verbatim>\<open>null\<close> and \<^verbatim>\<open>undefined\<close>.\<close>

definition getprop :: "jsval \<Rightarrow> string \<Rightarrow> jsval option" where
  "getprop v k = (if nullish v then None else Some (get v k))"

text \<open>\<^verbatim>\<open>v?.k\<close>.\<close>

definition oprop :: "jsval \<Rightarrow> string \<Rightarrow> jsval" where
  "oprop v k = (if nullish v then JUndefined else get v k)"

text \<open>\<^verbatim>\<open>v?.[0]\<close>.\<close>

fun oindex0 :: "jsval \<Rightarrow> jsval" where
  "oindex0 (JArr xs) = (case xs of [] \<Rightarrow> JUndefined | x # rest \<Rightarrow> x)"
| "oindex0 (JStr s) = (case s of [] \<Rightarrow> JUndefined | c # rest \<Rightarrow> JStr [c])"
| "oindex0 (JObj kvs) = get (JObj kvs) ''0''"
| "oindex0 v = JUndefined"

text \<open>\<^verbatim>\<open>obj.k = v\<close> on an object: an existing key keeps its place.\<close>

fun assign :: "(string \<times> jsval) list \<Rightarrow> string \<Rightarrow> jsval \<Rightarrow> (string \<times> jsval) list" where
  "assign [] k v = [(k, v)]"
| "assign ((k', v') # kvs) k v = (if k' = k then (k, v) # kvs else (k', v') # assign kvs k v)"

subsection \<open>Strings\<close>

definition is_digit :: "char \<Rightarrow> bool" where
  "is_digit c = (48 \<le> (of_char c :: nat) \<and> (of_char c :: nat) \<le> 57)"

definition digit_value :: "char \<Rightarrow> nat" where
  "digit_value c = of_char c - 48"

text \<open>White space \<^verbatim>\<open>\s\<close>: tab, line feed, vertical tab, form feed, carriage return, space.\<close>

definition is_space :: "char \<Rightarrow> bool" where
  "is_space c = ((9 \<le> (of_char c :: nat) \<and> (of_char c :: nat) \<le> 13) \<or> (of_char c :: nat) = 32)"

definition is_lower_alpha :: "char \<Rightarrow> bool" where
  "is_lower_alpha c = (97 \<le> (of_char c :: nat) \<and> (of_char c :: nat) \<le> 122)"

definition is_upper_alpha :: "char \<Rightarrow> bool" where
  "is_upper_alpha c = (65 \<le> (of_char c :: nat) \<and> (of_char c :: nat) \<le> 90)"

definition lower_char :: "char \<Rightarrow> char" where
  "lower_char c = (if is_upper_alpha c then char_of ((of_char c :: nat) + 32) else c)"

definition toLowerCase :: "string \<Rightarrow> string" where
  "toLowerCase s = map lower_char s"

definition trim :: "string \<Rightarrow> string" where
  "trim s = rev (dropWhile is_space (rev (dropWhile is_space s)))"

fun starts_with :: "string \<Rightarrow> string \<Rightarrow> bool" where
  "starts_with s [] = True"
| "starts_with [] (c # p) = False"
| "starts_with (d # s) (c # p) = (d = c \<and> starts_with s p)"

text \<open>\<^verbatim>\<open>s.includes(t)\<close>.\<close>

fun str_includes :: "string \<Rightarrow> string \<Rightarrow> bool" where
  "str_includes [] t = (t = [])"
| "str_includes (c # s) t = (starts_with (c # s) t \<or> str_includes s t)"

text \<open>\<^verbatim>\<open>xs.join(sep)\<close> on strings.\<close>

fun join :: "string \<Rightarrow> string list \<Rightarrow> string" where
  "join sep [] = []"
| "join sep [x] = x"
| "join sep (x # y # ys) = x @ sep @ join sep (y # ys)"

function nat_digits :: "nat \<Rightarrow> string" where
  "nat_digits n =
     (if n < 10 then [char_of (48 + n)] else nat_digits (n div 10) @ [char_of (48 + n mod 10)])"
  by pat_completeness auto

termination
  by (relation "measure (\<lambda>n. n)") auto

subsection \<open>Conversions\<close>

text \<open>
  \<^verbatim>\<open>Number(s)\<close> on a string: the grammar of ECMAScript's \<open>StringNumericLiteral\<close>.
  \<open>digits_value\<close> reads decimal digits, \<open>SignedInteger\<close> an exponent, and
  \<open>StrUnsignedDecimalLiteral\<close> the forms \<^verbatim>\<open>12\<close>, \<^verbatim>\<open>12.\<close>, \<^verbatim>\<open>12.5\<close>, \<^verbatim>\<open>.5\<close>, each with an
  optional exponent.  \<open>None\<close> is "no parse".
\<close>

definition digits_value :: "string \<Rightarrow> nat" where
  "digits_value s = foldl (\<lambda>a c. 10 * a + digit_value c) 0 s"

definition pow10 :: "int \<Rightarrow> rat" where
  "pow10 e = (if 0 \<le> e then 10 ^ nat e else 1 / 10 ^ nat (- e))"

definition SignedInteger :: "string \<Rightarrow> int option" where
  "SignedInteger t =
     (let neg = (t \<noteq> [] \<and> hd t = CHR ''-'');
          ds = (if t \<noteq> [] \<and> (hd t = CHR ''+'' \<or> hd t = CHR ''-'') then tl t else t)
      in if ds \<noteq> [] \<and> list_all is_digit ds
         then Some (if neg then - int (digits_value ds) else int (digits_value ds))
         else None)"

definition StrUnsignedDecimalLiteral :: "string \<Rightarrow> rat option" where
  "StrUnsignedDecimalLiteral s =
     (let ip = takeWhile is_digit s;
          r1 = dropWhile is_digit s;
          dot = (r1 \<noteq> [] \<and> hd r1 = CHR ''.'');
          fp = (if dot then takeWhile is_digit (tl r1) else []);
          r2 = (if dot then dropWhile is_digit (tl r1) else r1);
          m = of_int (int (digits_value (ip @ fp))) / 10 ^ length fp
      in if ip = [] \<and> fp = [] then None
         else if r2 = [] then Some m
         else if hd r2 = CHR ''e'' \<or> hd r2 = CHR ''E''
         then (case SignedInteger (tl r2) of None \<Rightarrow> None | Some x \<Rightarrow> Some (m * pow10 x))
         else None)"

text \<open>Digits of the prefixed literals \<^verbatim>\<open>0x\<close>, \<^verbatim>\<open>0o\<close>, \<^verbatim>\<open>0b\<close>.\<close>

definition radix_digit :: "char \<Rightarrow> nat option" where
  "radix_digit c =
     (if is_digit c then Some (digit_value c)
      else if is_lower_alpha c \<and> (of_char c :: nat) \<le> 102 then Some (of_char c - 87)
      else if is_upper_alpha c \<and> (of_char c :: nat) \<le> 70 then Some (of_char c - 55)
      else None)"

definition radix_literal :: "nat \<Rightarrow> string \<Rightarrow> jsnum" where
  "radix_literal b ds =
     (if ds \<noteq> [] \<and> list_all (\<lambda>c. case radix_digit c of None \<Rightarrow> False | Some d \<Rightarrow> d < b) ds
      then fl (of_int (int (foldl (\<lambda>a c. b * a + the (radix_digit c)) 0 ds)))
      else NaN)"

definition StringToNumber :: "string \<Rightarrow> jsnum" where
  "StringToNumber s0 =
     (let s = trim s0 in
      if s = [] then Fin 0
      else if s = ''Infinity'' \<or> s = ''+Infinity'' then PInf
      else if s = ''-Infinity'' then NInf
      else if starts_with s ''0x'' \<or> starts_with s ''0X'' then radix_literal 16 (drop 2 s)
      else if starts_with s ''0o'' \<or> starts_with s ''0O'' then radix_literal 8 (drop 2 s)
      else if starts_with s ''0b'' \<or> starts_with s ''0B'' then radix_literal 2 (drop 2 s)
      else if hd s = CHR ''+''
      then (case StrUnsignedDecimalLiteral (tl s) of None \<Rightarrow> NaN | Some r \<Rightarrow> fl r)
      else if hd s = CHR ''-''
      then (case StrUnsignedDecimalLiteral (tl s) of None \<Rightarrow> NaN | Some r \<Rightarrow> fl (- r))
      else (case StrUnsignedDecimalLiteral s of None \<Rightarrow> NaN | Some r \<Rightarrow> fl r))"

text \<open>
  The conversion of an array or an object to a primitive value (\<open>ToPrimitive\<close>) calls
  its method \<^verbatim>\<open>toString\<close>.  An object of parsed JSON has no method of its own: it
  inherits \<^verbatim>\<open>toString\<close> from \<^verbatim>\<open>Object.prototype\<close>, unless it has a property of that
  name, and the value of such a property is never a function.  An object with a
  property \<^verbatim>\<open>toString\<close> is therefore not convertible: \<^verbatim>\<open>String(v)\<close>, \<^verbatim>\<open>`${v}`\<close>,
  \<^verbatim>\<open>Number(v)\<close> and \<^verbatim>\<open>v.toString()\<close> throw a \<^verbatim>\<open>TypeError\<close> on it.  The other method
  that \<open>ToPrimitive\<close> tries, \<^verbatim>\<open>valueOf\<close>, never helps: the inherited one returns the
  object itself, and a property of that name is no function either.  An array is
  converted by \<^verbatim>\<open>join\<close>, which converts its elements (\<^verbatim>\<open>null\<close> and \<^verbatim>\<open>undefined\<close> to the
  empty string), so an array is convertible when its elements are.  Every primitive
  value is convertible.
\<close>

fun convertible :: "jsval \<Rightarrow> bool" where
  "convertible (JObj kvs) = (map_of kvs ''toString'' = None)"
| "convertible (JArr xs) = list_all (\<lambda>x. convertible x) xs"
| "convertible v = True"

text \<open>
  The value of \<^verbatim>\<open>Number(v)\<close> when \<open>v\<close> is convertible.  An array is converted through
  its \<^verbatim>\<open>toString\<close>, the elements joined by commas: the empty array gives the empty
  string (\<open>0\<close>), a one-element array the string of its element, and a longer one a
  string with a comma, which is no number.  A plain object gives
  \<^verbatim>\<open>"[object Object]"\<close>, which is no number.
\<close>

fun number_value :: "jsval \<Rightarrow> jsnum" where
  "number_value JUndefined = NaN"
| "number_value JNull = Fin 0"
| "number_value (JBool b) = (if b then Fin 1 else Fin 0)"
| "number_value (JNum n) = n"
| "number_value (JStr s) = StringToNumber s"
| "number_value (JObj kvs) = NaN"
| "number_value (JArr []) = Fin 0"
| "number_value (JArr [JUndefined]) = Fin 0"
| "number_value (JArr [JNull]) = Fin 0"
| "number_value (JArr [JBool b]) = NaN"
| "number_value (JArr [JNum n]) = n"
| "number_value (JArr [JStr s]) = StringToNumber s"
| "number_value (JArr [JObj kvs]) = NaN"
| "number_value (JArr [JArr ys]) = number_value (JArr ys)"
| "number_value (JArr (x # y # zs)) = NaN"

text \<open>\<^verbatim>\<open>Number(v)\<close>; \<open>None\<close> is the \<^verbatim>\<open>TypeError\<close>.\<close>

definition ToNumber :: "jsval \<Rightarrow> jsnum option" where
  "ToNumber v = (if convertible v then Some (number_value v) else None)"

text \<open>
  \<^verbatim>\<open>String(n)\<close> on a number.  An integer up to \<open>2^53 = 9007199254740992\<close> in magnitude is printed in
  decimal digits.  The digits JavaScript prints for any other finite number are those
  of the double, which the rational model does not fix: they are the parameter \<open>fmt\<close>.
\<close>

definition Number_toString :: "(rat \<Rightarrow> string) \<Rightarrow> jsnum \<Rightarrow> string" where
  "Number_toString fmt n =
     (case n of
        NaN \<Rightarrow> ''NaN''
      | PInf \<Rightarrow> ''Infinity''
      | NInf \<Rightarrow> ''-Infinity''
      | Fin r \<Rightarrow>
          if of_int \<lfloor>r\<rfloor> = r \<and> \<bar>r\<bar> \<le> 9007199254740992
          then (if r < 0 then ''-'' else []) @ nat_digits (nat \<bar>\<lfloor>r\<rfloor>\<bar>)
          else fmt r)"

text \<open>
  The value of \<^verbatim>\<open>String(v)\<close> when \<open>v\<close> is convertible.  In the string of an array,
  \<^verbatim>\<open>null\<close> and \<^verbatim>\<open>undefined\<close> elements are empty.
\<close>

fun string_value :: "(rat \<Rightarrow> string) \<Rightarrow> jsval \<Rightarrow> string" where
  "string_value fmt JUndefined = ''undefined''"
| "string_value fmt JNull = ''null''"
| "string_value fmt (JBool b) = (if b then ''true'' else ''false'')"
| "string_value fmt (JNum n) = Number_toString fmt n"
| "string_value fmt (JStr s) = s"
| "string_value fmt (JArr xs) = join '','' (map (\<lambda>x. if nullish x then [] else string_value fmt x) xs)"
| "string_value fmt (JObj kvs) = ''[object Object]''"

text \<open>
  \<^verbatim>\<open>String(v)\<close> and \<^verbatim>\<open>`${v}`\<close>, and \<^verbatim>\<open>v.toString()\<close> on a value that is neither \<^verbatim>\<open>null\<close>
  nor \<^verbatim>\<open>undefined\<close>; \<open>None\<close> is the \<^verbatim>\<open>TypeError\<close>.
\<close>

definition ToString :: "(rat \<Rightarrow> string) \<Rightarrow> jsval \<Rightarrow> string option" where
  "ToString fmt v = (if convertible v then Some (string_value fmt v) else None)"

text \<open>
  A value is plain when no object in it, at any depth, has a property \<^verbatim>\<open>toString\<close>.
  The values read from a plain value are plain, and every conversion of them succeeds.
\<close>

fun plain :: "jsval \<Rightarrow> bool" where
  "plain (JObj kvs) = (map_of kvs ''toString'' = None \<and> list_all (\<lambda>kv. plain (snd kv)) kvs)"
| "plain (JArr xs) = list_all (\<lambda>x. plain x) xs"
| "plain v = True"

text \<open>
  A printer for the finite numbers that are not integers, used where an example needs
  a concrete one: the decimal expansion, cut after twenty fractional digits.
\<close>

fun fraction_digits :: "nat \<Rightarrow> rat \<Rightarrow> string" where
  "fraction_digits 0 r = []"
| "fraction_digits (Suc k) r =
     (if r = 0 then []
      else char_of (48 + nat \<lfloor>10 * r\<rfloor>) # fraction_digits k (10 * r - of_int \<lfloor>10 * r\<rfloor>))"

definition decimal_fmt :: "rat \<Rightarrow> string" where
  "decimal_fmt r =
     (if r < 0 then ''-'' else []) @ nat_digits (nat \<lfloor>\<bar>r\<bar>\<rfloor>) @ ''.''
       @ fraction_digits 20 (\<bar>r\<bar> - of_int \<lfloor>\<bar>r\<bar>\<rfloor>)"

section \<open>Lenient numeric coercion: \<^verbatim>\<open>num\<close>\<close>

text \<open>
  \<^verbatim>\<open>
  function num(x, def = 0) {
    if (typeof x === "number" && Number.isFinite(x)) return x;
    if (typeof x === "string") {
      const cleaned = x.replace(/[^0-9eE+.\-]/g, "");
      const n = Number(cleaned);
      return Number.isFinite(n) ? n : def;
    }
    return def;
  }
  \<close>
  The default parameter takes effect when the argument is \<^verbatim>\<open>undefined\<close>.
\<close>

definition numeric_char :: "char \<Rightarrow> bool" where
  "numeric_char c = (is_digit c \<or> c \<in> set ''eE+.-'')"

definition num :: "jsval \<Rightarrow> jsval \<Rightarrow> jsval" where
  "num x def0 =
     (let def = (if def0 = JUndefined then JNum (Fin 0) else def0) in
      case x of
        JNum n \<Rightarrow> if is_finite n then x else def
      | JStr s \<Rightarrow>
          (let cleaned = filter numeric_char s; n = StringToNumber cleaned
           in if is_finite n then JNum n else def)
      | _ \<Rightarrow> def)"

section \<open>CalorieResolver: \<^verbatim>\<open>extractCaloriesFromAnalysis\<close>\<close>

subsection \<open>\<^verbatim>\<open>JSON.stringify\<close> and the regular expressions of the last resort\<close>

definition hex_char :: "nat \<Rightarrow> char" where
  "hex_char d = (if d < 10 then char_of (48 + d) else char_of (87 + d))"

text \<open>
  The escapes of \<^verbatim>\<open>JSON.stringify\<close>: the double quote (byte 34), the backslash (byte 92)
  and the control characters.
\<close>

definition json_escape :: "char \<Rightarrow> string" where
  "json_escape c =
     (let n = (of_char c :: nat) in
      if n = 34 then [CHR 0x5C, CHR 0x22]
      else if n = 92 then [CHR 0x5C, CHR 0x5C]
      else if n = 8 then [CHR 0x5C, CHR ''b'']
      else if n = 12 then [CHR 0x5C, CHR ''f'']
      else if n = 10 then [CHR 0x5C, CHR ''n'']
      else if n = 13 then [CHR 0x5C, CHR ''r'']
      else if n = 9 then [CHR 0x5C, CHR ''t'']
      else if n < 32 then [CHR 0x5C, CHR ''u'', CHR ''0'', CHR ''0'', hex_char (n div 16), hex_char (n mod 16)]
      else [c])"

definition json_quote :: "string \<Rightarrow> string" where
  "json_quote s = [CHR 0x22] @ concat (map json_escape s) @ [CHR 0x22]"

text \<open>
  The serialisation of a value; \<open>None\<close> is the result \<^verbatim>\<open>undefined\<close>.  An array prints
  \<^verbatim>\<open>null\<close> for an element that has none, an object leaves the member out.  The
  members come in the order of the association list, and a number that is not finite
  prints as \<^verbatim>\<open>null\<close>.
\<close>

fun JSON_value :: "(rat \<Rightarrow> string) \<Rightarrow> jsval \<Rightarrow> string option" where
  "JSON_value fmt JUndefined = None"
| "JSON_value fmt JNull = Some ''null''"
| "JSON_value fmt (JBool b) = Some (if b then ''true'' else ''false'')"
| "JSON_value fmt (JNum n) = Some (if is_finite n then Number_toString fmt n else ''null'')"
| "JSON_value fmt (JStr s) = Some (json_quote s)"
| "JSON_value fmt (JArr xs) =
     Some (''['' @ join '','' (map (\<lambda>x. case JSON_value fmt x of None \<Rightarrow> ''null'' | Some t \<Rightarrow> t) xs) @ '']'')"
| "JSON_value fmt (JObj kvs) =
     Some (''{'' @ join '',''
        (concat (map (\<lambda>kv. case JSON_value fmt (snd kv) of None \<Rightarrow> []
                              | Some t \<Rightarrow> [json_quote (fst kv) @ '':'' @ t]) kvs)) @ ''}'')"

text \<open>\<^verbatim>\<open>s.replace(/\\s+/g, " ")\<close>: the pattern is a backslash followed by letters \<^verbatim>\<open>s\<close>.\<close>

function replace_backslash_s :: "string \<Rightarrow> string" where
  "replace_backslash_s [] = []"
| "replace_backslash_s (c # cs) =
     (if c = CHR 0x5C \<and> cs \<noteq> [] \<and> hd cs = CHR ''s''
      then CHR '' '' # replace_backslash_s (dropWhile (\<lambda>x. x = CHR ''s'') cs)
      else c # replace_backslash_s cs)"
  by pat_completeness auto

termination
  by (relation "measure length") (auto simp: le_imp_less_Suc length_dropWhile_le)

text \<open>
  The match of \<^verbatim>\<open>/(\d{2,5}(?:[.,]\d+)?)/\<close> at a position where two digits start: up to
  five digits, then a point or comma with digits after it if there is one.
\<close>

definition number_token_at :: "string \<Rightarrow> string" where
  "number_token_at s =
     (let ds = take 5 (takeWhile is_digit s);
          rest = drop (length ds) s
      in if rest \<noteq> [] \<and> (hd rest = CHR ''.'' \<or> hd rest = CHR '','')
            \<and> tl rest \<noteq> [] \<and> is_digit (hd (tl rest))
         then ds @ [hd rest] @ takeWhile is_digit (tl rest)
         else ds)"

text \<open>\<^verbatim>\<open>s.match(...)\<close>: the leftmost match, \<open>None\<close> if there is none.\<close>

fun first_number_token :: "string \<Rightarrow> string option" where
  "first_number_token [] = None"
| "first_number_token (c # cs) =
     (if is_digit c \<and> cs \<noteq> [] \<and> is_digit (hd cs) then Some (number_token_at (c # cs))
      else first_number_token cs)"

text \<open>\<^verbatim>\<open>s.replace(",", ".")\<close>: the first comma.\<close>

fun replace_first_comma :: "string \<Rightarrow> string" where
  "replace_first_comma [] = []"
| "replace_first_comma (c # cs) = (if c = CHR '','' then CHR ''.'' # cs else c # replace_first_comma cs)"

subsection \<open>The candidates\<close>

text \<open>\<^verbatim>\<open>if (t[k] != null) seenNumbers.push(num(t[k], 0));\<close>\<close>

definition push_if_present :: "jsval \<Rightarrow> string \<Rightarrow> jsval list \<Rightarrow> jsval list option" where
  "push_if_present t k seen = do {
     v \<leftarrow> getprop t k;
     Some (if nullish v then seen else seen @ [num v (JNum (Fin 0))])
   }"

text \<open>\<^verbatim>\<open>if (r.totals) { ... k1 ...; ... k2 ... }\<close>\<close>

definition push_totals :: "jsval \<Rightarrow> string \<Rightarrow> string \<Rightarrow> jsval list \<Rightarrow> jsval list option" where
  "push_totals r k1 k2 seen = do {
     t \<leftarrow> getprop r ''totals'';
     if truthy t then do { s1 \<leftarrow> push_if_present t k1 seen; push_if_present t k2 s1 }
     else Some seen
   }"

text \<open>
  The callback of the \<^verbatim>\<open>reduce\<close> in \<^verbatim>\<open>trySumDetails\<close>, with the loop over its two
  keys \<^verbatim>\<open>["calories_burned", "calories"]\<close> written out.  In \<^verbatim>\<open>s + v\<close> both operands
  are numbers: \<open>v\<close> is a result of \<^verbatim>\<open>num\<close> with the default \<open>0\<close>.
\<close>

definition sum_item :: "jsnum \<Rightarrow> jsval \<Rightarrow> jsnum option" where
  "sum_item s it =
     (if \<not> truthy it \<or> typeof it \<noteq> ''object'' then Some s
      else do {
        cb \<leftarrow> getprop it ''calories_burned'';
        if \<not> nullish cb \<and> truthy (num cb (JNum (Fin 0)))
        then Some (js_add s (number_value (num cb (JNum (Fin 0)))))
        else do {
          cal \<leftarrow> getprop it ''calories'';
          if \<not> nullish cal \<and> truthy (num cal (JNum (Fin 0)))
          then Some (js_add s (number_value (num cal (JNum (Fin 0)))))
          else do {
            ct \<leftarrow> getprop it ''calories_text'';
            if truthy ct \<and> truthy (num ct (JNum (Fin 0)))
            then Some (js_add s (number_value (num ct (JNum (Fin 0)))))
            else Some s
          }
        }
      })"

fun reduce_sum :: "jsnum \<Rightarrow> jsval list \<Rightarrow> jsnum option" where
  "reduce_sum s [] = Some s"
| "reduce_sum s (it # rest) = do { s' \<leftarrow> sum_item s it; reduce_sum s' rest }"

definition trySumDetails :: "jsval \<Rightarrow> jsnum option" where
  "trySumDetails arr =
     (if \<not> Array_isArray arr then Some (Fin 0) else reduce_sum (Fin 0) (elements arr))"

text \<open>\<^verbatim>\<open>if (sum > 0) seenNumbers.push(sum);\<close>\<close>

definition push_sum :: "jsnum \<Rightarrow> jsval list \<Rightarrow> jsval list" where
  "push_sum s seen = (if positive s then seen @ [JNum s] else seen)"

text \<open>\<^verbatim>\<open>a.k && a.k.details\<close>\<close>

definition nested_details :: "jsval \<Rightarrow> string \<Rightarrow> jsval option" where
  "nested_details a k = do {
     w \<leftarrow> getprop a k;
     if truthy w then getprop w ''details'' else Some w
   }"

text \<open>The array \<^verbatim>\<open>seenNumbers\<close> when the last resort is reached or skipped.\<close>

definition seenNumbers :: "jsval \<Rightarrow> jsval list option" where
  "seenNumbers analysis = do {
     s1 \<leftarrow> push_totals analysis ''calories_burned'' ''calories'' [];
     w \<leftarrow> getprop analysis ''workout'';
     s2 \<leftarrow> (if truthy w then push_totals w ''calories_burned'' ''calories'' s1 else Some s1);
     f \<leftarrow> getprop analysis ''food'';
     s3 \<leftarrow> (if truthy f then push_totals f ''calories'' ''calories_burned'' s2 else Some s2);
     d \<leftarrow> getprop analysis ''details'';
     detailsSumTop \<leftarrow> trySumDetails d;
     wd \<leftarrow> nested_details analysis ''workout'';
     detailsSumWorkout \<leftarrow> trySumDetails wd;
     fd \<leftarrow> nested_details analysis ''food'';
     detailsSumFood \<leftarrow> trySumDetails fd;
     Some (push_sum detailsSumFood (push_sum detailsSumWorkout (push_sum detailsSumTop s3)))
   }"

text \<open>
  \<^verbatim>\<open>seenNumbers.map(Number).filter(n => Number.isFinite(n) && n > 0)\<close>.  The elements
  of \<^verbatim>\<open>seenNumbers\<close> are numbers (results of \<^verbatim>\<open>num\<close> with the default \<open>0\<close>, and sums),
  so that no conversion here can throw.
\<close>

definition positives :: "jsval list \<Rightarrow> jsnum list" where
  "positives seen = filter (\<lambda>n. is_finite n \<and> positive n) (map number_value seen)"

text \<open>
  The last resort: the first token of two to five digits in the serialised record.
  \<^verbatim>\<open>JSON.stringify\<close> of an object is a string; were it \<^verbatim>\<open>undefined\<close>, the method call
  on it would throw inside the \<^verbatim>\<open>try\<close>, and the function would return \<open>0\<close>.
\<close>

definition last_resort :: "(rat \<Rightarrow> string) \<Rightarrow> jsval \<Rightarrow> jsnum" where
  "last_resort fmt analysis =
     (case JSON_value fmt analysis of
        None \<Rightarrow> Fin 0
      | Some s0 \<Rightarrow>
          (case first_number_token (replace_backslash_s s0) of
             None \<Rightarrow> Fin 0
           | Some m \<Rightarrow>
               (let total = Math_round (StringToNumber (replace_first_comma m))
                in if is_finite total \<and> positive total then total else Fin 0)))"

definition extractCaloriesFromAnalysis :: "(rat \<Rightarrow> string) \<Rightarrow> jsval \<Rightarrow> jsnum option" where
  "extractCaloriesFromAnalysis fmt analysis =
     (if \<not> truthy analysis \<or> typeof analysis \<noteq> ''object'' then Some (Fin 0)
      else do {
        seen \<leftarrow> seenNumbers analysis;
        if seen \<noteq> [] \<and> positives seen \<noteq> []
        then Some (Math_round (Math_max_list (positives seen)))
        else Some (last_resort fmt analysis)
      })"

subsection \<open>Example records\<close>

text \<open>\<^verbatim>\<open>{totals:{calories:450}, details:[{calories:100},{calories:120}]}\<close>\<close>

definition record_450 :: jsval where
  "record_450 = JObj [(''totals'', JObj [(''calories'', JNum (Fin 450))]),
     (''details'', JArr [JObj [(''calories'', JNum (Fin 100))], JObj [(''calories'', JNum (Fin 120))]])]"

text \<open>\<^verbatim>\<open>{totals:{calories:450.6}, details:[{calories:100},{calories:120}]}\<close>\<close>

definition record_450_6 :: jsval where
  "record_450_6 = JObj [(''totals'', JObj [(''calories'', JNum (Fin (2253 / 5)))]),
     (''details'', JArr [JObj [(''calories'', JNum (Fin 100))], JObj [(''calories'', JNum (Fin 120))]])]"

section \<open>ReplyComposer: \<^verbatim>\<open>buildReplyForAnalysis\<close>\<close>

text \<open>
  The reply is text with three characters outside ASCII, written here as their UTF-8
  bytes: the bullet (U+2022), the em dash (U+2014) and the sign "almost equal to"
  (U+2248).
\<close>

definition bullet :: string where
  "bullet = [CHR 0xE2, CHR 0x80, CHR 0xA2]"

definition em_dash :: string where
  "em_dash = [CHR 0xE2, CHR 0x80, CHR 0x94]"

definition approx_sign :: string where
  "approx_sign = [CHR 0xE2, CHR 0x89, CHR 0x88]"

definition newline :: string where
  "newline = [CHR 0x0A]"

definition apology :: string where
  "apology = ''Sorry, I couldn't understand that.''"

text \<open>\<^verbatim>\<open>n || 0\<close> on a number.\<close>

definition num_or_zero :: "jsnum \<Rightarrow> jsnum" where
  "num_or_zero n = (if n = NaN \<or> n = Fin 0 then Fin 0 else n)"

text \<open>
  \<^verbatim>\<open>v.join(sep)\<close>: a \<^verbatim>\<open>TypeError\<close> unless \<open>v\<close> is an array, or when an element is not
  convertible.
\<close>

definition Array_join :: "(rat \<Rightarrow> string) \<Rightarrow> string \<Rightarrow> jsval \<Rightarrow> string option" where
  "Array_join fmt sep v =
     (case v of
        JArr xs \<Rightarrow>
          map_option (join sep)
            (those (map (\<lambda>x. if nullish x then Some [] else ToString fmt x) xs))
      | _ \<Rightarrow> None)"

text \<open>
  \<^verbatim>\<open>Array.isArray(analysis.details) ? analysis.details : []\<close>, on a record that is
  neither \<^verbatim>\<open>null\<close> nor \<^verbatim>\<open>undefined\<close>.
\<close>

definition details_of :: "jsval \<Rightarrow> jsval list" where
  "details_of analysis =
     (if Array_isArray (get analysis ''details'') then elements (get analysis ''details'') else [])"

subsection \<open>Workout\<close>

text \<open>\<^verbatim>\<open>details.reduce((s, d) => s + (Number(d.calories_burned) || 0), 0)\<close>\<close>

fun workout_total :: "jsnum \<Rightarrow> jsval list \<Rightarrow> jsnum option" where
  "workout_total s [] = Some s"
| "workout_total s (d # ds) = do {
     cb \<leftarrow> getprop d ''calories_burned'';
     n \<leftarrow> ToNumber cb;
     workout_total (js_add s (num_or_zero n)) ds
   }"

text \<open>
  The line of a detail:
  \<^verbatim>\<open>
  const act = d?.activity || "Activity";
  const mins = Number(d?.duration_min || 0);
  const kcal = Math.round(Number(d?.calories_burned || 0));
  const intensity = (d?.intensity && d.intensity !== "unknown") ? `, ${d.intensity}` : "";
  const conf = d?.confidence != null ? ` (conf: ${d.confidence})` : "";
  const assumptions = d?.assumptions?.length
    ? `\n   assumptions: ${d.assumptions.join("; ")}` : "";
  return `(bullet) ${act}${intensity} (dash) ${mins} min (approx) ${kcal} kcal${conf}${assumptions}`;
  \<close>
  where \<^verbatim>\<open>(bullet)\<close>, \<^verbatim>\<open>(dash)\<close> and \<^verbatim>\<open>(approx)\<close> stand for the three characters outside
  ASCII.
\<close>

definition workout_line :: "(rat \<Rightarrow> string) \<Rightarrow> jsval \<Rightarrow> string option" where
  "workout_line fmt d = do {
     mins \<leftarrow> ToNumber (js_or (oprop d ''duration_min'') (JNum (Fin 0)));
     kcal \<leftarrow> map_option Math_round (ToNumber (js_or (oprop d ''calories_burned'') (JNum (Fin 0))));
     intensity \<leftarrow>
       (if truthy (oprop d ''intensity'') \<and> oprop d ''intensity'' \<noteq> JStr ''unknown''
        then map_option (\<lambda>t. '', '' @ t) (ToString fmt (oprop d ''intensity''))
        else Some []);
     conf \<leftarrow>
       (if \<not> nullish (oprop d ''confidence'')
        then map_option (\<lambda>t. '' (conf: '' @ t @ '')'') (ToString fmt (oprop d ''confidence''))
        else Some []);
     assumptions \<leftarrow>
       (if truthy (oprop (oprop d ''assumptions'') ''length'')
        then map_option (\<lambda>j. newline @ ''   assumptions: '' @ j)
               (Array_join fmt ''; '' (oprop d ''assumptions''))
        else Some []);
     act \<leftarrow> ToString fmt (js_or (oprop d ''activity'') (JStr ''Activity''));
     Some (bullet @ '' '' @ act @ intensity @ '' '' @ em_dash @ '' ''
           @ Number_toString fmt mins @ '' min '' @ approx_sign @ '' ''
           @ Number_toString fmt kcal @ '' kcal'' @ conf @ assumptions)
   }"

text \<open>\<^verbatim>\<open>`Total estimated calories: ${Math.round(total)}.`\<close>\<close>

definition workout_summary :: "(rat \<Rightarrow> string) \<Rightarrow> jsnum \<Rightarrow> string" where
  "workout_summary fmt tot =
     ''Total estimated calories: '' @ Number_toString fmt (Math_round tot) @ ''.''"

definition workout_reply :: "(rat \<Rightarrow> string) \<Rightarrow> jsval \<Rightarrow> string option" where
  "workout_reply fmt analysis = do {
     tot \<leftarrow> workout_total (Fin 0) (details_of analysis);
     lines \<leftarrow> those (map (workout_line fmt) (details_of analysis));
     Some (''Workout:'' @ newline @ join newline lines @ newline @ workout_summary fmt tot)
   }"

subsection \<open>Food\<close>

text \<open>
  \<^verbatim>\<open>Math.round(Number(i?.calories || 0))\<close> and
  \<^verbatim>\<open>Math.round(Number(i?.macros?.k || 0))\<close>, the rounded values of an item.
\<close>

definition food_kcal :: "jsval \<Rightarrow> jsnum option" where
  "food_kcal i = map_option Math_round (ToNumber (js_or (oprop i ''calories'') (JNum (Fin 0))))"

definition food_macro :: "string \<Rightarrow> jsval \<Rightarrow> jsnum option" where
  "food_macro k i =
     map_option Math_round (ToNumber (js_or (oprop (oprop i ''macros'') k) (JNum (Fin 0))))"

text \<open>
  The line of an item:
  \<^verbatim>\<open>
  const name = i?.item || "Item";
  const qty = Number(i?.quantity || 0);
  const unit = i?.unit || "";
  ...
  const portion = (qty && unit) ? ` (${qty} ${unit})` : (qty ? ` (${qty})` : "");
  return `(bullet) ${name}${portion} (dash) ${kcal} kcal, P:${protein}g, F:${fat}g, C:${carbs}g`;
  \<close>
\<close>

definition food_line :: "(rat \<Rightarrow> string) \<Rightarrow> jsval \<Rightarrow> string option" where
  "food_line fmt i = do {
     qty \<leftarrow> ToNumber (js_or (oprop i ''quantity'') (JNum (Fin 0)));
     kcal \<leftarrow> food_kcal i;
     protein \<leftarrow> food_macro ''protein'' i;
     fat \<leftarrow> food_macro ''fat'' i;
     carbs \<leftarrow> food_macro ''carbs'' i;
     portion \<leftarrow>
       (if truthy (JNum qty) \<and> truthy (js_or (oprop i ''unit'') (JStr []))
        then map_option (\<lambda>u. '' ('' @ Number_toString fmt qty @ '' '' @ u @ '')'')
               (ToString fmt (js_or (oprop i ''unit'') (JStr [])))
        else if truthy (JNum qty) then Some ('' ('' @ Number_toString fmt qty @ '')'')
        else Some []);
     name \<leftarrow> ToString fmt (js_or (oprop i ''item'') (JStr ''Item''));
     Some (bullet @ '' '' @ name @ portion @ '' '' @ em_dash @ '' ''
           @ Number_toString fmt kcal @ '' kcal, P:''
           @ Number_toString fmt protein @ ''g, F:''
           @ Number_toString fmt fat @ ''g, C:''
           @ Number_toString fmt carbs @ ''g'')
   }"

text \<open>
  The accumulators \<^verbatim>\<open>totalCalories += kcal\<close> and the like, run over the items; they
  start at \<open>0\<close>.
\<close>

definition accumulate :: "(jsval \<Rightarrow> jsnum option) \<Rightarrow> jsval list \<Rightarrow> jsnum option" where
  "accumulate f items = map_option (foldl js_add (Fin 0)) (those (map f items))"

text \<open>
  \<^verbatim>\<open>`Totals (dash) Calories: ${totalCalories}, Protein: ${totalProtein}g, Fat: ${totalFat}g,
  Carbs: ${totalCarbs}g`\<close>
\<close>

definition food_summary :: "(rat \<Rightarrow> string) \<Rightarrow> jsnum \<Rightarrow> jsnum \<Rightarrow> jsnum \<Rightarrow> jsnum \<Rightarrow> string" where
  "food_summary fmt totalCalories totalProtein totalFat totalCarbs =
     ''Totals '' @ em_dash @ '' Calories: '' @ Number_toString fmt totalCalories
     @ '', Protein: '' @ Number_toString fmt totalProtein
     @ ''g, Fat: '' @ Number_toString fmt totalFat
     @ ''g, Carbs: '' @ Number_toString fmt totalCarbs @ ''g''"

definition reference :: string where
  "reference =
     newline @ newline @ ''*Healthy Daily Reference* (average adult):'' @ newline
     @ ''Calories: ~2000 kcal'' @ newline @ ''Protein: ~75g'' @ newline
     @ ''Fat: ~65g'' @ newline @ ''Carbs: ~250g''"

text \<open>
  The food branch.  The callback of \<^verbatim>\<open>details.map\<close> makes the line of an item and
  adds its rounded values to the accumulators; an exception in it ends the function.
\<close>

definition food_reply :: "(rat \<Rightarrow> string) \<Rightarrow> jsval \<Rightarrow> string option" where
  "food_reply fmt analysis = do {
     lines \<leftarrow> those (map (food_line fmt) (details_of analysis));
     totalCalories \<leftarrow> accumulate food_kcal (details_of analysis);
     totalProtein \<leftarrow> accumulate (food_macro ''protein'') (details_of analysis);
     totalFat \<leftarrow> accumulate (food_macro ''fat'') (details_of analysis);
     totalCarbs \<leftarrow> accumulate (food_macro ''carbs'') (details_of analysis);
     Some (if lines \<noteq> []
           then ''Food:'' @ newline @ join newline lines @ newline
                @ food_summary fmt totalCalories totalProtein totalFat totalCarbs @ reference
           else ''Food:'' @ newline
                @ food_summary fmt totalCalories totalProtein totalFat totalCarbs @ reference)
   }"

subsection \<open>The composer\<close>

text \<open>
  \<^verbatim>\<open>
  if (!analysis || !analysis.type) return "Sorry, I couldn't understand that.";
  if (analysis.type === "workout") { ... }
  // FOOD
  ...
  \<close>
  \<open>None\<close> is an exception thrown while the reply is made.
\<close>

definition buildReplyForAnalysis :: "(rat \<Rightarrow> string) \<Rightarrow> jsval \<Rightarrow> string option" where
  "buildReplyForAnalysis fmt analysis =
     (if \<not> truthy analysis then Some apology
      else do {
        ty \<leftarrow> getprop analysis ''type'';
        if \<not> truthy ty then Some apology
        else if ty = JStr ''workout'' then workout_reply fmt analysis
        else food_reply fmt analysis
      })"

subsection \<open>Example records\<close>

text \<open>\<^verbatim>\<open>{type:"snack", details:[]}\<close>\<close>

definition record_snack :: jsval where
  "record_snack = JObj [(''type'', JStr ''snack''), (''details'', JArr [])]"

text \<open>\<^verbatim>\<open>{type:"food", details:[], totals:{calories:500}}\<close> and the same without totals.\<close>

definition food_with_totals :: jsval where
  "food_with_totals = JObj [(''type'', JStr ''food''), (''details'', JArr []),
     (''totals'', JObj [(''calories'', JNum (Fin 500))])]"

definition food_without_totals :: jsval where
  "food_without_totals = JObj [(''type'', JStr ''food''), (''details'', JArr [])]"

text \<open>\<^verbatim>\<open>{type:"workout", details:[], totals:{calories_burned:300}}\<close>\<close>

definition workout_with_totals :: jsval where
  "workout_with_totals = JObj [(''type'', JStr ''workout''), (''details'', JArr []),
     (''totals'', JObj [(''calories_burned'', JNum (Fin 300))])]"

text \<open>
  \<^verbatim>\<open>{type:"workout", details:[{activity:"run", duration_min:30, calories_burned:250.4},
  {calories_burned:"99.4"}], totals:{calories_burned:999}}\<close>
\<close>

definition workout_two :: jsval where
  "workout_two = JObj [(''type'', JStr ''workout''),
     (''details'', JArr [JObj [(''activity'', JStr ''run''), (''duration_min'', JNum (Fin 30)),
                              (''calories_burned'', JNum (Fin (1252 / 5)))],
                        JObj [(''calories_burned'', JStr ''99.4'')]]),
     (''totals'', JObj [(''calories_burned'', JNum (Fin 999))])]"

text \<open>
  \<^verbatim>\<open>{type:"food", details:[{item:"dal", calories:100.4, macros:{protein:5.5}},
  {item:"rice", quantity:2, unit:"cup", calories:120.4}], totals:{calories:999}}\<close>
\<close>

definition food_two :: jsval where
  "food_two = JObj [(''type'', JStr ''food''),
     (''details'', JArr [JObj [(''item'', JStr ''dal''), (''calories'', JNum (Fin (502 / 5))),
                              (''macros'', JObj [(''protein'', JNum (Fin (11 / 2)))])],
                        JObj [(''item'', JStr ''rice''), (''quantity'', JNum (Fin 2)),
                              (''unit'', JStr ''cup''), (''calories'', JNum (Fin (602 / 5)))]]),
     (''totals'', JObj [(''calories'', JNum (Fin 999))])]"

text \<open>\<^verbatim>\<open>{type:"snack", details:[{item:{toString:1}}]}\<close>: an item that is not convertible.\<close>

definition record_unprintable :: jsval where
  "record_unprintable = JObj [(''type'', JStr ''snack''),
     (''details'', JArr [JObj [(''item'', JObj [(''toString'', JNum (Fin 1))])]])]"

section \<open>Extractor: the normalisation of food items\<close>

text \<open>
  The three food paths map every detail of the parsed model output to a fresh object.
  \<^verbatim>\<open>analyzeContentWithChatGPT\<close> (text) and \<^verbatim>\<open>analyzeImageWithChatGPT\<close> (image) use
  \<^verbatim>\<open>
  d => ({
    item: d?.item ?? "",
    quantity: Number(d?.quantity ?? 0) || 0,
    unit: d?.unit ?? "",
    calories: Number(d?.calories ?? 0) || 0,
    macros: { protein: Number(d?.macros?.protein ?? 0) || 0,
              fat:     Number(d?.macros?.fat ?? 0) || 0,
              carbs:   Number(d?.macros?.carbs ?? 0) || 0 },
    brand: d?.brand ?? "",
    source: d?.source ?? "",
    confidence: Math.max(0, Math.min(1, Number(d?.confidence ?? 0))) || 0
  })
  \<close>
  and the vision step of \<^verbatim>\<open>/analyze-image-with-text\<close> the same with the item as a
  string, the source \<^verbatim>\<open>"vision"\<close> by default and a list of assumptions.
\<close>

text \<open>\<^verbatim>\<open>Number(v ?? 0) || 0\<close>\<close>

definition coerce_number :: "jsval \<Rightarrow> jsval option" where
  "coerce_number v =
     map_option (\<lambda>n. JNum (num_or_zero n)) (ToNumber (js_coalesce v (JNum (Fin 0))))"

text \<open>\<^verbatim>\<open>Math.max(0, Math.min(1, Number(v ?? 0))) || 0\<close>\<close>

definition coerce_confidence :: "jsval \<Rightarrow> jsval option" where
  "coerce_confidence v =
     map_option (\<lambda>n. JNum (num_or_zero (Math_max (Fin 0) (Math_min (Fin 1) n))))
       (ToNumber (js_coalesce v (JNum (Fin 0))))"

definition coerce_macros :: "jsval \<Rightarrow> jsval option" where
  "coerce_macros d = do {
     protein \<leftarrow> coerce_number (oprop (oprop d ''macros'') ''protein'');
     fat \<leftarrow> coerce_number (oprop (oprop d ''macros'') ''fat'');
     carbs \<leftarrow> coerce_number (oprop (oprop d ''macros'') ''carbs'');
     Some (JObj [(''protein'', protein), (''fat'', fat), (''carbs'', carbs)])
   }"

text \<open>The callback of the text path; \<open>None\<close> is an exception thrown by a conversion.\<close>

definition normalize_text_item :: "jsval \<Rightarrow> jsval option" where
  "normalize_text_item d = do {
     quantity \<leftarrow> coerce_number (oprop d ''quantity'');
     calories \<leftarrow> coerce_number (oprop d ''calories'');
     macros \<leftarrow> coerce_macros d;
     confidence \<leftarrow> coerce_confidence (oprop d ''confidence'');
     Some (JObj [(''item'', js_coalesce (oprop d ''item'') (JStr [])),
                 (''quantity'', quantity),
                 (''unit'', js_coalesce (oprop d ''unit'') (JStr [])),
                 (''calories'', calories),
                 (''macros'', macros),
                 (''brand'', js_coalesce (oprop d ''brand'') (JStr [])),
                 (''source'', js_coalesce (oprop d ''source'') (JStr [])),
                 (''confidence'', confidence)])
   }"

text \<open>The callback of the image path, which is written the same.\<close>

definition normalize_image_item :: "jsval \<Rightarrow> jsval option" where
  "normalize_image_item d = do {
     quantity \<leftarrow> coerce_number (oprop d ''quantity'');
     calories \<leftarrow> coerce_number (oprop d ''calories'');
     macros \<leftarrow> coerce_macros d;
     confidence \<leftarrow> coerce_confidence (oprop d ''confidence'');
     Some (JObj [(''item'', js_coalesce (oprop d ''item'') (JStr [])),
                 (''quantity'', quantity),
                 (''unit'', js_coalesce (oprop d ''unit'') (JStr [])),
                 (''calories'', calories),
                 (''macros'', macros),
                 (''brand'', js_coalesce (oprop d ''brand'') (JStr [])),
                 (''source'', js_coalesce (oprop d ''source'') (JStr [])),
                 (''confidence'', confidence)])
   }"

text \<open>
  \<^verbatim>\<open>Array.isArray(a) ? a : (a ? [String(a)] : dflt)\<close>, the assumptions of a
  normalised item.
\<close>

definition coerce_assumptions :: "(rat \<Rightarrow> string) \<Rightarrow> jsval list \<Rightarrow> jsval \<Rightarrow> jsval option" where
  "coerce_assumptions fmt dflt a =
     (if Array_isArray a then Some a
      else if truthy a then map_option (\<lambda>t. JArr [JStr t]) (ToString fmt a)
      else Some (JArr dflt))"

text \<open>
  The callback of the vision step:
  \<^verbatim>\<open>
  d => ({
    item: (d?.item ?? "").toString(),
    quantity: Number(d?.quantity ?? 0) || 0,
    unit: d?.unit ?? "",
    calories: Number(d?.calories ?? 0) || 0,
    macros: { ... },
    brand: d?.brand ?? "",
    source: d?.source ?? "vision",
    confidence: Math.max(0, Math.min(1, Number(d?.confidence ?? 0))) || 0,
    assumptions: Array.isArray(d?.assumptions) ? d.assumptions
                   : (d?.assumptions ? [String(d.assumptions)] : [])
  })
  \<close>
\<close>

definition normalize_vision_item :: "(rat \<Rightarrow> string) \<Rightarrow> jsval \<Rightarrow> jsval option" where
  "normalize_vision_item fmt d = do {
     item \<leftarrow> ToString fmt (js_coalesce (oprop d ''item'') (JStr []));
     quantity \<leftarrow> coerce_number (oprop d ''quantity'');
     calories \<leftarrow> coerce_number (oprop d ''calories'');
     macros \<leftarrow> coerce_macros d;
     confidence \<leftarrow> coerce_confidence (oprop d ''confidence'');
     assumptions \<leftarrow> coerce_assumptions fmt [] (oprop d ''assumptions'');
     Some (JObj [(''item'', JStr item),
                 (''quantity'', quantity),
                 (''unit'', js_coalesce (oprop d ''unit'') (JStr [])),
                 (''calories'', calories),
                 (''macros'', macros),
                 (''brand'', js_coalesce (oprop d ''brand'') (JStr [])),
                 (''source'', js_coalesce (oprop d ''source'') (JStr ''vision'')),
                 (''confidence'', confidence),
                 (''assumptions'', assumptions)])
   }"

text \<open>\<^verbatim>\<open>out.details = v\<close> on the parsed output (an object whenever it has a type).\<close>

definition set_details :: "jsval \<Rightarrow> jsval \<Rightarrow> jsval" where
  "set_details out v = (case out of JObj kvs \<Rightarrow> JObj (assign kvs ''details'' v) | _ \<Rightarrow> out)"

text \<open>
  What the text analyzer returns for the parsed model output \<open>out\<close> (\<^verbatim>\<open>{}\<close> when the
  output does not parse):
  \<^verbatim>\<open>
  if (!out || out.type !== "food") return { type: "food", details: [] };
  if (!Array.isArray(out.details)) out.details = [];
  out.details = out.details.map(...);
  return out;
  \<close>
  The callback runs outside any \<^verbatim>\<open>try\<close>: an exception in it ends the analyzer.
\<close>

definition text_food_output :: "jsval \<Rightarrow> jsval option" where
  "text_food_output out =
     (if \<not> truthy out \<or> get out ''type'' \<noteq> JStr ''food''
      then Some (JObj [(''type'', JStr ''food''), (''details'', JArr [])])
      else map_option (\<lambda>items. set_details out (JArr items))
             (those (map normalize_text_item (details_of out))))"

definition image_food_output :: "jsval \<Rightarrow> jsval option" where
  "image_food_output out =
     (if \<not> truthy out \<or> get out ''type'' \<noteq> JStr ''food''
      then Some (JObj [(''type'', JStr ''food''), (''details'', JArr [])])
      else map_option (\<lambda>items. set_details out (JArr items))
             (those (map normalize_image_item (details_of out))))"

text \<open>
  The vision record of \<^verbatim>\<open>/analyze-image-with-text\<close>, for the parsed vision output
  (\<^verbatim>\<open>null\<close> when it does not parse or the call fails):
  \<^verbatim>\<open>
  if (!visionParsed || visionParsed.type !== "food")
    visionParsed = { type: "food", details: [], totals: { calories: 0, assumptions: [], confidence: 0 } };
  visionParsed.details = Array.isArray(visionParsed.details) ? visionParsed.details.map(...) : [];
  \<close>
\<close>

definition empty_vision :: jsval where
  "empty_vision =
     JObj [(''type'', JStr ''food''), (''details'', JArr []),
           (''totals'', JObj [(''calories'', JNum (Fin 0)), (''assumptions'', JArr []),
                              (''confidence'', JNum (Fin 0))])]"

definition vision_food_output :: "(rat \<Rightarrow> string) \<Rightarrow> jsval \<Rightarrow> jsval option" where
  "vision_food_output fmt visionParsed =
     (let v = (if \<not> truthy visionParsed \<or> get visionParsed ''type'' \<noteq> JStr ''food''
               then empty_vision else visionParsed)
      in map_option (\<lambda>items. set_details v (JArr items))
           (those (map (normalize_vision_item fmt) (details_of v))))"

subsection \<open>What the normalisation guarantees\<close>

text \<open>A field that holds a number other than \<open>NaN\<close>, and one that holds a number in \<open>[0, 1]\<close>.\<close>

definition number_not_NaN :: "jsval \<Rightarrow> bool" where
  "number_not_NaN v = (case v of JNum n \<Rightarrow> n \<noteq> NaN | _ \<Rightarrow> False)"

definition in_unit_interval :: "jsval \<Rightarrow> bool" where
  "in_unit_interval v = (case v of JNum (Fin c) \<Rightarrow> 0 \<le> c \<and> c \<le> 1 | _ \<Rightarrow> False)"

definition normalized_item :: "jsval \<Rightarrow> bool" where
  "normalized_item i =
     (number_not_NaN (get i ''quantity'') \<and> number_not_NaN (get i ''calories'')
      \<and> number_not_NaN (get (get i ''macros'') ''protein'')
      \<and> number_not_NaN (get (get i ''macros'') ''fat'')
      \<and> number_not_NaN (get (get i ''macros'') ''carbs'')
      \<and> in_unit_interval (get i ''confidence''))"

text \<open>
  The relation between an input and the numeric field made of it: \<open>0\<close> for an input
  that is absent (\<^verbatim>\<open>null\<close>, \<^verbatim>\<open>undefined\<close>) or whose number is \<open>NaN\<close>, and the number of
  the input otherwise, whatever its sign and size.
\<close>

definition kept_number :: "jsval \<Rightarrow> jsval \<Rightarrow> bool" where
  "kept_number input field =
     (if nullish input then field = JNum (Fin 0)
      else convertible input
           \<and> field = JNum (if number_value input = NaN then Fin 0 else number_value input))"

text \<open>The same for the confidence, which is brought into \<open>[0, 1]\<close>.\<close>

fun unit_clamp :: "jsnum \<Rightarrow> jsnum" where
  "unit_clamp (Fin c) = Fin (max 0 (min 1 c))"
| "unit_clamp PInf = Fin 1"
| "unit_clamp n = Fin 0"

definition kept_confidence :: "jsval \<Rightarrow> jsval \<Rightarrow> bool" where
  "kept_confidence input field =
     (if nullish input then field = JNum (Fin 0)
      else convertible input \<and> field = JNum (unit_clamp (number_value input)))"

text \<open>A detail \<open>d\<close> of the parsed output and the item \<open>i\<close> made of it.\<close>

definition item_kept :: "jsval \<Rightarrow> jsval \<Rightarrow> bool" where
  "item_kept d i =
     (kept_number (oprop d ''quantity'') (get i ''quantity'')
      \<and> kept_number (oprop d ''calories'') (get i ''calories'')
      \<and> kept_number (oprop (oprop d ''macros'') ''protein'') (get (get i ''macros'') ''protein'')
      \<and> kept_number (oprop (oprop d ''macros'') ''fat'') (get (get i ''macros'') ''fat'')
      \<and> kept_number (oprop (oprop d ''macros'') ''carbs'') (get (get i ''macros'') ''carbs'')
      \<and> kept_confidence (oprop d ''confidence'') (get i ''confidence''))"

text \<open>
  A parsed output with two details: one with numbers and numeric strings in its fields,
  calories that do not convert to a number and a confidence above \<open>1\<close>, and a \<^verbatim>\<open>null\<close>
  detail.
\<close>

definition raw_detail :: jsval where
  "raw_detail =
     JObj [(''item'', JStr ''dal''), (''quantity'', JStr ''2''), (''calories'', JStr ''abc''),
           (''macros'', JObj [(''protein'', JNum (Fin (21 / 2))), (''fat'', JNum (Fin (- 3)))]),
           (''confidence'', JNum (Fin 7))]"

definition raw_food_output :: jsval where
  "raw_food_output = JObj [(''type'', JStr ''food''), (''details'', JArr [raw_detail, JNull])]"

text \<open>What the text path and the image path make of these two details.\<close>

definition raw_detail_normalized :: jsval where
  "raw_detail_normalized =
     JObj [(''item'', JStr ''dal''), (''quantity'', JNum (Fin 2)), (''unit'', JStr []),
           (''calories'', JNum (Fin 0)),
           (''macros'', JObj [(''protein'', JNum (Fin (21 / 2))), (''fat'', JNum (Fin (- 3))),
                              (''carbs'', JNum (Fin 0))]),
           (''brand'', JStr []), (''source'', JStr []), (''confidence'', JNum (Fin 1))]"

definition null_detail_normalized :: jsval where
  "null_detail_normalized =
     JObj [(''item'', JStr []), (''quantity'', JNum (Fin 0)), (''unit'', JStr []),
           (''calories'', JNum (Fin 0)),
           (''macros'', JObj [(''protein'', JNum (Fin 0)), (''fat'', JNum (Fin 0)),
                              (''carbs'', JNum (Fin 0))]),
           (''brand'', JStr []), (''source'', JStr []), (''confidence'', JNum (Fin 0))]"

definition raw_food_normalized :: jsval where
  "raw_food_normalized =
     JObj [(''type'', JStr ''food''),
           (''details'', JArr [raw_detail_normalized, null_detail_normalized])]"

text \<open>
  \<^verbatim>\<open>{type:"food", details:[{quantity:Infinity, calories:-5}]}\<close>; the quantity is what
  \<^verbatim>\<open>JSON.parse\<close> makes of \<^verbatim>\<open>1e999\<close>.
\<close>

definition unbounded_food_output :: jsval where
  "unbounded_food_output =
     JObj [(''type'', JStr ''food''),
           (''details'', JArr [JObj [(''quantity'', JNum PInf), (''calories'', JNum (Fin (- 5)))]])]"

text \<open>A parsed output with a detail whose calories are not convertible.\<close>

definition unconvertible_food_output :: jsval where
  "unconvertible_food_output =
     JObj [(''type'', JStr ''food''),
           (''details'', JArr [JObj [(''calories'', JObj [(''toString'', JNum (Fin 1))])]])]"

section \<open>Classifier\<close>

text \<open>
  The inference client \<^verbatim>\<open>openai.chat.completions.create\<close> is a parameter: a function
  from the request (its user content) to the response, \<open>None\<close> when the call throws.
\<close>

text \<open>\<^verbatim>\<open>resp?.choices?.[0]?.message?.content\<close>\<close>

definition message_content :: "jsval \<Rightarrow> jsval" where
  "message_content resp = oprop (oprop (oindex0 (oprop resp ''choices'')) ''message'') ''content''"

text \<open>The user content \<^verbatim>\<open>`INPUT:\n"""${input}"""`\<close>; byte 34 is the double quote.\<close>

definition text_request :: "string \<Rightarrow> string" where
  "text_request input =
     ''INPUT:'' @ newline @ [CHR 0x22, CHR 0x22, CHR 0x22] @ input @ [CHR 0x22, CHR 0x22, CHR 0x22]"

text \<open>
  \<^verbatim>\<open>
  async function classifyFoodOrWorkoutFromText(text) {
    try {
      const input = (text || "").toString().trim();
      if (!input) return "food";
      const resp = await openai.chat.completions.create({ ... });
      const content = String(resp?.choices?.[0]?.message?.content || "").toLowerCase();
      if (content.includes("workout")) return "workout";
      return "food";
    } catch (err) { return "food"; }
  }
  \<close>
  \<open>text_label\<close> is the body of the \<^verbatim>\<open>try\<close>, \<open>None\<close> an exception in it: of
  \<^verbatim>\<open>toString\<close> on an input that is not convertible, of the inference call, or of
  \<^verbatim>\<open>String\<close> on a content that is not convertible.  The \<^verbatim>\<open>catch\<close> turns it into
  \<^verbatim>\<open>"food"\<close>.
\<close>

definition text_label ::
  "(rat \<Rightarrow> string) \<Rightarrow> (string \<Rightarrow> jsval option) \<Rightarrow> jsval \<Rightarrow> string option" where
  "text_label fmt create text = do {
     t \<leftarrow> ToString fmt (js_or text (JStr []));
     if trim t = [] then Some ''food''
     else do {
       resp \<leftarrow> create (text_request (trim t));
       content \<leftarrow> ToString fmt (js_or (message_content resp) (JStr []));
       Some (if str_includes (toLowerCase content) ''workout'' then ''workout'' else ''food'')
     }
   }"

definition classifyFoodOrWorkoutFromText ::
  "(rat \<Rightarrow> string) \<Rightarrow> (string \<Rightarrow> jsval option) \<Rightarrow> jsval \<Rightarrow> string" where
  "classifyFoodOrWorkoutFromText fmt create text =
     (case text_label fmt create text of None \<Rightarrow> ''food'' | Some label \<Rightarrow> label)"

text \<open>The image of the request, \<^verbatim>\<open>`data:${mimeType};base64,${imageBase64}`\<close>.\<close>

definition image_request :: "string \<Rightarrow> string \<Rightarrow> string" where
  "image_request mimeType imageBase64 = ''data:'' @ mimeType @ '';base64,'' @ imageBase64"

text \<open>
  The file declares \<^verbatim>\<open>classifyFoodOrWorkoutFromImage\<close> twice; the second declaration
  (two parameters) is the one in force.
  \<^verbatim>\<open>
  async function classifyFoodOrWorkoutFromImage(imageBase64, mimeType) {
    try {
      const r = await openai.chat.completions.create({ ... });
      return (r.choices?.[0]?.message?.content || "food").trim().toLowerCase()
               .includes("workout") ? "workout" : "food";
    } catch { return "food"; }
  }
  \<close>
  \<^verbatim>\<open>r.choices\<close> throws on a response that is \<^verbatim>\<open>null\<close> or \<^verbatim>\<open>undefined\<close>, and \<^verbatim>\<open>.trim()\<close> on
  a content that is not a string; both are caught.
\<close>

definition classifyFoodOrWorkoutFromImage ::
  "(string \<Rightarrow> jsval option) \<Rightarrow> string \<Rightarrow> string \<Rightarrow> string" where
  "classifyFoodOrWorkoutFromImage create imageBase64 mimeType =
     (case do {
             r \<leftarrow> create (image_request mimeType imageBase64);
             choices \<leftarrow> getprop r ''choices'';
             (case js_or (oprop (oprop (oindex0 choices) ''message'') ''content'') (JStr ''food'') of
                JStr s \<Rightarrow>
                  Some (if str_includes (toLowerCase (trim s)) ''workout''
                        then ''workout'' else ''food'')
              | _ \<Rightarrow> None)
           } of
        None \<Rightarrow> ''food''
      | Some label \<Rightarrow> label)"

text \<open>A client that answers every request with one response, and one that throws.\<close>

definition answering :: "jsval \<Rightarrow> string \<Rightarrow> jsval option" where
  "answering resp request = Some resp"

definition throwing :: "string \<Rightarrow> jsval option" where
  "throwing request = None"

text \<open>\<^verbatim>\<open>{choices:[{message:{content: c}}]}\<close>\<close>

definition chat_response :: "string \<Rightarrow> jsval" where
  "chat_response c = JObj [(''choices'', JArr [JObj [(''message'', JObj [(''content'', JStr c)])]])]"

text \<open>\<^verbatim>\<open>{toString:1}\<close>, an input that is not convertible.\<close>

definition unconvertible_text :: jsval where
  "unconvertible_text = JObj [(''toString'', JNum (Fin 1))]"

section \<open>AudioPreprocessor: \<^verbatim>\<open>preprocessAudio\<close>\<close>

text \<open>
  The file system is a map from paths to contents.  The shell call \<^verbatim>\<open>execPromise\<close>
  is a parameter: given the command and the file system, it resolves or rejects (with
  a message) and leaves a file system behind.
\<close>

type_synonym filesystem = "string \<Rightarrow> string option"

datatype exec_outcome = Resolved | Rejected string

text \<open>
  \<^verbatim>\<open>
  async function ensureRnnoiseModel() {
    if (RNNOISE_MODEL && fs.existsSync(RNNOISE_MODEL)) return RNNOISE_MODEL;
    return null;
  }
  \<close>
  \<^verbatim>\<open>RNNOISE_MODEL\<close> is an environment variable: a string, or \<open>None\<close> when unset.
\<close>

definition ensureRnnoiseModel :: "string option \<Rightarrow> filesystem \<Rightarrow> string option" where
  "ensureRnnoiseModel RNNOISE_MODEL fs =
     (case RNNOISE_MODEL of
        None \<Rightarrow> None
      | Some p \<Rightarrow> if p \<noteq> [] \<and> fs p \<noteq> None then Some p else None)"

text \<open>The \<^verbatim>\<open>ffmpeg\<close> command line; \<open>denoise\<close> is the optional first filter.\<close>

definition ffmpeg_command :: "string \<Rightarrow> string \<Rightarrow> string \<Rightarrow> string" where
  "ffmpeg_command denoise rawPath cleanedPath =
     ''ffmpeg -y -hide_banner -loglevel error -i '' @ [CHR 0x22] @ rawPath @ [CHR 0x22]
     @ '' -af '' @ [CHR 0x22] @ denoise
     @ ''silenceremove=1:0:-50dB,loudnorm=i=-22:tp=-2:lra=7'' @ [CHR 0x22]
     @ '' -ac 1 -ar 16000 '' @ [CHR 0x22] @ cleanedPath @ [CHR 0x22]"

definition preprocess_command :: "string option \<Rightarrow> filesystem \<Rightarrow> string \<Rightarrow> string \<Rightarrow> string" where
  "preprocess_command RNNOISE_MODEL fs rawPath cleanedPath =
     (case ensureRnnoiseModel RNNOISE_MODEL fs of
        None \<Rightarrow> ffmpeg_command [] rawPath cleanedPath
      | Some modelPath \<Rightarrow>
          if modelPath \<noteq> [] \<and> fs modelPath \<noteq> None
          then ffmpeg_command (''arnndn=m='' @ modelPath @ '','') rawPath cleanedPath
          else ffmpeg_command [] rawPath cleanedPath)"

text \<open>
  \<^verbatim>\<open>
  async function preprocessAudio(rawPath, cleanedPath) {
    ...
    try { await execPromise(cmd); return cleanedPath; }
    catch (e) { console.warn(...); return rawPath; }
  }
  \<close>
  The result is the path to hand to the transcription, with the file system the call
  left.
\<close>

definition preprocessAudio ::
  "string option \<Rightarrow> (string \<Rightarrow> filesystem \<Rightarrow> exec_outcome \<times> filesystem) \<Rightarrow> filesystem
     \<Rightarrow> string \<Rightarrow> string \<Rightarrow> string \<times> filesystem" where
  "preprocessAudio RNNOISE_MODEL execPromise fs rawPath cleanedPath =
     (case execPromise (preprocess_command RNNOISE_MODEL fs rawPath cleanedPath) fs of
        (Resolved, fs') \<Rightarrow> (cleanedPath, fs')
      | (Rejected message, fs') \<Rightarrow> (rawPath, fs'))"

text \<open>
  The bytes \<^verbatim>\<open>transcribeAudioWithWhisper\<close> streams to the transcription: it writes the
  buffer to the raw path, preprocesses, and opens the path returned; \<open>None\<close> is its
  error "Audio file missing before Whisper".
\<close>

definition raw_path :: "string \<Rightarrow> string" where
  "raw_path stamp = ''/tmp/'' @ stamp @ ''-raw.audio''"

definition cleaned_path :: "string \<Rightarrow> string" where
  "cleaned_path stamp = ''/tmp/'' @ stamp @ ''-cleaned.wav''"

definition whisper_input ::
  "string option \<Rightarrow> (string \<Rightarrow> filesystem \<Rightarrow> exec_outcome \<times> filesystem) \<Rightarrow> filesystem
     \<Rightarrow> string \<Rightarrow> string \<Rightarrow> string option" where
  "whisper_input RNNOISE_MODEL execPromise fs stamp audioBuffer =
     (let written = fs(raw_path stamp \<mapsto> audioBuffer);
          prepared = preprocessAudio RNNOISE_MODEL execPromise written
                       (raw_path stamp) (cleaned_path stamp)
      in (snd prepared) (fst prepared))"

text \<open>A shell in which \<^verbatim>\<open>ffmpeg\<close> is not installed.\<close>

definition no_ffmpeg :: "string \<Rightarrow> filesystem \<Rightarrow> exec_outcome \<times> filesystem" where
  "no_ffmpeg cmd fs = (Rejected ''ffmpeg: not found'', fs)"

section \<open>MediaFetcher: \<^verbatim>\<open>fetchMetaMediaBytes\<close>\<close>

text \<open>
  The network is a parameter.  \<open>lookup\<close> is the outcome of the request for the media
  object: its response data, or \<open>None\<close> when the request throws.  \<open>server k auth\<close> is
  the outcome of download attempt \<open>k\<close>, sent with the bearer credential or without it.
  The function's effects are recorded as a list of events.  The two options are
  integers (\<open>None\<close> when not given), and a delay is in milliseconds.
\<close>

datatype fetch_error = MediaObjectError | NoUrlField | DownloadFailed

datatype http_outcome = NetworkError | Response int string

datatype fetch_event = Download nat bool | Sleep int

record fetch_opts =
  maxRetries :: "int option"
  retryDelayMs :: "int option"

text \<open>\<^verbatim>\<open>(opts.maxRetries != null) ? opts.maxRetries : 3\<close> and the same for the delay.\<close>

definition max_retries :: "fetch_opts \<Rightarrow> int" where
  "max_retries opts = (case maxRetries opts of Some m \<Rightarrow> m | None \<Rightarrow> 3)"

definition base_delay :: "fetch_opts \<Rightarrow> int" where
  "base_delay opts = (case retryDelayMs opts of Some d \<Rightarrow> d | None \<Rightarrow> 300)"

text \<open>\<^verbatim>\<open>resp.status >= 200 && resp.status < 300\<close>; a network error is caught in the loop.\<close>

fun succeeded :: "http_outcome \<Rightarrow> bool" where
  "succeeded (Response status body) = (200 \<le> status \<and> status < 300)"
| "succeeded NetworkError = False"

fun response_body :: "http_outcome \<Rightarrow> string" where
  "response_body (Response status body) = body"
| "response_body NetworkError = []"

text \<open>
  \<^verbatim>\<open>
  let attempt = 0;
  while (attempt <= maxRetries) {
    const useAuth = attempt > 0;
    try {
      const resp = await tryDownload(url, useAuth);
      if (resp.status >= 200 && resp.status < 300) return { buffer: ..., mimeType: ... };
      ...
    } catch (err) { ... }
    attempt++;
    const delay = baseDelay * Math.pow(2, attempt);
    await new Promise((r) => setTimeout(r, delay));
  }
  throw new Error("Failed to download media after retries.");
  \<close>
  The loop returns the body of the first response that succeeded, or \<open>None\<close> when it
  runs out; the events so far are threaded through.
\<close>

function download_loop ::
  "(nat \<Rightarrow> bool \<Rightarrow> http_outcome) \<Rightarrow> int \<Rightarrow> int \<Rightarrow> nat \<Rightarrow> fetch_event list
     \<Rightarrow> string option \<times> fetch_event list" where
  "download_loop server maxR baseDelay attempt trace =
     (if int attempt \<le> maxR
      then (if succeeded (server attempt (0 < attempt))
            then (Some (response_body (server attempt (0 < attempt))),
                  trace @ [Download attempt (0 < attempt)])
            else download_loop server maxR baseDelay (Suc attempt)
                   (trace @ [Download attempt (0 < attempt), Sleep (baseDelay * 2 ^ Suc attempt)]))
      else (None, trace))"
  by pat_completeness auto

termination
  by (relation "measure (\<lambda>(server, maxR, baseDelay, attempt, trace). nat (maxR + 1 - int attempt))")
    auto

declare download_loop.simps [simp del]

text \<open>
  The whole function.  The error thrown when the loop runs out is the one the
  specification calls \<^verbatim>\<open>MediaUnavailable\<close>.
\<close>

definition fetchMetaMediaBytes ::
  "jsval option \<Rightarrow> (nat \<Rightarrow> bool \<Rightarrow> http_outcome) \<Rightarrow> fetch_opts
     \<Rightarrow> (fetch_error + string \<times> jsval) \<times> fetch_event list" where
  "fetchMetaMediaBytes lookup server opts =
     (case lookup of
        None \<Rightarrow> (Inl MediaObjectError, [])
      | Some data \<Rightarrow>
          (let url = get (js_or data (JObj [])) ''url'';
               mime_type = get (js_or data (JObj [])) ''mime_type''
           in if \<not> truthy url then (Inl NoUrlField, [])
              else (case download_loop server (max_retries opts) (base_delay opts) 0 [] of
                      (Some body, trace) \<Rightarrow>
                        (Inr (body, js_or mime_type (JStr ''application/octet-stream'')), trace)
                    | (None, trace) \<Rightarrow> (Inl DownloadFailed, trace))))"

text \<open>The events of attempt \<open>k\<close> when it fails: the request, then the sleep.\<close>

definition failed_attempt :: "int \<Rightarrow> nat \<Rightarrow> fetch_event list" where
  "failed_attempt baseDelay k = [Download k (0 < k), Sleep (baseDelay * 2 ^ (k + 1))]"

text \<open>A server that refuses every request, a media object, and the default options.\<close>

definition refusing :: "nat \<Rightarrow> bool \<Rightarrow> http_outcome" where
  "refusing k auth = Response 401 ''unauthorized''"

text \<open>A server that accepts a request only with the credential.\<close>

definition wants_credential :: "nat \<Rightarrow> bool \<Rightarrow> http_outcome" where
  "wants_credential k auth = (if auth then Response 200 ''bytes'' else Response 401 ''unauthorized'')"

definition media_object :: jsval where
  "media_object = JObj [(''url'', JStr ''https://cdn.example/media''), (''mime_type'', JStr ''image/jpeg'')]"

definition default_opts :: fetch_opts where
  "default_opts = \<lparr>maxRetries = None, retryDelayMs = None\<rparr>"

section \<open>Reconciler: the merge of \<^verbatim>\<open>/analyze-image-with-text\<close>\<close>

subsection \<open>Names\<close>

text \<open>\<^verbatim>\<open>s.split(/\s+/)\<close>: white space at either end leaves an empty token there.\<close>

function split_space :: "string \<Rightarrow> string list" where
  "split_space s =
     (case dropWhile (\<lambda>c. \<not> is_space c) s of
        [] \<Rightarrow> [s]
      | c # rest \<Rightarrow> takeWhile (\<lambda>c. \<not> is_space c) s # split_space (dropWhile is_space rest))"
  by pat_completeness auto

termination
proof (relation "measure length")
  show "wf (measure length)" by simp
next
  fix s :: string and c :: char and rest :: string
  assume "dropWhile (\<lambda>c. \<not> is_space c) s = c # rest"
  then have "Suc (length rest) \<le> length s"
    by (metis length_Cons length_dropWhile_le)
  moreover have "length (dropWhile is_space rest) \<le> length rest"
    by (rule length_dropWhile_le)
  ultimately show "(dropWhile is_space rest, s) \<in> measure length" by simp
qed

declare split_space.simps [simp del]

text \<open>\<^verbatim>\<open>s.split(/\s+/).filter(Boolean)\<close>\<close>

definition tokens :: "string \<Rightarrow> string list" where
  "tokens s = filter (\<lambda>t. t \<noteq> []) (split_space s)"

text \<open>
  \<^verbatim>\<open>(n || "").toString().toLowerCase().replace(/[^a-z0-9\s]/g, "").trim()\<close>;
  \<open>None\<close> is the \<^verbatim>\<open>TypeError\<close> of \<^verbatim>\<open>toString\<close> on a name that is not convertible.
\<close>

definition name_char :: "char \<Rightarrow> bool" where
  "name_char c = (is_lower_alpha c \<or> is_digit c \<or> is_space c)"

definition normalizeName :: "(rat \<Rightarrow> string) \<Rightarrow> jsval \<Rightarrow> string option" where
  "normalizeName fmt n =
     map_option (\<lambda>t. trim (filter name_char (toLowerCase t))) (ToString fmt (js_or n (JStr [])))"

text \<open>
  The test of a vision name \<open>vn\<close> against a seen name \<open>s\<close>:
  \<^verbatim>\<open>s.includes(vn) || vn.includes(s)\<close>, or a token in common.
\<close>

definition names_conflict :: "string \<Rightarrow> string \<Rightarrow> bool" where
  "names_conflict s vn =
     (str_includes s vn \<or> str_includes vn s \<or> (\<exists>tok\<in>set (tokens s). tok \<in> set (tokens vn)))"

text \<open>
  The test that picks the merged item to annotate:
  \<^verbatim>\<open>mName && (mName.includes(vn) || vn.includes(mName)
     || mName.split(/\s+/).some(tok => vn.split(/\s+/).includes(tok)))\<close>
\<close>

definition item_matches :: "string \<Rightarrow> string \<Rightarrow> bool" where
  "item_matches mName vn =
     (mName \<noteq> [] \<and> (str_includes mName vn \<or> str_includes vn mName
        \<or> (\<exists>tok\<in>set (split_space mName). tok \<in> set (split_space vn))))"

text \<open>\<^verbatim>\<open>seen.add(n)\<close> on a \<^verbatim>\<open>Set\<close>, kept in insertion order.\<close>

definition set_add :: "string \<Rightarrow> string list \<Rightarrow> string list" where
  "set_add n seen = (if n \<in> set seen then seen else seen @ [n])"

subsection \<open>Assumptions\<close>

text \<open>
  \<^verbatim>\<open>x.concat(ys)\<close> with an array argument: on an array the elements are appended, on a
  string the argument is appended as a string (a \<^verbatim>\<open>TypeError\<close> if it is not
  convertible), and any other receiver has no such method (a \<^verbatim>\<open>TypeError\<close>).
\<close>

definition js_concat :: "(rat \<Rightarrow> string) \<Rightarrow> jsval \<Rightarrow> jsval list \<Rightarrow> jsval option" where
  "js_concat fmt x ys =
     (case x of
        JArr xs \<Rightarrow> Some (JArr (xs @ ys))
      | JStr s \<Rightarrow> map_option (\<lambda>t. JStr (s @ t)) (ToString fmt (JArr ys))
      | _ \<Rightarrow> None)"

text \<open>
  \<^verbatim>\<open>Array.from(new Set(x))\<close>: the first occurrence of every element is kept.  Two
  elements are the same when they are equal primitive values; the objects and arrays
  of parsed JSON are all distinct.  A string is taken apart into its characters.
\<close>

fun primitive :: "jsval \<Rightarrow> bool" where
  "primitive (JArr xs) = False"
| "primitive (JObj kvs) = False"
| "primitive v = True"

definition set_insert :: "jsval list \<Rightarrow> jsval \<Rightarrow> jsval list" where
  "set_insert acc x = (if primitive x \<and> x \<in> set acc then acc else acc @ [x])"

definition array_from_set :: "jsval \<Rightarrow> jsval" where
  "array_from_set x =
     (case x of
        JArr xs \<Rightarrow> JArr (foldl set_insert [] xs)
      | JStr s \<Rightarrow> JArr (foldl set_insert [] (map (\<lambda>c. JStr [c]) s))
      | _ \<Rightarrow> x)"

text \<open>
  \<^verbatim>\<open>m.k = v\<close>.  The merge makes this assignment only on a merged item whose name is
  not empty, and such an item is an object (\<open>named_item_object\<close>); a value of another
  kind is left as it is.
\<close>

definition assign_prop :: "jsval \<Rightarrow> string \<Rightarrow> jsval \<Rightarrow> jsval" where
  "assign_prop m k v = (case m of JObj kvs \<Rightarrow> JObj (assign kvs k v) | _ \<Rightarrow> m)"

text \<open>The marker \<^verbatim>\<open>`vision_conf:${v.confidence || 0}`\<close>.\<close>

definition vision_marker :: "(rat \<Rightarrow> string) \<Rightarrow> jsval \<Rightarrow> jsval option" where
  "vision_marker fmt v =
     map_option (\<lambda>t. JStr (''vision_conf:'' @ t))
       (ToString fmt (js_or (get v ''confidence'') (JNum (Fin 0))))"

text \<open>
  The body of the inner \<^verbatim>\<open>if\<close>: what becomes of the merged item \<open>m\<close>.
  \<^verbatim>\<open>
  if (Array.isArray(v.assumptions) && v.assumptions.length) {
    merged[i].assumptions =
      Array.from(new Set((merged[i].assumptions || []).concat(v.assumptions)));
  }
  merged[i].assumptions =
    (merged[i].assumptions || []).concat([`vision_conf:${v.confidence || 0}`]);
  \<close>
\<close>

definition attach_assumptions :: "(rat \<Rightarrow> string) \<Rightarrow> jsval \<Rightarrow> jsval \<Rightarrow> jsval option" where
  "attach_assumptions fmt v m = do {
     va \<leftarrow> getprop v ''assumptions'';
     m1 \<leftarrow> (if Array_isArray va \<and> elements va \<noteq> []
            then do {
              ma \<leftarrow> getprop m ''assumptions'';
              joined \<leftarrow> js_concat fmt (js_or ma (JArr [])) (elements va);
              Some (assign_prop m ''assumptions'' (array_from_set joined))
            }
            else Some m);
     ma1 \<leftarrow> getprop m1 ''assumptions'';
     marker \<leftarrow> vision_marker fmt v;
     joined1 \<leftarrow> js_concat fmt (js_or ma1 (JArr [])) [marker];
     Some (assign_prop m1 ''assumptions'' joined1)
   }"

subsection \<open>The two loops\<close>

text \<open>The name of a merged item, \<^verbatim>\<open>normalizeName(merged[i].item)\<close>.\<close>

definition item_name :: "(rat \<Rightarrow> string) \<Rightarrow> jsval \<Rightarrow> string option" where
  "item_name fmt m = normalizeName fmt (get m ''item'')"

text \<open>
  The loop over \<^verbatim>\<open>merged\<close> after a conflict: the first item that matches is annotated,
  and the loop stops.  \<^verbatim>\<open>merged\<close> holds the very objects of the caption and vision
  records, so the assignment changes the record's item too.  The merge reads a record's
  item once, when its round comes, and a vision item can be annotated only after its
  round; the merged list is therefore what it would be with copies.
\<close>

fun attach :: "(rat \<Rightarrow> string) \<Rightarrow> jsval \<Rightarrow> string \<Rightarrow> jsval list \<Rightarrow> jsval list option" where
  "attach fmt v vn [] = Some []"
| "attach fmt v vn (m # ms) = do {
     mItem \<leftarrow> getprop m ''item'';
     mName \<leftarrow> normalizeName fmt mItem;
     if item_matches mName vn
     then do { m' \<leftarrow> attach_assumptions fmt v m; Some (m' # ms) }
     else do { ms' \<leftarrow> attach fmt v vn ms; Some (m # ms') }
   }"

text \<open>
  The loop over the caption items: an item with an empty name is skipped.
  \<^verbatim>\<open>
  for (const c of captionParsed.details) {
    const n = normalizeName(c.item);
    if (!n) continue;
    merged.push(c); seen.add(n);
  }
  \<close>
  The state is the pair of \<^verbatim>\<open>merged\<close> and \<^verbatim>\<open>seen\<close>.
\<close>

fun add_caption_items ::
  "(rat \<Rightarrow> string) \<Rightarrow> jsval list \<Rightarrow> jsval list \<times> string list \<Rightarrow> (jsval list \<times> string list) option" where
  "add_caption_items fmt [] st = Some st"
| "add_caption_items fmt (c # cs) st = do {
     cItem \<leftarrow> getprop c ''item'';
     n \<leftarrow> normalizeName fmt cItem;
     if n = [] then add_caption_items fmt cs st
     else add_caption_items fmt cs (fst st @ [c], set_add n (snd st))
   }"

text \<open>One round of the loop over the vision items.\<close>

definition vision_step ::
  "(rat \<Rightarrow> string) \<Rightarrow> jsval \<Rightarrow> jsval list \<times> string list \<Rightarrow> (jsval list \<times> string list) option" where
  "vision_step fmt v st = do {
     vItem \<leftarrow> getprop v ''item'';
     vn \<leftarrow> normalizeName fmt vItem;
     if vn = [] then Some st
     else if \<not> (\<exists>s\<in>set (snd st). names_conflict s vn)
     then Some (fst st @ [v], set_add vn (snd st))
     else do {
       merged' \<leftarrow> attach fmt v vn (fst st);
       Some (merged', snd st)
     }
   }"

fun vision_items ::
  "(rat \<Rightarrow> string) \<Rightarrow> jsval list \<Rightarrow> jsval list \<times> string list \<Rightarrow> (jsval list \<times> string list) option" where
  "vision_items fmt [] st = Some st"
| "vision_items fmt (v # vs) st = do { st' \<leftarrow> vision_step fmt v st; vision_items fmt vs st' }"

text \<open>
  The merge: \<open>captionParsed\<close> is the caption record or \<^verbatim>\<open>null\<close>, \<open>visionDetails\<close> the
  normalised details of the vision record.  \<open>None\<close> is an exception, which the route
  answers with status 500.
\<close>

definition merge_state ::
  "(rat \<Rightarrow> string) \<Rightarrow> jsval \<Rightarrow> jsval list \<Rightarrow> (jsval list \<times> string list) option" where
  "merge_state fmt captionParsed visionDetails = do {
     st \<leftarrow> (if truthy captionParsed
            then do {
              d \<leftarrow> getprop captionParsed ''details'';
              if Array_isArray d \<and> elements d \<noteq> [] then add_caption_items fmt (elements d) ([], [])
              else Some ([], [])
            }
            else Some ([], []));
     vision_items fmt visionDetails st
   }"

definition merge_details :: "(rat \<Rightarrow> string) \<Rightarrow> jsval \<Rightarrow> jsval list \<Rightarrow> jsval list option" where
  "merge_details fmt captionParsed visionDetails =
     map_option fst (merge_state fmt captionParsed visionDetails)"

subsection \<open>The caption items\<close>

text \<open>
  The caption path normalises its food items as the other paths do, but it keeps the
  item as it is:
  \<^verbatim>\<open>
  d => ({
    item: d?.item ?? "",
    ...
    source: "user_caption",
    confidence: Math.max(0.9, Number(d?.confidence ?? 0.9)),
    assumptions: Array.isArray(d?.assumptions) ? d.assumptions
                   : (d?.assumptions ? [String(d.assumptions)] : ["parsed from caption"])
  })
  \<close>
\<close>

definition normalize_caption_item :: "(rat \<Rightarrow> string) \<Rightarrow> jsval \<Rightarrow> jsval option" where
  "normalize_caption_item fmt d = do {
     quantity \<leftarrow> coerce_number (oprop d ''quantity'');
     calories \<leftarrow> coerce_number (oprop d ''calories'');
     macros \<leftarrow> coerce_macros d;
     confidence \<leftarrow>
       map_option (\<lambda>n. JNum (Math_max (Fin (9 / 10)) n))
         (ToNumber (js_coalesce (oprop d ''confidence'') (JNum (Fin (9 / 10)))));
     assumptions \<leftarrow> coerce_assumptions fmt [JStr ''parsed from caption''] (oprop d ''assumptions'');
     Some (JObj [(''item'', js_coalesce (oprop d ''item'') (JStr [])),
                 (''quantity'', quantity),
                 (''unit'', js_coalesce (oprop d ''unit'') (JStr [])),
                 (''calories'', calories),
                 (''macros'', macros),
                 (''brand'', js_coalesce (oprop d ''brand'') (JStr [])),
                 (''source'', JStr ''user_caption''),
                 (''confidence'', confidence),
                 (''assumptions'', assumptions)])
   }"

text \<open>
  The normalised caption item and the normalised vision item made of a detail that has
  the given name and nothing else.
\<close>

definition caption_item :: "string \<Rightarrow> jsval" where
  "caption_item n =
     JObj [(''item'', JStr n), (''quantity'', JNum (Fin 0)), (''unit'', JStr []),
           (''calories'', JNum (Fin 0)),
           (''macros'', JObj [(''protein'', JNum (Fin 0)), (''fat'', JNum (Fin 0)),
                              (''carbs'', JNum (Fin 0))]),
           (''brand'', JStr []), (''source'', JStr ''user_caption''),
           (''confidence'', JNum (Fin (9 / 10))),
           (''assumptions'', JArr [JStr ''parsed from caption''])]"

definition vision_item :: "string \<Rightarrow> jsval" where
  "vision_item n =
     JObj [(''item'', JStr n), (''quantity'', JNum (Fin 0)), (''unit'', JStr []),
           (''calories'', JNum (Fin 0)),
           (''macros'', JObj [(''protein'', JNum (Fin 0)), (''fat'', JNum (Fin 0)),
                              (''carbs'', JNum (Fin 0))]),
           (''brand'', JStr []), (''source'', JStr ''vision''),
           (''confidence'', JNum (Fin 0)),
           (''assumptions'', JArr [])]"

text \<open>A caption record and the vision details made of the given item names.\<close>

definition caption_of :: "string list \<Rightarrow> jsval" where
  "caption_of names =
     JObj [(''type'', JStr ''food''), (''details'', JArr (map caption_item names))]"

definition vision_of :: "string list \<Rightarrow> jsval list" where
  "vision_of names = map vision_item names"

text \<open>The \<^verbatim>\<open>item\<close> fields of a list of items.\<close>

definition item_names :: "jsval list \<Rightarrow> jsval list" where
  "item_names items = map (\<lambda>m. get m ''item'') items"

subsection \<open>The invariant of the merge\<close>

text \<open>
  The seen names are the names of the merged items, none of them empty, and no merged
  item is \<^verbatim>\<open>null\<close> or \<^verbatim>\<open>undefined\<close>.
\<close>

definition merge_invariant :: "(rat \<Rightarrow> string) \<Rightarrow> jsval list \<times> string list \<Rightarrow> bool" where
  "merge_invariant fmt st =
     (Some ` set (snd st) = item_name fmt ` set (fst st) \<and> [] \<notin> set (snd st)
      \<and> (\<forall>m\<in>set (fst st). \<not> nullish m))"

chapter \<open>The properties\<close>

section \<open>Numerals for evaluation\<close>

text \<open>The thresholds as numerals, for evaluation.\<close>

lemma overflow_threshold_code [code]:
  "overflow_threshold = 179769313486231580793728971405303415079934132710037826936173778980444968292764750946649017977587207096330286416692887910946555547851940402630657488671505820681908902000708383676273854845817711531764475730270069855571366959622842914819860834936475292719074168444365510704342711559699508093042880177904174497792"
  unfolding overflow_threshold_def by simp

lemma underflow_threshold_code [code]:
  "underflow_threshold = 1 / 404804506614621236704990693437834614099113299528284236713802716054860679135990693783920767402874248990374155728633623822779617474771586953734026799881477019843034848553132722728933815484186432682479535356945490137124014966849385397236206711298319112681620113024717539104666829230461005064372655017292012526615415482186989568"
  unfolding underflow_threshold_def by simp

section \<open>Properties of \<^verbatim>\<open>num\<close>\<close>

lemma num_cases:
  "(\<exists>r. num x d = JNum (Fin r)) \<or> num x d = (if d = JUndefined then JNum (Fin 0) else d)"
proof (cases x)
  case (JNum n)
  then show ?thesis by (cases n) (simp_all add: num_def)
next
  case (JStr s)
  then show ?thesis
    by (cases "StringToNumber (filter numeric_char s)") (simp_all add: num_def Let_def)
qed (simp_all add: num_def)

lemma num_zero_finite: "\<exists>r. num x (JNum (Fin 0)) = JNum (Fin r)"
  using num_cases [of x "JNum (Fin 0)"] by auto

text \<open>
  Claim C9, as amended.  For every input value \<open>x\<close> and every supplied default \<open>d\<close>,
  \<open>num x d\<close> is a value (the function has no failing branch) that is a finite number
  or the supplied default.  It is \<open>NaN\<close> only if the supplied default is \<open>NaN\<close>.
  The string \<^verbatim>\<open>"250 kcal"\<close> coerces to \<open>250\<close>, whatever the default.
\<close>

theorem num_finite_or_default:
  "((\<exists>r. num x d = JNum (Fin r)) \<or> num x d = d)
   \<and> (d \<noteq> JNum NaN \<longrightarrow> num x d \<noteq> JNum NaN)
   \<and> num (JStr ''250 kcal'') d = JNum (Fin 250)"
proof -
  have "(\<exists>r. num x d = JNum (Fin r)) \<or> num x d = d"
    using num_cases [of x d] by (auto split: if_splits)
  moreover have "d \<noteq> JNum NaN \<longrightarrow> num x d \<noteq> JNum NaN"
    using num_cases [of x d] by (auto split: if_splits)
  moreover have "num (JStr ''250 kcal'') d = JNum (Fin 250)"
    by code_simp
  ultimately show ?thesis by blast
qed

theorem num_finite_or_default_witness:
  "JNum (Fin 7) \<noteq> JNum NaN
   \<and> num (JStr ''e'') (JNum (Fin 7)) = JNum (Fin 7)
   \<and> num (JStr ''e'') (JNum (Fin 7)) \<noteq> JNum NaN"
proof -
  have h: "JNum (Fin 7) \<noteq> JNum NaN" by simp
  have e: "num (JStr ''e'') (JNum (Fin 7)) = JNum (Fin 7)" by code_simp
  from num_finite_or_default [of "JStr ''e''" "JNum (Fin 7)"] h e show ?thesis by blast
qed

text \<open>
  The claim as it was stated ("never returns \<open>NaN\<close>", for every supplied default) fails
  when the default is \<open>NaN\<close>: \<^verbatim>\<open>num("e", NaN)\<close> cleans the string to \<^verbatim>\<open>"e"\<close>, which is
  no number, and returns the default.
\<close>

theorem num_NaN_default_counterexample:
  "num (JStr ''e'') (JNum NaN) = JNum NaN"
  by code_simp

section \<open>Properties of \<^verbatim>\<open>extractCaloriesFromAnalysis\<close>\<close>

subsection \<open>No branch throws\<close>

lemma truthy_not_nullish: "truthy v \<Longrightarrow> \<not> nullish v"
  by (cases v) simp_all

lemma getprop_truthy: "truthy v \<Longrightarrow> getprop v k = Some (get v k)"
  by (simp add: getprop_def truthy_not_nullish)

lemma push_if_present_total: "truthy t \<Longrightarrow> \<exists>s'. push_if_present t k seen = Some s'"
  by (simp add: push_if_present_def getprop_truthy)

lemma push_totals_total: "truthy r \<Longrightarrow> \<exists>s'. push_totals r k1 k2 seen = Some s'"
  by (simp add: push_totals_def push_if_present_def getprop_truthy)

lemma push_totals_guarded_total:
  "\<exists>s'. (if truthy w then push_totals w k1 k2 seen else Some seen) = Some s'"
  using push_totals_total [of w k1 k2 seen] by simp

lemma sum_item_total: "\<exists>s'. sum_item s it = Some s'"
  by (simp add: sum_item_def getprop_truthy)

lemma reduce_sum_total: "\<exists>s'. reduce_sum s its = Some s'"
proof (induction its arbitrary: s)
  case Nil
  show ?case by simp
next
  case (Cons it its)
  obtain s1 where "sum_item s it = Some s1" using sum_item_total by blast
  with Cons.IH [of s1] show ?case by simp
qed

lemma trySumDetails_total: "\<exists>s. trySumDetails arr = Some s"
  by (simp add: trySumDetails_def reduce_sum_total)

lemma nested_details_total: "truthy a \<Longrightarrow> \<exists>d. nested_details a k = Some d"
  by (simp add: nested_details_def getprop_truthy)

lemma seenNumbers_total:
  assumes "truthy a"
  shows "\<exists>seen. seenNumbers a = Some seen"
proof -
  obtain s1 where s1: "push_totals a ''calories_burned'' ''calories'' [] = Some s1"
    using push_totals_total [OF assms] by blast
  obtain s2 where s2: "(if truthy (get a ''workout'')
      then push_totals (get a ''workout'') ''calories_burned'' ''calories'' s1 else Some s1) = Some s2"
    using push_totals_guarded_total by blast
  obtain s3 where s3: "(if truthy (get a ''food'')
      then push_totals (get a ''food'') ''calories'' ''calories_burned'' s2 else Some s2) = Some s3"
    using push_totals_guarded_total by blast
  obtain d1 where d1: "trySumDetails (get a ''details'') = Some d1"
    using trySumDetails_total by blast
  obtain wd where wd: "nested_details a ''workout'' = Some wd"
    using nested_details_total [OF assms] by blast
  obtain d2 where d2: "trySumDetails wd = Some d2"
    using trySumDetails_total by blast
  obtain fd where fd: "nested_details a ''food'' = Some fd"
    using nested_details_total [OF assms] by blast
  obtain d3 where d3: "trySumDetails fd = Some d3"
    using trySumDetails_total by blast
  show ?thesis
    unfolding seenNumbers_def
    by (simp add: getprop_truthy [OF assms] s1 s2 s3 d1 wd d2 fd d3)
qed

lemma Math_max_finite:
  "is_finite a \<Longrightarrow> is_finite b \<Longrightarrow> Math_max a b = a \<or> Math_max a b = b"
  by (simp add: Math_max_def)

lemma js_le_refl: "is_finite a \<Longrightarrow> js_le a a"
  by (cases a) simp_all

lemma js_le_trans: "js_le a b \<Longrightarrow> js_le b c \<Longrightarrow> js_le a c"
  by (cases a; cases b; cases c) simp_all

lemma js_le_Math_max:
  "is_finite a \<Longrightarrow> is_finite b \<Longrightarrow> js_le a (Math_max a b) \<and> js_le b (Math_max a b)"
  by (cases a; cases b) (auto simp: Math_max_def)

lemma Math_max_list_greatest:
  assumes "xs \<noteq> []" and "\<forall>x\<in>set xs. is_finite x"
  shows "Math_max_list xs \<in> set xs \<and> (\<forall>x\<in>set xs. js_le x (Math_max_list xs))"
  using assms
proof (induction xs rule: rev_induct)
  case Nil
  then show ?case by simp
next
  case (snoc x xs)
  have fx: "is_finite x" using snoc.prems by simp
  show ?case
  proof (cases "xs = []")
    case True
    with fx show ?thesis
      by (cases x) (simp_all add: Math_max_list_def Math_max_def)
  next
    case False
    let ?m = "Math_max_list xs"
    have ih: "?m \<in> set xs" "\<forall>y\<in>set xs. js_le y ?m"
      using snoc.IH False snoc.prems by auto
    have fm: "is_finite ?m" using ih(1) snoc.prems by auto
    have eq: "Math_max_list (xs @ [x]) = Math_max ?m x"
      by (simp add: Math_max_list_def)
    have "Math_max ?m x = ?m \<or> Math_max ?m x = x"
      using Math_max_finite [OF fm fx] .
    moreover have "js_le ?m (Math_max ?m x)" "js_le x (Math_max ?m x)"
      using js_le_Math_max [OF fm fx] by auto
    ultimately show ?thesis
      using ih eq by (auto intro: js_le_trans)
  qed
qed

lemma Math_round_nat:
  assumes "is_finite n" and "positive n"
  shows "\<exists>k::nat. Math_round n = Fin (of_nat k)"
proof -
  obtain r where n: "n = Fin r" using assms(1) by (cases n) auto
  with assms(2) have "0 < r" by simp
  then have "0 \<le> \<lfloor>r + 1 / 2\<rfloor>" by simp
  then obtain k :: nat where "\<lfloor>r + 1 / 2\<rfloor> = int k"
    using nonneg_int_cases by blast
  with n show ?thesis by (auto intro: exI [of _ k])
qed

lemma Math_round_positive_nat:
  assumes "is_finite (Math_round n)" and "positive (Math_round n)"
  shows "\<exists>k::nat. Math_round n = Fin (of_nat k)"
proof -
  obtain r where n: "n = Fin r" using assms(1) by (cases n) auto
  with assms(2) have "0 < \<lfloor>r + 1 / 2\<rfloor>" by simp
  then obtain k :: nat where "\<lfloor>r + 1 / 2\<rfloor> = int k"
    using nonneg_int_cases [of "\<lfloor>r + 1 / 2\<rfloor>"] by auto
  with n show ?thesis by (auto intro: exI [of _ k])
qed

lemma last_resort_nat: "\<exists>k::nat. last_resort fmt a = Fin (of_nat k)"
proof -
  have zero: "\<exists>k::nat. Fin 0 = Fin (of_nat k)" by (rule exI [of _ 0]) simp
  show ?thesis
    unfolding last_resort_def Let_def
    using zero Math_round_positive_nat
    by (auto split: option.splits)
qed

lemma positives_finite: "\<forall>x\<in>set (positives seen). is_finite x \<and> positive x"
  by (simp add: positives_def)

lemma push_if_present_mono:
  "push_if_present t k seen = Some s' \<Longrightarrow> set seen \<subseteq> set s'"
  by (auto simp: push_if_present_def getprop_def split: if_splits)

lemma push_totals_mono:
  "push_totals r k1 k2 seen = Some s' \<Longrightarrow> set seen \<subseteq> set s'"
  by (auto simp: push_totals_def getprop_def split: if_splits bind_splits
      dest: push_if_present_mono)

lemma push_totals_guarded_mono:
  "(if truthy w then push_totals w k1 k2 seen else Some seen) = Some s' \<Longrightarrow> set seen \<subseteq> set s'"
  by (auto split: if_splits dest: push_totals_mono)

lemma push_if_present_member:
  "truthy t \<Longrightarrow> \<not> nullish (get t k) \<Longrightarrow> push_if_present t k seen = Some s'
   \<Longrightarrow> num (get t k) (JNum (Fin 0)) \<in> set s'"
  by (auto simp: push_if_present_def getprop_truthy)

lemma push_totals_member:
  assumes "truthy r" and "truthy (get r ''totals'')"
      and "k = k1 \<or> k = k2" and "\<not> nullish (get (get r ''totals'') k)"
      and "push_totals r k1 k2 seen = Some s'"
  shows "num (get (get r ''totals'') k) (JNum (Fin 0)) \<in> set s'"
proof -
  let ?t = "get r ''totals''"
  obtain s1 where s1: "push_if_present ?t k1 seen = Some s1"
    using push_if_present_total [OF assms(2)] by blast
  have s': "push_if_present ?t k2 s1 = Some s'"
    using assms(1,2,5) s1 by (simp add: push_totals_def getprop_truthy)
  show ?thesis
  proof (cases "k = k1")
    case True
    then have "num (get ?t k) (JNum (Fin 0)) \<in> set s1"
      using push_if_present_member [OF assms(2) _ s1] assms(4) by simp
    then show ?thesis using push_if_present_mono [OF s'] by blast
  next
    case False
    then have "k = k2" using assms(3) by simp
    then show ?thesis using push_if_present_member [OF assms(2) _ s'] assms(4) by simp
  qed
qed

lemma in_push_sum: "x \<in> set seen \<Longrightarrow> x \<in> set (push_sum d seen)"
  by (simp add: push_sum_def)

lemma push_sum_member: "positive d \<Longrightarrow> JNum d \<in> set (push_sum d seen)"
  by (simp add: push_sum_def)

lemma seenNumbers_shape:
  assumes "truthy a"
  shows "\<exists>s1 s3 d1 d2 d3.
           push_totals a ''calories_burned'' ''calories'' [] = Some s1
         \<and> set s1 \<subseteq> set s3
         \<and> trySumDetails (get a ''details'') = Some d1
         \<and> seenNumbers a = Some (push_sum d3 (push_sum d2 (push_sum d1 s3)))"
proof -
  obtain s1 where s1: "push_totals a ''calories_burned'' ''calories'' [] = Some s1"
    using push_totals_total [OF assms] by blast
  obtain s2 where s2: "(if truthy (get a ''workout'')
      then push_totals (get a ''workout'') ''calories_burned'' ''calories'' s1 else Some s1) = Some s2"
    using push_totals_guarded_total by blast
  obtain s3 where s3: "(if truthy (get a ''food'')
      then push_totals (get a ''food'') ''calories'' ''calories_burned'' s2 else Some s2) = Some s3"
    using push_totals_guarded_total by blast
  obtain d1 where d1: "trySumDetails (get a ''details'') = Some d1"
    using trySumDetails_total by blast
  obtain wd where wd: "nested_details a ''workout'' = Some wd"
    using nested_details_total [OF assms] by blast
  obtain d2 where d2: "trySumDetails wd = Some d2"
    using trySumDetails_total by blast
  obtain fd where fd: "nested_details a ''food'' = Some fd"
    using nested_details_total [OF assms] by blast
  obtain d3 where d3: "trySumDetails fd = Some d3"
    using trySumDetails_total by blast
  have "set s1 \<subseteq> set s3"
    using push_totals_guarded_mono [OF s2] push_totals_guarded_mono [OF s3] by blast
  moreover have "seenNumbers a = Some (push_sum d3 (push_sum d2 (push_sum d1 s3)))"
    unfolding seenNumbers_def
    by (simp add: getprop_truthy [OF assms] s1 s2 s3 d1 wd d2 fd d3)
  ultimately show ?thesis using s1 d1 by blast
qed

lemma positives_member:
  "JNum c \<in> set seen \<Longrightarrow> is_finite c \<Longrightarrow> positive c \<Longrightarrow> c \<in> set (positives seen)"
  by (force simp: positives_def)

subsection \<open>The candidates are numbers\<close>

text \<open>
  Every element of \<^verbatim>\<open>seenNumbers\<close> is a number, so that \<^verbatim>\<open>seenNumbers.map(Number)\<close>
  converts no array and no object: it cannot throw, and it is \<open>map number_value\<close>.
\<close>

lemma num_zero_number: "\<exists>n. num x (JNum (Fin 0)) = JNum n"
  using num_zero_finite [of x] by blast

lemma push_if_present_numbers:
  assumes "push_if_present t k seen = Some s'" and "\<forall>v\<in>set seen. \<exists>n. v = JNum n"
  shows "\<forall>v\<in>set s'. \<exists>n. v = JNum n"
proof -
  from assms(1) consider "s' = seen" | x where "s' = seen @ [num x (JNum (Fin 0))]"
    by (auto simp: push_if_present_def split: bind_splits if_splits)
  then show ?thesis
  proof cases
    case 1
    then show ?thesis using assms(2) by simp
  next
    case 2
    obtain n where "num x (JNum (Fin 0)) = JNum n" using num_zero_number by blast
    with 2 assms(2) show ?thesis by simp
  qed
qed

lemma push_totals_numbers:
  assumes "push_totals r k1 k2 seen = Some s'" and "\<forall>v\<in>set seen. \<exists>n. v = JNum n"
  shows "\<forall>v\<in>set s'. \<exists>n. v = JNum n"
proof (cases "getprop r ''totals''")
  case None
  with assms(1) show ?thesis by (simp add: push_totals_def)
next
  case (Some t)
  show ?thesis
  proof (cases "truthy t")
    case False
    with Some assms show ?thesis by (simp add: push_totals_def)
  next
    case True
    with Some assms(1) have b: "do { s1 \<leftarrow> push_if_present t k1 seen; push_if_present t k2 s1 } = Some s'"
      by (simp add: push_totals_def)
    then obtain s1 where s1: "push_if_present t k1 seen = Some s1"
      by (cases "push_if_present t k1 seen") simp_all
    with b have s2: "push_if_present t k2 s1 = Some s'" by simp
    from push_if_present_numbers [OF s2 push_if_present_numbers [OF s1 assms(2)]]
    show ?thesis .
  qed
qed

lemma push_sum_numbers:
  "\<forall>v\<in>set seen. \<exists>n. v = JNum n \<Longrightarrow> \<forall>v\<in>set (push_sum d seen). \<exists>n. v = JNum n"
  by (simp add: push_sum_def)

lemma push_totals_guarded_numbers:
  "(if truthy w then push_totals w k1 k2 seen else Some seen) = Some s'
   \<Longrightarrow> \<forall>v\<in>set seen. \<exists>n. v = JNum n \<Longrightarrow> \<forall>v\<in>set s'. \<exists>n. v = JNum n"
  using push_totals_numbers [of w k1 k2 seen s'] by (cases "truthy w") simp_all

lemma seenNumbers_numbers:
  assumes "truthy a" and "seenNumbers a = Some seen"
  shows "\<forall>v\<in>set seen. \<exists>n. v = JNum n"
proof -
  obtain s1 where s1: "push_totals a ''calories_burned'' ''calories'' [] = Some s1"
    using push_totals_total [OF assms(1)] by blast
  obtain s2 where s2: "(if truthy (get a ''workout'')
      then push_totals (get a ''workout'') ''calories_burned'' ''calories'' s1 else Some s1) = Some s2"
    using push_totals_guarded_total by blast
  obtain s3 where s3: "(if truthy (get a ''food'')
      then push_totals (get a ''food'') ''calories'' ''calories_burned'' s2 else Some s2) = Some s3"
    using push_totals_guarded_total by blast
  obtain d1 where d1: "trySumDetails (get a ''details'') = Some d1"
    using trySumDetails_total by blast
  obtain wd where wd: "nested_details a ''workout'' = Some wd"
    using nested_details_total [OF assms(1)] by blast
  obtain d2 where d2: "trySumDetails wd = Some d2"
    using trySumDetails_total by blast
  obtain fd where fd: "nested_details a ''food'' = Some fd"
    using nested_details_total [OF assms(1)] by blast
  obtain d3 where d3: "trySumDetails fd = Some d3"
    using trySumDetails_total by blast
  have n1: "\<forall>v\<in>set s1. \<exists>n. v = JNum n"
    using push_totals_numbers [OF s1] by simp
  have n2: "\<forall>v\<in>set s2. \<exists>n. v = JNum n"
    using push_totals_guarded_numbers [OF s2 n1] .
  have n3: "\<forall>v\<in>set s3. \<exists>n. v = JNum n"
    using push_totals_guarded_numbers [OF s3 n2] .
  have "seenNumbers a = Some (push_sum d3 (push_sum d2 (push_sum d1 s3)))"
    unfolding seenNumbers_def
    by (simp add: getprop_truthy [OF assms(1)] s1 s2 s3 d1 wd d2 fd d3)
  with assms(2) have "seen = push_sum d3 (push_sum d2 (push_sum d1 s3))" by simp
  moreover have "\<forall>v\<in>set (push_sum d3 (push_sum d2 (push_sum d1 s3))). \<exists>n. v = JNum n"
    by (intro push_sum_numbers n3)
  ultimately show ?thesis by simp
qed

lemma those_numbers:
  "\<forall>v\<in>set seen. \<exists>n. v = JNum n \<Longrightarrow> those (map ToNumber seen) = Some (map number_value seen)"
  by (induction seen) (auto simp: ToNumber_def)

lemma seenNumbers_conversion:
  "truthy a \<Longrightarrow> seenNumbers a = Some seen
   \<Longrightarrow> those (map ToNumber seen) = Some (map number_value seen)"
  using seenNumbers_numbers those_numbers by blast

subsection \<open>The claims on the resolver\<close>

text \<open>
  Claim C1, as amended.  Take a record (an object) whose \<^verbatim>\<open>totals\<close> holds a positive
  value \<open>t\<close> under \<^verbatim>\<open>calories\<close> or \<^verbatim>\<open>calories_burned\<close> (after coercion by \<^verbatim>\<open>num\<close>) and
  whose \<^verbatim>\<open>details\<close> sum to a positive \<open>d\<close>.  Then both are among the positive finite
  candidates (\<open>d\<close> unless the sum overflowed), and the function returns
  \<^verbatim>\<open>Math.round\<close> of the greatest positive finite candidate \<open>m\<close>: the rounded maximum,
  not the sum.  On \<^verbatim>\<open>{totals:{calories:450}, details:[{calories:100},{calories:120}]}\<close>
  it returns \<open>450\<close>.
\<close>

theorem extract_rounded_max:
  assumes "truthy a" and "typeof a = ''object''"
      and "truthy (get a ''totals'')"
      and "k = ''calories'' \<or> k = ''calories_burned''"
      and "num (get (get a ''totals'') k) (JNum (Fin 0)) = JNum t" and "positive t"
      and "trySumDetails (get a ''details'') = Some d" and "positive d"
  shows "(\<exists>seen m. seenNumbers a = Some seen
            \<and> t \<in> set (positives seen)
            \<and> (is_finite d \<longrightarrow> d \<in> set (positives seen))
            \<and> m \<in> set (positives seen)
            \<and> (\<forall>c\<in>set (positives seen). js_le c m)
            \<and> extractCaloriesFromAnalysis fmt a = Some (Math_round m))
         \<and> extractCaloriesFromAnalysis fmt record_450 = Some (Fin 450)"
proof -
  let ?tv = "get (get a ''totals'') k"
  obtain s1 s3 d1 d2 d3 where
    s1: "push_totals a ''calories_burned'' ''calories'' [] = Some s1" and
    sub: "set s1 \<subseteq> set s3" and
    d1: "trySumDetails (get a ''details'') = Some d1" and
    seen: "seenNumbers a = Some (push_sum d3 (push_sum d2 (push_sum d1 s3)))"
    using seenNumbers_shape [OF assms(1)] by blast
  let ?seen = "push_sum d3 (push_sum d2 (push_sum d1 s3))"
  have nn: "\<not> nullish ?tv"
  proof
    assume "nullish ?tv"
    then have "num ?tv (JNum (Fin 0)) = JNum (Fin 0)"
      by (cases ?tv) (simp_all add: num_def)
    with assms(5) have "t = Fin 0" by simp
    with assms(6) show False by simp
  qed
  have "num ?tv (JNum (Fin 0)) \<in> set s1"
    using push_totals_member [OF assms(1,3) _ nn s1] assms(4) by blast
  then have "JNum t \<in> set s3"
    using assms(5) sub by auto
  then have "JNum t \<in> set ?seen"
    by (intro in_push_sum)
  moreover have ft: "is_finite t"
    using num_zero_finite [of ?tv] assms(5) by auto
  ultimately have t_in: "t \<in> set (positives ?seen)"
    using positives_member assms(6) by blast
  have "d1 = d" using d1 assms(7) by simp
  then have "JNum d \<in> set (push_sum d1 s3)"
    using push_sum_member [OF assms(8)] by simp
  then have "JNum d \<in> set ?seen"
    by (simp add: in_push_sum)
  then have d_in: "is_finite d \<longrightarrow> d \<in> set (positives ?seen)"
    using positives_member assms(8) by blast
  have ne: "positives ?seen \<noteq> []" using t_in by auto
  then have ne': "?seen \<noteq> []" by (auto simp: positives_def)
  let ?m = "Math_max_list (positives ?seen)"
  have m: "?m \<in> set (positives ?seen)" "\<forall>c\<in>set (positives ?seen). js_le c ?m"
    using Math_max_list_greatest [OF ne] positives_finite by blast+
  have "extractCaloriesFromAnalysis fmt a = Some (Math_round ?m)"
    using assms(1,2) seen ne ne' by (simp add: extractCaloriesFromAnalysis_def)
  with seen t_in d_in m have
    "\<exists>seen m. seenNumbers a = Some seen
            \<and> t \<in> set (positives seen)
            \<and> (is_finite d \<longrightarrow> d \<in> set (positives seen))
            \<and> m \<in> set (positives seen)
            \<and> (\<forall>c\<in>set (positives seen). js_le c m)
            \<and> extractCaloriesFromAnalysis fmt a = Some (Math_round m)"
    by blast
  moreover have "extractCaloriesFromAnalysis fmt record_450 = Some (Fin 450)"
    by code_simp
  ultimately show ?thesis by blast
qed

theorem extract_rounded_max_witness:
  "truthy record_450 \<and> typeof record_450 = ''object''
   \<and> truthy (get record_450 ''totals'')
   \<and> num (get (get record_450 ''totals'') ''calories'') (JNum (Fin 0)) = JNum (Fin 450)
   \<and> positive (Fin 450)
   \<and> trySumDetails (get record_450 ''details'') = Some (Fin 220)
   \<and> positive (Fin 220)
   \<and> (\<exists>seen m. seenNumbers record_450 = Some seen
          \<and> Fin 450 \<in> set (positives seen)
          \<and> Fin 220 \<in> set (positives seen)
          \<and> m \<in> set (positives seen)
          \<and> extractCaloriesFromAnalysis decimal_fmt record_450 = Some (Math_round m))"
proof -
  have h1: "truthy record_450" by code_simp
  have h2: "typeof record_450 = ''object''" by code_simp
  have h3: "truthy (get record_450 ''totals'')" by code_simp
  have h4: "''calories'' = ''calories'' \<or> ''calories'' = ''calories_burned''" by simp
  have h5: "num (get (get record_450 ''totals'') ''calories'') (JNum (Fin 0)) = JNum (Fin 450)"
    by code_simp
  have h6: "positive (Fin 450)" by simp
  have h7: "trySumDetails (get record_450 ''details'') = Some (Fin 220)" by code_simp
  have h8: "positive (Fin 220)" by simp
  have f: "is_finite (Fin 220)" by simp
  from extract_rounded_max [OF h1 h2 h3 h4 h5 h6 h7 h8, of decimal_fmt] f
  have "\<exists>seen m. seenNumbers record_450 = Some seen
          \<and> Fin 450 \<in> set (positives seen)
          \<and> Fin 220 \<in> set (positives seen)
          \<and> m \<in> set (positives seen)
          \<and> extractCaloriesFromAnalysis decimal_fmt record_450 = Some (Math_round m)"
    by blast
  with h1 h2 h3 h5 h6 h7 h8 show ?thesis by blast
qed

text \<open>
  The claim as it was stated (the maximum itself is returned) fails when the maximum
  is not an integer: with \<^verbatim>\<open>totals.calories = 450.6\<close> the candidates are \<open>450.6\<close> and
  \<open>220\<close>, their maximum is \<open>450.6\<close>, and the result is \<open>451\<close>.
\<close>

theorem extract_maximum_counterexample:
  "seenNumbers record_450_6 = Some [JNum (Fin (2253 / 5)), JNum (Fin 220)]
   \<and> Math_max_list (positives [JNum (Fin (2253 / 5)), JNum (Fin 220)]) = Fin (2253 / 5)
   \<and> extractCaloriesFromAnalysis decimal_fmt record_450_6 = Some (Fin 451)"
  by code_simp

text \<open>
  Claim C2.  For every input value and every number printer, the function returns
  (it never throws) a finite integer that is at least \<open>0\<close>; on the empty record
  \<^verbatim>\<open>{}\<close> it returns \<open>0\<close>.
\<close>

theorem extract_nonneg_integer:
  "(\<exists>k::nat. extractCaloriesFromAnalysis fmt a = Some (Fin (of_nat k)))
   \<and> extractCaloriesFromAnalysis fmt (JObj []) = Some (Fin 0)"
proof -
  have ex: "extractCaloriesFromAnalysis fmt (JObj []) = Some (Fin 0)" by code_simp
  have "\<exists>k::nat. extractCaloriesFromAnalysis fmt a = Some (Fin (of_nat k))"
  proof (cases "\<not> truthy a \<or> typeof a \<noteq> ''object''")
    case True
    then have "extractCaloriesFromAnalysis fmt a = Some (Fin (of_nat 0))"
      by (simp add: extractCaloriesFromAnalysis_def)
    then show ?thesis by blast
  next
    case False
    then have t: "truthy a" by simp
    obtain seen where seen: "seenNumbers a = Some seen"
      using seenNumbers_total [OF t] by blast
    show ?thesis
    proof (cases "seen \<noteq> [] \<and> positives seen \<noteq> []")
      case True
      let ?m = "Math_max_list (positives seen)"
      have "?m \<in> set (positives seen)"
        using Math_max_list_greatest [of "positives seen"] True positives_finite by blast
      then have "is_finite ?m" "positive ?m" using positives_finite by auto
      then obtain k :: nat where "Math_round ?m = Fin (of_nat k)"
        using Math_round_nat by blast
      with False seen True show ?thesis
        by (simp add: extractCaloriesFromAnalysis_def)
    next
      case F2: False
      obtain k :: nat where "last_resort fmt a = Fin (of_nat k)"
        using last_resort_nat by blast
      with False seen F2 show ?thesis
        by (auto simp add: extractCaloriesFromAnalysis_def)
    qed
  qed
  with ex show ?thesis by blast
qed

theorem extract_nonneg_integer_witness:
  "(\<exists>k::nat. extractCaloriesFromAnalysis decimal_fmt (JArr [JStr ''about 320,5kcal'', JNull])
       = Some (Fin (of_nat k)))
   \<and> extractCaloriesFromAnalysis decimal_fmt (JArr [JStr ''about 320,5kcal'', JNull]) = Some (Fin 321)
   \<and> extractCaloriesFromAnalysis decimal_fmt (JObj []) = Some (Fin 0)"
proof -
  have e: "extractCaloriesFromAnalysis decimal_fmt (JArr [JStr ''about 320,5kcal'', JNull])
      = Some (Fin 321)"
    by code_simp
  from extract_nonneg_integer [of decimal_fmt "JArr [JStr ''about 320,5kcal'', JNull]"] e
  show ?thesis by blast
qed

section \<open>Properties of the conversions\<close>

lemma ToNumber_Some: "ToNumber v = Some n \<longleftrightarrow> convertible v \<and> n = number_value v"
  by (auto simp: ToNumber_def)

lemma ToString_Some: "ToString fmt v = Some t \<longleftrightarrow> convertible v \<and> t = string_value fmt v"
  by (auto simp: ToString_def)

lemma ToNumber_None: "ToNumber v = None \<longleftrightarrow> \<not> convertible v"
  by (simp add: ToNumber_def)

lemma ToString_None: "ToString fmt v = None \<longleftrightarrow> \<not> convertible v"
  by (simp add: ToString_def)

lemma plain_convertible: "plain v \<Longrightarrow> convertible v"
  by (induction v rule: plain.induct) (auto simp: list_all_iff)

lemma plain_get: "plain v \<Longrightarrow> plain (get v k)"
proof (cases v)
  case (JObj kvs)
  assume p: "plain v"
  show ?thesis
  proof (cases "map_of kvs k")
    case None
    with JObj show ?thesis by simp
  next
    case (Some w)
    then have "(k, w) \<in> set kvs" by (rule map_of_SomeD)
    with p JObj have "plain w" by (auto simp: list_all_iff)
    with JObj Some show ?thesis by simp
  qed
qed simp_all

lemma plain_oprop: "plain v \<Longrightarrow> plain (oprop v k)"
  by (simp add: oprop_def plain_get)

lemma plain_js_or: "plain a \<Longrightarrow> plain b \<Longrightarrow> plain (js_or a b)"
  by (simp add: js_or_def)

lemma plain_js_coalesce: "plain a \<Longrightarrow> plain b \<Longrightarrow> plain (js_coalesce a b)"
  by (simp add: js_coalesce_def)

lemma plain_elements: "plain v \<Longrightarrow> x \<in> set (elements v) \<Longrightarrow> plain x"
  by (cases v) (auto simp: list_all_iff)

lemma plain_details_of: "plain a \<Longrightarrow> d \<in> set (details_of a) \<Longrightarrow> plain d"
  using plain_elements [OF plain_get [of a "''details''"], of d]
  by (auto simp: details_of_def split: if_splits)

lemma ToNumber_plain: "plain v \<Longrightarrow> ToNumber v = Some (number_value v)"
  by (simp add: ToNumber_def plain_convertible)

lemma ToString_plain: "plain v \<Longrightarrow> ToString fmt v = Some (string_value fmt v)"
  by (simp add: ToString_def plain_convertible)

lemma those_map_Some:
  "those (map f xs) = Some ys \<longleftrightarrow> list_all2 (\<lambda>x y. f x = Some y) xs ys"
proof (induction xs arbitrary: ys)
  case Nil
  show ?case by auto
next
  case (Cons x xs)
  show ?case
  proof (cases "f x")
    case None
    then show ?thesis by (auto simp: list_all2_Cons1)
  next
    case (Some y)
    then show ?thesis
      using Cons.IH by (cases "those (map f xs)") (auto simp: list_all2_Cons1)
  qed
qed

lemma those_map_total:
  "(\<And>x. x \<in> set xs \<Longrightarrow> \<exists>y. f x = Some y) \<Longrightarrow> \<exists>ys. those (map f xs) = Some ys"
proof (induction xs)
  case Nil
  show ?case by simp
next
  case (Cons x xs)
  obtain y where "f x = Some y" using Cons.prems by auto
  moreover obtain ys where "those (map f xs) = Some ys" using Cons by auto
  ultimately show ?case by simp
qed

lemma those_map_None:
  "x \<in> set xs \<Longrightarrow> f x = None \<Longrightarrow> those (map f xs) = None"
proof (induction xs)
  case Nil
  then show ?case by simp
next
  case (Cons a xs)
  then show ?case by (cases "f a"; cases "those (map f xs)") auto
qed

lemma those_map_value:
  "those (map f xs) = Some ys \<Longrightarrow> (\<And>x y. x \<in> set xs \<Longrightarrow> f x = Some y \<Longrightarrow> y = g x)
   \<Longrightarrow> ys = map g xs"
proof (induction xs arbitrary: ys)
  case Nil
  then show ?case by simp
next
  case (Cons x xs)
  from Cons.prems(1) obtain y ys' where
    y: "f x = Some y" and ys': "those (map f xs) = Some ys'" and ys: "ys = y # ys'"
    by (auto split: option.splits)
  have "y = g x" using Cons.prems(2) [of x y] y by simp
  moreover have "ys' = map g xs" using Cons.IH [OF ys'] Cons.prems(2) by auto
  ultimately show ?case using ys by simp
qed

section \<open>Properties of \<^verbatim>\<open>buildReplyForAnalysis\<close>\<close>

subsection \<open>The shape of the replies\<close>

lemma Number_toString_zero: "Number_toString fmt (Fin 0) = ''0''"
  by code_simp

lemma Math_round_zero: "Math_round (Fin 0) = Fin 0"
  by code_simp

lemma build_falsy: "\<not> truthy a \<Longrightarrow> buildReplyForAnalysis fmt a = Some apology"
  by (simp add: buildReplyForAnalysis_def)

lemma build_typeless:
  "truthy a \<Longrightarrow> \<not> truthy (get a ''type'') \<Longrightarrow> buildReplyForAnalysis fmt a = Some apology"
  by (simp add: buildReplyForAnalysis_def getprop_truthy)

lemma build_workout:
  "truthy a \<Longrightarrow> get a ''type'' = JStr ''workout''
   \<Longrightarrow> buildReplyForAnalysis fmt a = workout_reply fmt a"
  by (simp add: buildReplyForAnalysis_def getprop_truthy)

lemma build_food:
  "truthy a \<Longrightarrow> truthy (get a ''type'') \<Longrightarrow> get a ''type'' \<noteq> JStr ''workout''
   \<Longrightarrow> buildReplyForAnalysis fmt a = food_reply fmt a"
  by (simp add: buildReplyForAnalysis_def getprop_truthy)

lemma workout_total_value:
  "workout_total s ds = Some t
   \<Longrightarrow> t = foldl js_add s (map (\<lambda>d. num_or_zero (number_value (get d ''calories_burned''))) ds)"
proof (induction ds arbitrary: s)
  case Nil
  then show ?case by simp
next
  case (Cons d ds)
  from Cons.prems obtain cb n where
    cb: "getprop d ''calories_burned'' = Some cb" and n: "ToNumber cb = Some n" and
    r: "workout_total (js_add s (num_or_zero n)) ds = Some t"
    by (auto split: bind_splits)
  from cb have "cb = get d ''calories_burned''"
    by (auto simp: getprop_def split: if_splits)
  moreover from n have "n = number_value cb" by (simp add: ToNumber_Some)
  ultimately show ?case using Cons.IH [OF r] by simp
qed

lemma workout_reply_shape:
  assumes "workout_reply fmt a = Some s"
  shows "\<exists>body. s = ''Workout:'' @ body @ ''Total estimated calories: ''
      @ Number_toString fmt (Math_round (foldl js_add (Fin 0)
          (map (\<lambda>d. num_or_zero (number_value (get d ''calories_burned''))) (details_of a))))
      @ ''.''"
proof -
  from assms obtain t lines where
    t: "workout_total (Fin 0) (details_of a) = Some t" and
    s: "s = ''Workout:'' @ newline @ join newline lines @ newline @ workout_summary fmt t"
    by (auto simp: workout_reply_def split: bind_splits)
  from workout_total_value [OF t] s
  have "s = ''Workout:'' @ (newline @ join newline lines @ newline)
      @ ''Total estimated calories: ''
      @ Number_toString fmt (Math_round (foldl js_add (Fin 0)
          (map (\<lambda>d. num_or_zero (number_value (get d ''calories_burned''))) (details_of a))))
      @ ''.''"
    by (simp add: workout_summary_def del: Math_round.simps)
  then show ?thesis by blast
qed

lemma food_kcal_value:
  "food_kcal i = Some y
   \<Longrightarrow> y = Math_round (number_value (js_or (oprop i ''calories'') (JNum (Fin 0))))"
  by (auto simp: food_kcal_def ToNumber_Some)

lemma food_macro_value:
  "food_macro k i = Some y
   \<Longrightarrow> y = Math_round (number_value (js_or (oprop (oprop i ''macros'') k) (JNum (Fin 0))))"
  by (auto simp: food_macro_def ToNumber_Some)

lemma accumulate_value:
  assumes "accumulate f xs = Some t" and "\<And>x y. f x = Some y \<Longrightarrow> y = g x"
  shows "t = foldl js_add (Fin 0) (map g xs)"
proof -
  from assms(1) obtain ys where ys: "those (map f xs) = Some ys" and t: "t = foldl js_add (Fin 0) ys"
    by (auto simp: accumulate_def)
  from those_map_value [OF ys, of g] assms(2) have "ys = map g xs" by blast
  with t show ?thesis by simp
qed

lemma food_reply_shape:
  assumes "food_reply fmt a = Some s"
  shows "\<exists>body. s = ''Food:'' @ body @ ''Totals '' @ em_dash
      @ '' Calories: '' @ Number_toString fmt (foldl js_add (Fin 0)
          (map (\<lambda>i. Math_round (number_value (js_or (oprop i ''calories'') (JNum (Fin 0)))))
             (details_of a)))
      @ '', Protein: '' @ Number_toString fmt (foldl js_add (Fin 0)
          (map (\<lambda>i. Math_round (number_value
                  (js_or (oprop (oprop i ''macros'') ''protein'') (JNum (Fin 0)))))
             (details_of a)))
      @ ''g, Fat: '' @ Number_toString fmt (foldl js_add (Fin 0)
          (map (\<lambda>i. Math_round (number_value
                  (js_or (oprop (oprop i ''macros'') ''fat'') (JNum (Fin 0)))))
             (details_of a)))
      @ ''g, Carbs: '' @ Number_toString fmt (foldl js_add (Fin 0)
          (map (\<lambda>i. Math_round (number_value
                  (js_or (oprop (oprop i ''macros'') ''carbs'') (JNum (Fin 0)))))
             (details_of a)))
      @ ''g'' @ reference"
proof -
  from assms obtain lines tc tp tf tb where
    tc: "accumulate food_kcal (details_of a) = Some tc" and
    tp: "accumulate (food_macro ''protein'') (details_of a) = Some tp" and
    tf: "accumulate (food_macro ''fat'') (details_of a) = Some tf" and
    tb: "accumulate (food_macro ''carbs'') (details_of a) = Some tb" and
    s: "s = (if lines \<noteq> []
           then ''Food:'' @ newline @ join newline lines @ newline
                @ food_summary fmt tc tp tf tb @ reference
           else ''Food:'' @ newline @ food_summary fmt tc tp tf tb @ reference)"
    by (auto simp: food_reply_def split: bind_splits)
  note v = accumulate_value [OF tc food_kcal_value] accumulate_value [OF tp food_macro_value]
    accumulate_value [OF tf food_macro_value] accumulate_value [OF tb food_macro_value]
  let ?body = "if lines \<noteq> [] then newline @ join newline lines @ newline else newline"
  have e: "s = ''Food:'' @ ?body @ food_summary fmt tc tp tf tb @ reference"
    using s by simp
  have fs: "food_summary fmt tc tp tf tb = ''Totals '' @ em_dash
      @ '' Calories: '' @ Number_toString fmt (foldl js_add (Fin 0)
          (map (\<lambda>i. Math_round (number_value (js_or (oprop i ''calories'') (JNum (Fin 0)))))
             (details_of a)))
      @ '', Protein: '' @ Number_toString fmt (foldl js_add (Fin 0)
          (map (\<lambda>i. Math_round (number_value
                  (js_or (oprop (oprop i ''macros'') ''protein'') (JNum (Fin 0)))))
             (details_of a)))
      @ ''g, Fat: '' @ Number_toString fmt (foldl js_add (Fin 0)
          (map (\<lambda>i. Math_round (number_value
                  (js_or (oprop (oprop i ''macros'') ''fat'') (JNum (Fin 0)))))
             (details_of a)))
      @ ''g, Carbs: '' @ Number_toString fmt (foldl js_add (Fin 0)
          (map (\<lambda>i. Math_round (number_value
                  (js_or (oprop (oprop i ''macros'') ''carbs'') (JNum (Fin 0)))))
             (details_of a)))
      @ ''g''"
    using v unfolding food_summary_def by (simp del: Math_round.simps)
  show ?thesis
    by (rule exI [of _ ?body]) (simp only: e fs append_assoc)
qed

lemma food_reply_not_apology: "food_reply fmt a \<noteq> Some apology"
proof
  assume "food_reply fmt a = Some apology"
  from food_reply_shape [OF this] show False by (auto simp: apology_def)
qed

lemma food_line_plain:
  assumes "plain i"
  shows "\<exists>l. food_line fmt i = Some l"
proof -
  have c: "\<And>k dflt. plain dflt \<Longrightarrow> convertible (js_or (oprop i k) dflt)"
    using assms by (intro plain_convertible plain_js_or plain_oprop)
  have m: "\<And>k dflt. plain dflt \<Longrightarrow> convertible (js_or (oprop (oprop i ''macros'') k) dflt)"
    using assms by (intro plain_convertible plain_js_or plain_oprop)
  show ?thesis
    by (simp add: food_line_def food_kcal_def food_macro_def ToNumber_def ToString_def c m)
qed

lemma food_kcal_plain: "plain i \<Longrightarrow> \<exists>y. food_kcal i = Some y"
  by (simp add: food_kcal_def ToNumber_plain plain_js_or plain_oprop)

lemma food_macro_plain: "plain i \<Longrightarrow> \<exists>y. food_macro k i = Some y"
  by (simp add: food_macro_def ToNumber_plain plain_js_or plain_oprop)

lemma accumulate_total:
  "(\<And>x. x \<in> set xs \<Longrightarrow> \<exists>y. f x = Some y) \<Longrightarrow> \<exists>t. accumulate f xs = Some t"
  using those_map_total [of xs f] by (auto simp: accumulate_def)

lemma food_reply_plain:
  assumes "plain a"
  shows "\<exists>s. food_reply fmt a = Some s"
proof -
  have p: "\<And>d. d \<in> set (details_of a) \<Longrightarrow> plain d"
    using plain_details_of [OF assms] .
  obtain lines where l: "those (map (food_line fmt) (details_of a)) = Some lines"
    using those_map_total [of "details_of a" "food_line fmt"] food_line_plain p by blast
  obtain tc where tc: "accumulate food_kcal (details_of a) = Some tc"
    using accumulate_total [of "details_of a" food_kcal] food_kcal_plain p by blast
  obtain tp where tp: "accumulate (food_macro ''protein'') (details_of a) = Some tp"
    using accumulate_total [of "details_of a" "food_macro ''protein''"] food_macro_plain p by blast
  obtain tf where tf: "accumulate (food_macro ''fat'') (details_of a) = Some tf"
    using accumulate_total [of "details_of a" "food_macro ''fat''"] food_macro_plain p by blast
  obtain tb where tb: "accumulate (food_macro ''carbs'') (details_of a) = Some tb"
    using accumulate_total [of "details_of a" "food_macro ''carbs''"] food_macro_plain p by blast
  show ?thesis by (simp add: food_reply_def l tc tp tf tb)
qed

lemma details_of_cong: "get a ''details'' = get b ''details'' \<Longrightarrow> details_of a = details_of b"
  by (simp add: details_of_def)

lemma build_depends_on_type_and_details:
  assumes "truthy a" and "truthy b"
      and "get a ''type'' = get b ''type''" and "get a ''details'' = get b ''details''"
  shows "buildReplyForAnalysis fmt a = buildReplyForAnalysis fmt b"
  using assms details_of_cong [OF assms(4)]
  by (simp add: buildReplyForAnalysis_def getprop_truthy workout_reply_def food_reply_def)

lemma workout_reply_empty:
  "details_of a = [] \<Longrightarrow> workout_reply fmt a
     = Some (''Workout:'' @ newline @ newline @ ''Total estimated calories: 0.'')"
  by (simp add: workout_reply_def workout_summary_def Number_toString_zero Math_round_zero
      del: Math_round.simps)

lemma food_reply_empty:
  "details_of a = [] \<Longrightarrow> food_reply fmt a
     = Some (''Food:'' @ newline @ ''Totals '' @ em_dash
        @ '' Calories: 0, Protein: 0g, Fat: 0g, Carbs: 0g'' @ reference)"
  by (simp add: food_reply_def food_summary_def accumulate_def Number_toString_zero)


lemma food_line_unconvertible_item:
  "\<not> convertible (js_or (oprop i ''item'') (JStr ''Item'')) \<Longrightarrow> food_line fmt i = None"
  by (auto simp: food_line_def ToString_def split: bind_splits)

lemma food_reply_unconvertible_item:
  assumes "i \<in> set (details_of a)" and "\<not> convertible (js_or (oprop i ''item'') (JStr ''Item''))"
  shows "food_reply fmt a = None"
proof -
  have "food_line fmt i = None" using assms(2) by (rule food_line_unconvertible_item)
  with assms(1) have "those (map (food_line fmt) (details_of a)) = None"
    by (rule those_map_None)
  then show ?thesis by (simp add: food_reply_def)
qed

lemma Array_join_plain:
  assumes "plain v" and "Array_isArray v"
  shows "\<exists>j. Array_join fmt sep v = Some j"
proof -
  from assms(2) obtain xs where v: "v = JArr xs" by (cases v) auto
  have "\<And>x. x \<in> set xs \<Longrightarrow> \<exists>y. (if nullish x then Some [] else ToString fmt x) = Some y"
    using assms(1) v by (auto simp: list_all_iff ToString_plain)
  from those_map_total [of xs "\<lambda>x. if nullish x then Some [] else ToString fmt x", OF this]
  show ?thesis using v by (auto simp: Array_join_def)
qed

lemma workout_line_total:
  assumes "plain d"
      and "truthy (oprop (oprop d ''assumptions'') ''length'') \<longrightarrow> Array_isArray (oprop d ''assumptions'')"
  shows "\<exists>l. workout_line fmt d = Some l"
proof -
  have c: "\<And>k dflt. plain dflt \<Longrightarrow> convertible (js_or (oprop d k) dflt)"
    using assms(1) by (intro plain_convertible plain_js_or plain_oprop)
  have c': "\<And>k. convertible (oprop d k)"
    using assms(1) by (intro plain_convertible plain_oprop)
  have j: "truthy (oprop (oprop d ''assumptions'') ''length'')
      \<Longrightarrow> \<exists>j. Array_join fmt ''; '' (oprop d ''assumptions'') = Some j"
    using Array_join_plain [OF plain_oprop [OF assms(1)], of "''assumptions''"] assms(2) by blast
  show ?thesis
  proof (cases "truthy (oprop (oprop d ''assumptions'') ''length'')")
    case True
    then obtain j where "Array_join fmt ''; '' (oprop d ''assumptions'') = Some j"
      using j by blast
    then show ?thesis
      by (simp add: workout_line_def ToNumber_def ToString_def c c' True)
  next
    case False
    then show ?thesis
      by (simp add: workout_line_def ToNumber_def ToString_def c c')
  qed
qed

lemma workout_total_total:
  "(\<And>d. d \<in> set ds \<Longrightarrow> \<not> nullish d \<and> plain d) \<Longrightarrow> \<exists>t. workout_total s ds = Some t"
proof (induction ds arbitrary: s)
  case Nil
  show ?case by simp
next
  case (Cons d ds)
  have "\<not> nullish d" "plain d" using Cons.prems by auto
  then have "getprop d ''calories_burned'' = Some (get d ''calories_burned'')"
    and "ToNumber (get d ''calories_burned'') = Some (number_value (get d ''calories_burned''))"
    by (simp_all add: getprop_def ToNumber_plain plain_get)
  moreover obtain t where
    "workout_total (js_add s (num_or_zero (number_value (get d ''calories_burned'')))) ds = Some t"
    using Cons.IH Cons.prems by (meson list.set_intros(2))
  ultimately show ?case by simp
qed

lemma workout_reply_total:
  assumes "plain a"
      and "\<forall>d\<in>set (details_of a). \<not> nullish d
             \<and> (truthy (oprop (oprop d ''assumptions'') ''length'')
                  \<longrightarrow> Array_isArray (oprop d ''assumptions''))"
  shows "\<exists>s. workout_reply fmt a = Some s"
proof -
  have p: "\<And>d. d \<in> set (details_of a) \<Longrightarrow> plain d"
    using plain_details_of [OF assms(1)] .
  obtain t where t: "workout_total (Fin 0) (details_of a) = Some t"
    using workout_total_total [of "details_of a" "Fin 0"] p assms(2) by blast
  obtain lines where l: "those (map (workout_line fmt) (details_of a)) = Some lines"
    using those_map_total [of "details_of a" "workout_line fmt"] workout_line_total p assms(2)
    by blast
  show ?thesis by (simp add: workout_reply_def t l)
qed

subsection \<open>The claims on the composer\<close>

text \<open>
  Claim C6, as amended.  An input that is \<^verbatim>\<open>null\<close>, \<^verbatim>\<open>undefined\<close> or otherwise falsy,
  or whose \<^verbatim>\<open>type\<close> is missing or falsy, gets the fixed apology.  An input with any
  other \<^verbatim>\<open>type\<close> than \<^verbatim>\<open>"workout"\<close>, an unrecognised one included, goes through the
  food branch and never gets the apology: when a reply is made it starts with
  \<^verbatim>\<open>Food:\<close>, one is made for every plain record, and the function throws when the
  name of an item is not convertible.
\<close>

theorem build_apology:
  "(\<not> truthy a \<or> \<not> truthy (get a ''type'') \<longrightarrow> buildReplyForAnalysis fmt a = Some apology)
   \<and> (truthy a \<and> truthy (get a ''type'') \<and> get a ''type'' \<noteq> JStr ''workout''
        \<longrightarrow> buildReplyForAnalysis fmt a = food_reply fmt a
            \<and> buildReplyForAnalysis fmt a \<noteq> Some apology
            \<and> (\<forall>s. buildReplyForAnalysis fmt a = Some s \<longrightarrow> (\<exists>rest. s = ''Food:'' @ rest))
            \<and> (plain a \<longrightarrow> (\<exists>s. buildReplyForAnalysis fmt a = Some s))
            \<and> ((\<exists>i\<in>set (details_of a). \<not> convertible (js_or (oprop i ''item'') (JStr ''Item'')))
                 \<longrightarrow> buildReplyForAnalysis fmt a = None))"
proof -
  have "\<not> truthy a \<or> \<not> truthy (get a ''type'') \<longrightarrow> buildReplyForAnalysis fmt a = Some apology"
    using build_falsy build_typeless by blast
  moreover have "truthy a \<and> truthy (get a ''type'') \<and> get a ''type'' \<noteq> JStr ''workout''
        \<longrightarrow> buildReplyForAnalysis fmt a = food_reply fmt a
            \<and> buildReplyForAnalysis fmt a \<noteq> Some apology
            \<and> (\<forall>s. buildReplyForAnalysis fmt a = Some s \<longrightarrow> (\<exists>rest. s = ''Food:'' @ rest))
            \<and> (plain a \<longrightarrow> (\<exists>s. buildReplyForAnalysis fmt a = Some s))
            \<and> ((\<exists>i\<in>set (details_of a). \<not> convertible (js_or (oprop i ''item'') (JStr ''Item'')))
                 \<longrightarrow> buildReplyForAnalysis fmt a = None)"
  proof (intro impI)
    assume h: "truthy a \<and> truthy (get a ''type'') \<and> get a ''type'' \<noteq> JStr ''workout''"
    then have e: "buildReplyForAnalysis fmt a = food_reply fmt a"
      using build_food by blast
    have n: "buildReplyForAnalysis fmt a \<noteq> Some apology"
      using e food_reply_not_apology by simp
    have s: "\<forall>s. buildReplyForAnalysis fmt a = Some s \<longrightarrow> (\<exists>rest. s = ''Food:'' @ rest)"
      using e food_reply_shape [of fmt a] by auto
    have p: "plain a \<longrightarrow> (\<exists>s. buildReplyForAnalysis fmt a = Some s)"
      using e food_reply_plain [of a fmt] by simp
    have u: "(\<exists>i\<in>set (details_of a). \<not> convertible (js_or (oprop i ''item'') (JStr ''Item'')))
        \<longrightarrow> buildReplyForAnalysis fmt a = None"
      using e food_reply_unconvertible_item [of _ a fmt] by auto
    from e n s p u show "buildReplyForAnalysis fmt a = food_reply fmt a
            \<and> buildReplyForAnalysis fmt a \<noteq> Some apology
            \<and> (\<forall>s. buildReplyForAnalysis fmt a = Some s \<longrightarrow> (\<exists>rest. s = ''Food:'' @ rest))
            \<and> (plain a \<longrightarrow> (\<exists>s. buildReplyForAnalysis fmt a = Some s))
            \<and> ((\<exists>i\<in>set (details_of a). \<not> convertible (js_or (oprop i ''item'') (JStr ''Item'')))
                 \<longrightarrow> buildReplyForAnalysis fmt a = None)"
      by blast
  qed
  ultimately show ?thesis by blast
qed

theorem build_apology_witness:
  "\<not> truthy JNull \<and> buildReplyForAnalysis decimal_fmt JNull = Some apology
   \<and> truthy record_snack \<and> truthy (get record_snack ''type'')
   \<and> get record_snack ''type'' \<noteq> JStr ''workout''
   \<and> plain record_snack
   \<and> buildReplyForAnalysis decimal_fmt record_snack
       = Some (''Food:'' @ newline @ ''Totals '' @ em_dash
               @ '' Calories: 0, Protein: 0g, Fat: 0g, Carbs: 0g'' @ reference)
   \<and> buildReplyForAnalysis decimal_fmt record_snack \<noteq> Some apology
   \<and> (\<exists>rest. ''Food:'' @ newline @ ''Totals '' @ em_dash
               @ '' Calories: 0, Protein: 0g, Fat: 0g, Carbs: 0g'' @ reference = ''Food:'' @ rest)
   \<and> truthy record_unprintable \<and> truthy (get record_unprintable ''type'')
   \<and> get record_unprintable ''type'' \<noteq> JStr ''workout''
   \<and> (\<exists>i\<in>set (details_of record_unprintable).
         \<not> convertible (js_or (oprop i ''item'') (JStr ''Item'')))
   \<and> buildReplyForAnalysis decimal_fmt record_unprintable = None"
proof -
  have h0: "\<not> truthy JNull" by simp
  have h1: "truthy record_snack" by code_simp
  have h2: "truthy (get record_snack ''type'')" by code_simp
  have h3: "get record_snack ''type'' \<noteq> JStr ''workout''" by code_simp
  have h4: "plain record_snack" by code_simp
  have r: "buildReplyForAnalysis decimal_fmt record_snack
       = Some (''Food:'' @ newline @ ''Totals '' @ em_dash
               @ '' Calories: 0, Protein: 0g, Fat: 0g, Carbs: 0g'' @ reference)"
    by code_simp
  have u1: "truthy record_unprintable" by code_simp
  have u2: "truthy (get record_unprintable ''type'')" by code_simp
  have u3: "get record_unprintable ''type'' \<noteq> JStr ''workout''" by code_simp
  have u4: "\<exists>i\<in>set (details_of record_unprintable).
         \<not> convertible (js_or (oprop i ''item'') (JStr ''Item''))"
    by code_simp
  from build_apology [of JNull decimal_fmt] h0
  have a0: "buildReplyForAnalysis decimal_fmt JNull = Some apology" by blast
  from build_apology [of record_snack decimal_fmt] h1 h2 h3 r
  have a1: "buildReplyForAnalysis decimal_fmt record_snack \<noteq> Some apology
      \<and> (\<exists>rest. ''Food:'' @ newline @ ''Totals '' @ em_dash
               @ '' Calories: 0, Protein: 0g, Fat: 0g, Carbs: 0g'' @ reference = ''Food:'' @ rest)"
    by blast
  from build_apology [of record_unprintable decimal_fmt] u1 u2 u3 u4
  have a2: "buildReplyForAnalysis decimal_fmt record_unprintable = None" by blast
  from h0 h1 h2 h3 h4 r u1 u2 u3 u4 a0 a1 a2 show ?thesis by blast
qed

text \<open>
  The claim as it was stated (an unrecognised type gets the apology) fails on
  \<^verbatim>\<open>{type:"snack", details:[]}\<close>: the guard tests only that a type is there, and
  everything that is not a workout falls through to the food branch.
\<close>

theorem build_unrecognized_counterexample:
  "buildReplyForAnalysis decimal_fmt record_snack
     = Some (''Food:'' @ newline @ ''Totals '' @ em_dash
             @ '' Calories: 0, Protein: 0g, Fat: 0g, Carbs: 0g'' @ reference)"
  by code_simp


text \<open>
  Claim C10.  The reply is a function of the record's \<^verbatim>\<open>type\<close> and \<^verbatim>\<open>details\<close> alone:
  two records that agree on both get the same reply, whatever their \<^verbatim>\<open>totals\<close>.  A
  workout reply ends with \<^verbatim>\<open>Total estimated calories:\<close> and the rounded sum of the
  details' \<^verbatim>\<open>calories_burned\<close>, a value that is no number counting \<open>0\<close>.  A food
  reply ends with the totals line, which prints the sums of the per-item rounded
  calories, protein, fat and carbs, and then the reference block.  A reply is made for
  every plain food record, and for every plain workout record whose details are
  objects with arrays for assumptions.  With no details every total printed is \<open>0\<close>.
\<close>

theorem reply_totals_from_details:
  "(truthy a \<and> truthy b \<and> get a ''type'' = get b ''type'' \<and> get a ''details'' = get b ''details''
      \<longrightarrow> buildReplyForAnalysis fmt a = buildReplyForAnalysis fmt b)
   \<and> (truthy a \<and> get a ''type'' = JStr ''workout'' \<and> buildReplyForAnalysis fmt a = Some s
      \<longrightarrow> (\<exists>body. s = ''Workout:'' @ body @ ''Total estimated calories: ''
            @ Number_toString fmt (Math_round (foldl js_add (Fin 0)
                (map (\<lambda>d. num_or_zero (number_value (get d ''calories_burned'')))
                   (details_of a))))
            @ ''.''))
   \<and> (truthy a \<and> truthy (get a ''type'') \<and> get a ''type'' \<noteq> JStr ''workout''
        \<and> buildReplyForAnalysis fmt a = Some s
      \<longrightarrow> (\<exists>body. s = ''Food:'' @ body @ ''Totals '' @ em_dash
            @ '' Calories: '' @ Number_toString fmt (foldl js_add (Fin 0)
                (map (\<lambda>i. Math_round (number_value (js_or (oprop i ''calories'') (JNum (Fin 0)))))
                   (details_of a)))
            @ '', Protein: '' @ Number_toString fmt (foldl js_add (Fin 0)
                (map (\<lambda>i. Math_round (number_value
                        (js_or (oprop (oprop i ''macros'') ''protein'') (JNum (Fin 0)))))
                   (details_of a)))
            @ ''g, Fat: '' @ Number_toString fmt (foldl js_add (Fin 0)
                (map (\<lambda>i. Math_round (number_value
                        (js_or (oprop (oprop i ''macros'') ''fat'') (JNum (Fin 0)))))
                   (details_of a)))
            @ ''g, Carbs: '' @ Number_toString fmt (foldl js_add (Fin 0)
                (map (\<lambda>i. Math_round (number_value
                        (js_or (oprop (oprop i ''macros'') ''carbs'') (JNum (Fin 0)))))
                   (details_of a)))
            @ ''g'' @ reference))
   \<and> (truthy a \<and> truthy (get a ''type'') \<and> get a ''type'' \<noteq> JStr ''workout'' \<and> plain a
      \<longrightarrow> (\<exists>s. buildReplyForAnalysis fmt a = Some s))
   \<and> (truthy a \<and> get a ''type'' = JStr ''workout'' \<and> plain a
        \<and> (\<forall>d\<in>set (details_of a). \<not> nullish d
              \<and> (truthy (oprop (oprop d ''assumptions'') ''length'')
                   \<longrightarrow> Array_isArray (oprop d ''assumptions'')))
      \<longrightarrow> (\<exists>s. buildReplyForAnalysis fmt a = Some s))
   \<and> (truthy a \<and> get a ''type'' = JStr ''workout'' \<and> details_of a = []
      \<longrightarrow> buildReplyForAnalysis fmt a
            = Some (''Workout:'' @ newline @ newline @ ''Total estimated calories: 0.''))
   \<and> (truthy a \<and> truthy (get a ''type'') \<and> get a ''type'' \<noteq> JStr ''workout'' \<and> details_of a = []
      \<longrightarrow> buildReplyForAnalysis fmt a
            = Some (''Food:'' @ newline @ ''Totals '' @ em_dash
                    @ '' Calories: 0, Protein: 0g, Fat: 0g, Carbs: 0g'' @ reference))"
proof -
  have p1: "truthy a \<and> truthy b \<and> get a ''type'' = get b ''type''
      \<and> get a ''details'' = get b ''details''
      \<longrightarrow> buildReplyForAnalysis fmt a = buildReplyForAnalysis fmt b"
    using build_depends_on_type_and_details by blast
  have p2: "truthy a \<and> get a ''type'' = JStr ''workout'' \<and> buildReplyForAnalysis fmt a = Some s
      \<longrightarrow> (\<exists>body. s = ''Workout:'' @ body @ ''Total estimated calories: ''
            @ Number_toString fmt (Math_round (foldl js_add (Fin 0)
                (map (\<lambda>d. num_or_zero (number_value (get d ''calories_burned'')))
                   (details_of a))))
            @ ''.'')"
    using build_workout [of a fmt] workout_reply_shape [of fmt a s] by auto
  have p3: "truthy a \<and> truthy (get a ''type'') \<and> get a ''type'' \<noteq> JStr ''workout''
        \<and> buildReplyForAnalysis fmt a = Some s
      \<longrightarrow> (\<exists>body. s = ''Food:'' @ body @ ''Totals '' @ em_dash
            @ '' Calories: '' @ Number_toString fmt (foldl js_add (Fin 0)
                (map (\<lambda>i. Math_round (number_value (js_or (oprop i ''calories'') (JNum (Fin 0)))))
                   (details_of a)))
            @ '', Protein: '' @ Number_toString fmt (foldl js_add (Fin 0)
                (map (\<lambda>i. Math_round (number_value
                        (js_or (oprop (oprop i ''macros'') ''protein'') (JNum (Fin 0)))))
                   (details_of a)))
            @ ''g, Fat: '' @ Number_toString fmt (foldl js_add (Fin 0)
                (map (\<lambda>i. Math_round (number_value
                        (js_or (oprop (oprop i ''macros'') ''fat'') (JNum (Fin 0)))))
                   (details_of a)))
            @ ''g, Carbs: '' @ Number_toString fmt (foldl js_add (Fin 0)
                (map (\<lambda>i. Math_round (number_value
                        (js_or (oprop (oprop i ''macros'') ''carbs'') (JNum (Fin 0)))))
                   (details_of a)))
            @ ''g'' @ reference)"
  proof (intro impI)
    assume h: "truthy a \<and> truthy (get a ''type'') \<and> get a ''type'' \<noteq> JStr ''workout''
        \<and> buildReplyForAnalysis fmt a = Some s"
    then have "food_reply fmt a = Some s" using build_food [of a fmt] by simp
    then show "\<exists>body. s = ''Food:'' @ body @ ''Totals '' @ em_dash
            @ '' Calories: '' @ Number_toString fmt (foldl js_add (Fin 0)
                (map (\<lambda>i. Math_round (number_value (js_or (oprop i ''calories'') (JNum (Fin 0)))))
                   (details_of a)))
            @ '', Protein: '' @ Number_toString fmt (foldl js_add (Fin 0)
                (map (\<lambda>i. Math_round (number_value
                        (js_or (oprop (oprop i ''macros'') ''protein'') (JNum (Fin 0)))))
                   (details_of a)))
            @ ''g, Fat: '' @ Number_toString fmt (foldl js_add (Fin 0)
                (map (\<lambda>i. Math_round (number_value
                        (js_or (oprop (oprop i ''macros'') ''fat'') (JNum (Fin 0)))))
                   (details_of a)))
            @ ''g, Carbs: '' @ Number_toString fmt (foldl js_add (Fin 0)
                (map (\<lambda>i. Math_round (number_value
                        (js_or (oprop (oprop i ''macros'') ''carbs'') (JNum (Fin 0)))))
                   (details_of a)))
            @ ''g'' @ reference"
      by (rule food_reply_shape)
  qed
  have p4: "truthy a \<and> truthy (get a ''type'') \<and> get a ''type'' \<noteq> JStr ''workout'' \<and> plain a
      \<longrightarrow> (\<exists>s. buildReplyForAnalysis fmt a = Some s)"
    using build_food [of a fmt] food_reply_plain [of a fmt] by auto
  have p5: "truthy a \<and> get a ''type'' = JStr ''workout'' \<and> plain a
        \<and> (\<forall>d\<in>set (details_of a). \<not> nullish d
              \<and> (truthy (oprop (oprop d ''assumptions'') ''length'')
                   \<longrightarrow> Array_isArray (oprop d ''assumptions'')))
      \<longrightarrow> (\<exists>s. buildReplyForAnalysis fmt a = Some s)"
    using build_workout [of a fmt] workout_reply_total [of a fmt] by auto
  have p6: "truthy a \<and> get a ''type'' = JStr ''workout'' \<and> details_of a = []
      \<longrightarrow> buildReplyForAnalysis fmt a
            = Some (''Workout:'' @ newline @ newline @ ''Total estimated calories: 0.'')"
    using build_workout [of a fmt] workout_reply_empty [of a fmt] by auto
  have p7: "truthy a \<and> truthy (get a ''type'') \<and> get a ''type'' \<noteq> JStr ''workout''
      \<and> details_of a = []
      \<longrightarrow> buildReplyForAnalysis fmt a
            = Some (''Food:'' @ newline @ ''Totals '' @ em_dash
                    @ '' Calories: 0, Protein: 0g, Fat: 0g, Carbs: 0g'' @ reference)"
    using build_food [of a fmt] food_reply_empty [of a fmt] by auto
  from p1 p2 p3 p4 p5 p6 p7 show ?thesis by blast
qed

theorem reply_totals_from_details_witness:
  "truthy food_with_totals \<and> truthy food_without_totals
   \<and> get food_with_totals ''type'' = get food_without_totals ''type''
   \<and> get food_with_totals ''details'' = get food_without_totals ''details''
   \<and> truthy (get food_with_totals ''type'')
   \<and> get food_with_totals ''type'' \<noteq> JStr ''workout''
   \<and> details_of food_with_totals = []
   \<and> buildReplyForAnalysis decimal_fmt food_with_totals
       = buildReplyForAnalysis decimal_fmt food_without_totals
   \<and> buildReplyForAnalysis decimal_fmt food_with_totals
       = Some (''Food:'' @ newline @ ''Totals '' @ em_dash
               @ '' Calories: 0, Protein: 0g, Fat: 0g, Carbs: 0g'' @ reference)
   \<and> truthy workout_with_totals
   \<and> get workout_with_totals ''type'' = JStr ''workout''
   \<and> details_of workout_with_totals = []
   \<and> buildReplyForAnalysis decimal_fmt workout_with_totals
       = Some (''Workout:'' @ newline @ newline @ ''Total estimated calories: 0.'')
   \<and> truthy workout_two \<and> get workout_two ''type'' = JStr ''workout'' \<and> plain workout_two
   \<and> buildReplyForAnalysis decimal_fmt workout_two
       = Some (''Workout:'' @ newline
               @ bullet @ '' run '' @ em_dash @ '' 30 min '' @ approx_sign @ '' 250 kcal'' @ newline
               @ bullet @ '' Activity '' @ em_dash @ '' 0 min '' @ approx_sign @ '' 99 kcal''
               @ newline @ ''Total estimated calories: 350.'')
   \<and> (\<exists>body. ''Workout:'' @ newline
               @ bullet @ '' run '' @ em_dash @ '' 30 min '' @ approx_sign @ '' 250 kcal'' @ newline
               @ bullet @ '' Activity '' @ em_dash @ '' 0 min '' @ approx_sign @ '' 99 kcal''
               @ newline @ ''Total estimated calories: 350.''
             = ''Workout:'' @ body @ ''Total estimated calories: '' @ ''350'' @ ''.'')
   \<and> truthy food_two \<and> truthy (get food_two ''type'') \<and> get food_two ''type'' \<noteq> JStr ''workout''
   \<and> plain food_two
   \<and> buildReplyForAnalysis decimal_fmt food_two
       = Some (''Food:'' @ newline
               @ bullet @ '' dal '' @ em_dash @ '' 100 kcal, P:6g, F:0g, C:0g'' @ newline
               @ bullet @ '' rice (2 cup) '' @ em_dash @ '' 120 kcal, P:0g, F:0g, C:0g'' @ newline
               @ ''Totals '' @ em_dash @ '' Calories: 220, Protein: 6g, Fat: 0g, Carbs: 0g''
               @ reference)
   \<and> (\<exists>body. ''Food:'' @ newline
               @ bullet @ '' dal '' @ em_dash @ '' 100 kcal, P:6g, F:0g, C:0g'' @ newline
               @ bullet @ '' rice (2 cup) '' @ em_dash @ '' 120 kcal, P:0g, F:0g, C:0g'' @ newline
               @ ''Totals '' @ em_dash @ '' Calories: 220, Protein: 6g, Fat: 0g, Carbs: 0g''
               @ reference
             = ''Food:'' @ body @ ''Totals '' @ em_dash @ '' Calories: '' @ ''220''
               @ '', Protein: '' @ ''6'' @ ''g, Fat: '' @ ''0'' @ ''g, Carbs: '' @ ''0''
               @ ''g'' @ reference)"
proof -
  let ?wr = "''Workout:'' @ newline
               @ bullet @ '' run '' @ em_dash @ '' 30 min '' @ approx_sign @ '' 250 kcal'' @ newline
               @ bullet @ '' Activity '' @ em_dash @ '' 0 min '' @ approx_sign @ '' 99 kcal''
               @ newline @ ''Total estimated calories: 350.''"
  let ?fr = "''Food:'' @ newline
               @ bullet @ '' dal '' @ em_dash @ '' 100 kcal, P:6g, F:0g, C:0g'' @ newline
               @ bullet @ '' rice (2 cup) '' @ em_dash @ '' 120 kcal, P:0g, F:0g, C:0g'' @ newline
               @ ''Totals '' @ em_dash @ '' Calories: 220, Protein: 6g, Fat: 0g, Carbs: 0g''
               @ reference"
  have f1: "truthy food_with_totals" by code_simp
  have f2: "truthy food_without_totals" by code_simp
  have f3: "get food_with_totals ''type'' = get food_without_totals ''type''" by code_simp
  have f4: "get food_with_totals ''details'' = get food_without_totals ''details''" by code_simp
  have f5: "truthy (get food_with_totals ''type'')" by code_simp
  have f6: "get food_with_totals ''type'' \<noteq> JStr ''workout''" by code_simp
  have f7: "details_of food_with_totals = []" by code_simp
  have w1: "truthy workout_with_totals" by code_simp
  have w2: "get workout_with_totals ''type'' = JStr ''workout''" by code_simp
  have w3: "details_of workout_with_totals = []" by code_simp
  have x1: "truthy workout_two" by code_simp
  have x2: "get workout_two ''type'' = JStr ''workout''" by code_simp
  have x3: "plain workout_two" by code_simp
  have x4: "buildReplyForAnalysis decimal_fmt workout_two = Some ?wr" by code_simp
  have x5: "Number_toString decimal_fmt (Math_round (foldl js_add (Fin 0)
                (map (\<lambda>d. num_or_zero (number_value (get d ''calories_burned'')))
                   (details_of workout_two)))) = ''350''"
    by code_simp
  have y1: "truthy food_two" by code_simp
  have y2: "truthy (get food_two ''type'')" by code_simp
  have y3: "get food_two ''type'' \<noteq> JStr ''workout''" by code_simp
  have y4: "plain food_two" by code_simp
  have y5: "buildReplyForAnalysis decimal_fmt food_two = Some ?fr" by code_simp
  have y6: "Number_toString decimal_fmt (foldl js_add (Fin 0)
                (map (\<lambda>i. Math_round (number_value (js_or (oprop i ''calories'') (JNum (Fin 0)))))
                   (details_of food_two))) = ''220''"
    by code_simp
  have y7: "Number_toString decimal_fmt (foldl js_add (Fin 0)
                (map (\<lambda>i. Math_round (number_value
                        (js_or (oprop (oprop i ''macros'') ''protein'') (JNum (Fin 0)))))
                   (details_of food_two))) = ''6''"
    by code_simp
  have y8: "Number_toString decimal_fmt (foldl js_add (Fin 0)
                (map (\<lambda>i. Math_round (number_value
                        (js_or (oprop (oprop i ''macros'') ''fat'') (JNum (Fin 0)))))
                   (details_of food_two))) = ''0''"
    by code_simp
  have y9: "Number_toString decimal_fmt (foldl js_add (Fin 0)
                (map (\<lambda>i. Math_round (number_value
                        (js_or (oprop (oprop i ''macros'') ''carbs'') (JNum (Fin 0)))))
                   (details_of food_two))) = ''0''"
    by code_simp
  from reply_totals_from_details [of food_with_totals food_without_totals decimal_fmt]
    f1 f2 f3 f4 f5 f6 f7
  have r1: "buildReplyForAnalysis decimal_fmt food_with_totals
       = buildReplyForAnalysis decimal_fmt food_without_totals
     \<and> buildReplyForAnalysis decimal_fmt food_with_totals
       = Some (''Food:'' @ newline @ ''Totals '' @ em_dash
               @ '' Calories: 0, Protein: 0g, Fat: 0g, Carbs: 0g'' @ reference)"
    by blast
  from reply_totals_from_details [of workout_with_totals workout_with_totals decimal_fmt]
    w1 w2 w3
  have r2: "buildReplyForAnalysis decimal_fmt workout_with_totals
       = Some (''Workout:'' @ newline @ newline @ ''Total estimated calories: 0.'')"
    by blast
  from reply_totals_from_details [of workout_two workout_two decimal_fmt ?wr] x1 x2 x4
  have "\<exists>body. ?wr = ''Workout:'' @ body @ ''Total estimated calories: ''
            @ Number_toString decimal_fmt (Math_round (foldl js_add (Fin 0)
                (map (\<lambda>d. num_or_zero (number_value (get d ''calories_burned'')))
                   (details_of workout_two))))
            @ ''.''"
    by blast
  then have r3: "\<exists>body. ?wr = ''Workout:'' @ body @ ''Total estimated calories: '' @ ''350'' @ ''.''"
    by (simp only: x5)
  from reply_totals_from_details [of food_two food_two decimal_fmt ?fr] y1 y2 y3 y5
  have "\<exists>body. ?fr = ''Food:'' @ body @ ''Totals '' @ em_dash
            @ '' Calories: '' @ Number_toString decimal_fmt (foldl js_add (Fin 0)
                (map (\<lambda>i. Math_round (number_value (js_or (oprop i ''calories'') (JNum (Fin 0)))))
                   (details_of food_two)))
            @ '', Protein: '' @ Number_toString decimal_fmt (foldl js_add (Fin 0)
                (map (\<lambda>i. Math_round (number_value
                        (js_or (oprop (oprop i ''macros'') ''protein'') (JNum (Fin 0)))))
                   (details_of food_two)))
            @ ''g, Fat: '' @ Number_toString decimal_fmt (foldl js_add (Fin 0)
                (map (\<lambda>i. Math_round (number_value
                        (js_or (oprop (oprop i ''macros'') ''fat'') (JNum (Fin 0)))))
                   (details_of food_two)))
            @ ''g, Carbs: '' @ Number_toString decimal_fmt (foldl js_add (Fin 0)
                (map (\<lambda>i. Math_round (number_value
                        (js_or (oprop (oprop i ''macros'') ''carbs'') (JNum (Fin 0)))))
                   (details_of food_two)))
            @ ''g'' @ reference"
    by blast
  then have r4: "\<exists>body. ?fr = ''Food:'' @ body @ ''Totals '' @ em_dash @ '' Calories: '' @ ''220''
               @ '', Protein: '' @ ''6'' @ ''g, Fat: '' @ ''0'' @ ''g, Carbs: '' @ ''0''
               @ ''g'' @ reference"
    by (simp only: y6 y7 y8 y9)
  from f1 f2 f3 f4 f5 f6 f7 w1 w2 w3 x1 x2 x3 x4 y1 y2 y3 y4 y5 r1 r2 r3 r4
  show ?thesis by blast
qed


section \<open>Properties of the normalisation\<close>

lemma nullish_convertible: "nullish v \<Longrightarrow> convertible v"
  by (cases v) simp_all

lemma num_or_zero_not_NaN: "num_or_zero n \<noteq> NaN"
  by (simp add: num_or_zero_def)

lemma num_or_zero_value: "num_or_zero n = (if n = NaN then Fin 0 else n)"
  by (simp add: num_or_zero_def)

lemma clamp_value: "num_or_zero (Math_max (Fin 0) (Math_min (Fin 1) n)) = unit_clamp n"
  by (cases n) (auto simp: num_or_zero_def Math_max_def Math_min_def)

lemma unit_clamp_unit: "\<exists>c. unit_clamp n = Fin c \<and> 0 \<le> c \<and> c \<le> 1"
  by (cases n) auto

lemma coerce_number_Some:
  assumes "coerce_number v = Some w"
  shows "number_not_NaN w" and "kept_number v w"
proof -
  from assms have c: "convertible (js_coalesce v (JNum (Fin 0)))"
    and w: "w = JNum (num_or_zero (number_value (js_coalesce v (JNum (Fin 0)))))"
    by (auto simp: coerce_number_def ToNumber_Some)
  show "number_not_NaN w"
    using w by (simp add: number_not_NaN_def num_or_zero_not_NaN)
  show "kept_number v w"
  proof (cases "nullish v")
    case True
    with w show ?thesis by (simp add: kept_number_def js_coalesce_def num_or_zero_def)
  next
    case False
    with c w show ?thesis by (simp add: kept_number_def js_coalesce_def num_or_zero_value)
  qed
qed

lemma coerce_confidence_Some:
  assumes "coerce_confidence v = Some w"
  shows "in_unit_interval w" and "kept_confidence v w"
proof -
  from assms have c: "convertible (js_coalesce v (JNum (Fin 0)))"
    and w: "w = JNum (unit_clamp (number_value (js_coalesce v (JNum (Fin 0)))))"
    by (auto simp: coerce_confidence_def ToNumber_Some clamp_value)
  show "in_unit_interval w"
    using w unit_clamp_unit [of "number_value (js_coalesce v (JNum (Fin 0)))"]
    by (auto simp: in_unit_interval_def)
  show "kept_confidence v w"
  proof (cases "nullish v")
    case True
    with w show ?thesis by (simp add: kept_confidence_def js_coalesce_def)
  next
    case False
    with c w show ?thesis by (simp add: kept_confidence_def js_coalesce_def)
  qed
qed

lemma coerce_number_plain: "plain v \<Longrightarrow> \<exists>w. coerce_number v = Some w"
  by (simp add: coerce_number_def ToNumber_plain plain_js_coalesce)

lemma coerce_confidence_plain: "plain v \<Longrightarrow> \<exists>w. coerce_confidence v = Some w"
  by (simp add: coerce_confidence_def ToNumber_plain plain_js_coalesce)

lemma coerce_number_unconvertible: "\<not> convertible v \<Longrightarrow> coerce_number v = None"
  using nullish_convertible [of v] by (auto simp: coerce_number_def ToNumber_def js_coalesce_def)

lemma coerce_macros_Some:
  assumes "coerce_macros d = Some m"
  shows "\<exists>p f c. m = JObj [(''protein'', p), (''fat'', f), (''carbs'', c)]
           \<and> coerce_number (oprop (oprop d ''macros'') ''protein'') = Some p
           \<and> coerce_number (oprop (oprop d ''macros'') ''fat'') = Some f
           \<and> coerce_number (oprop (oprop d ''macros'') ''carbs'') = Some c"
  using assms by (auto simp: coerce_macros_def split: bind_splits)

lemma coerce_macros_plain:
  assumes "plain d"
  shows "\<exists>m. coerce_macros d = Some m"
proof -
  have "\<And>k. \<exists>w. coerce_number (oprop (oprop d ''macros'') k) = Some w"
    using assms by (intro coerce_number_plain plain_oprop)
  then obtain p f c where
    "coerce_number (oprop (oprop d ''macros'') ''protein'') = Some p"
    "coerce_number (oprop (oprop d ''macros'') ''fat'') = Some f"
    "coerce_number (oprop (oprop d ''macros'') ''carbs'') = Some c"
    by metis
  then show ?thesis by (simp add: coerce_macros_def)
qed

lemma numeric_fields:
  assumes "coerce_number (oprop d ''quantity'') = Some q"
      and "coerce_number (oprop d ''calories'') = Some c"
      and "coerce_macros d = Some m"
      and "coerce_confidence (oprop d ''confidence'') = Some conf"
      and "get i ''quantity'' = q" and "get i ''calories'' = c"
      and "get i ''macros'' = m" and "get i ''confidence'' = conf"
  shows "normalized_item i \<and> item_kept d i"
proof -
  from coerce_macros_Some [OF assms(3)] obtain p f b where
    m: "m = JObj [(''protein'', p), (''fat'', f), (''carbs'', b)]" and
    p: "coerce_number (oprop (oprop d ''macros'') ''protein'') = Some p" and
    f: "coerce_number (oprop (oprop d ''macros'') ''fat'') = Some f" and
    b: "coerce_number (oprop (oprop d ''macros'') ''carbs'') = Some b"
    by blast
  have g: "get (get i ''macros'') ''protein'' = p" "get (get i ''macros'') ''fat'' = f"
    "get (get i ''macros'') ''carbs'' = b"
    using assms(7) m by simp_all
  show ?thesis
    unfolding normalized_item_def item_kept_def g assms(5,6,8)
    using coerce_number_Some [OF assms(1)] coerce_number_Some [OF assms(2)]
      coerce_number_Some [OF p] coerce_number_Some [OF f] coerce_number_Some [OF b]
      coerce_confidence_Some [OF assms(4)]
    by blast
qed

lemma normalize_text_item_Some:
  assumes "normalize_text_item d = Some i"
  shows "normalized_item i \<and> item_kept d i"
proof -
  from assms obtain q c m conf where
    q: "coerce_number (oprop d ''quantity'') = Some q" and
    c: "coerce_number (oprop d ''calories'') = Some c" and
    m: "coerce_macros d = Some m" and
    conf: "coerce_confidence (oprop d ''confidence'') = Some conf" and
    i: "i = JObj [(''item'', js_coalesce (oprop d ''item'') (JStr [])),
                 (''quantity'', q),
                 (''unit'', js_coalesce (oprop d ''unit'') (JStr [])),
                 (''calories'', c),
                 (''macros'', m),
                 (''brand'', js_coalesce (oprop d ''brand'') (JStr [])),
                 (''source'', js_coalesce (oprop d ''source'') (JStr [])),
                 (''confidence'', conf)]"
    by (auto simp: normalize_text_item_def split: bind_splits)
  show ?thesis
    by (rule numeric_fields [OF q c m conf]) (simp_all add: i)
qed

lemma normalize_image_item_Some:
  assumes "normalize_image_item d = Some i"
  shows "normalized_item i \<and> item_kept d i"
proof -
  from assms obtain q c m conf where
    q: "coerce_number (oprop d ''quantity'') = Some q" and
    c: "coerce_number (oprop d ''calories'') = Some c" and
    m: "coerce_macros d = Some m" and
    conf: "coerce_confidence (oprop d ''confidence'') = Some conf" and
    i: "i = JObj [(''item'', js_coalesce (oprop d ''item'') (JStr [])),
                 (''quantity'', q),
                 (''unit'', js_coalesce (oprop d ''unit'') (JStr [])),
                 (''calories'', c),
                 (''macros'', m),
                 (''brand'', js_coalesce (oprop d ''brand'') (JStr [])),
                 (''source'', js_coalesce (oprop d ''source'') (JStr [])),
                 (''confidence'', conf)]"
    by (auto simp: normalize_image_item_def split: bind_splits)
  show ?thesis
    by (rule numeric_fields [OF q c m conf]) (simp_all add: i)
qed

lemma normalize_vision_item_Some:
  assumes "normalize_vision_item fmt d = Some i"
  shows "normalized_item i \<and> item_kept d i"
proof -
  from assms obtain item q c m conf asm where
    q: "coerce_number (oprop d ''quantity'') = Some q" and
    c: "coerce_number (oprop d ''calories'') = Some c" and
    m: "coerce_macros d = Some m" and
    conf: "coerce_confidence (oprop d ''confidence'') = Some conf" and
    i: "i = JObj [(''item'', JStr item),
                 (''quantity'', q),
                 (''unit'', js_coalesce (oprop d ''unit'') (JStr [])),
                 (''calories'', c),
                 (''macros'', m),
                 (''brand'', js_coalesce (oprop d ''brand'') (JStr [])),
                 (''source'', js_coalesce (oprop d ''source'') (JStr ''vision'')),
                 (''confidence'', conf),
                 (''assumptions'', asm)]"
    by (auto simp: normalize_vision_item_def split: bind_splits)
  show ?thesis
    by (rule numeric_fields [OF q c m conf]) (simp_all add: i)
qed

lemma normalize_text_item_plain:
  assumes "plain d"
  shows "\<exists>i. normalize_text_item d = Some i"
proof -
  obtain q c m conf where
    "coerce_number (oprop d ''quantity'') = Some q"
    "coerce_number (oprop d ''calories'') = Some c"
    "coerce_macros d = Some m"
    "coerce_confidence (oprop d ''confidence'') = Some conf"
    using coerce_number_plain [OF plain_oprop [OF assms]] coerce_macros_plain [OF assms]
      coerce_confidence_plain [OF plain_oprop [OF assms]]
    by metis
  then show ?thesis by (simp add: normalize_text_item_def)
qed

lemma normalize_image_item_plain:
  assumes "plain d"
  shows "\<exists>i. normalize_image_item d = Some i"
proof -
  obtain q c m conf where
    "coerce_number (oprop d ''quantity'') = Some q"
    "coerce_number (oprop d ''calories'') = Some c"
    "coerce_macros d = Some m"
    "coerce_confidence (oprop d ''confidence'') = Some conf"
    using coerce_number_plain [OF plain_oprop [OF assms]] coerce_macros_plain [OF assms]
      coerce_confidence_plain [OF plain_oprop [OF assms]]
    by metis
  then show ?thesis by (simp add: normalize_image_item_def)
qed

lemma coerce_assumptions_plain: "plain a \<Longrightarrow> \<exists>w. coerce_assumptions fmt dflt a = Some w"
  by (simp add: coerce_assumptions_def ToString_plain)

lemma normalize_vision_item_plain:
  assumes "plain d"
  shows "\<exists>i. normalize_vision_item fmt d = Some i"
proof -
  obtain q c m conf asm where
    "coerce_number (oprop d ''quantity'') = Some q"
    "coerce_number (oprop d ''calories'') = Some c"
    "coerce_macros d = Some m"
    "coerce_confidence (oprop d ''confidence'') = Some conf"
    "coerce_assumptions fmt [] (oprop d ''assumptions'') = Some asm"
    using coerce_number_plain [OF plain_oprop [OF assms]] coerce_macros_plain [OF assms]
      coerce_confidence_plain [OF plain_oprop [OF assms]]
      coerce_assumptions_plain [OF plain_oprop [OF assms]]
    by metis
  moreover have "ToString fmt (js_coalesce (oprop d ''item'') (JStr []))
      = Some (string_value fmt (js_coalesce (oprop d ''item'') (JStr [])))"
    using assms by (intro ToString_plain plain_js_coalesce plain_oprop) simp_all
  ultimately show ?thesis by (simp add: normalize_vision_item_def)
qed

lemma normalize_text_item_unconvertible:
  "\<not> convertible (oprop d ''calories'') \<Longrightarrow> normalize_text_item d = None"
  by (auto simp: normalize_text_item_def coerce_number_unconvertible split: bind_splits)

lemma normalize_image_item_unconvertible:
  "\<not> convertible (oprop d ''calories'') \<Longrightarrow> normalize_image_item d = None"
  by (auto simp: normalize_image_item_def coerce_number_unconvertible split: bind_splits)

lemma normalize_vision_item_unconvertible:
  "\<not> convertible (oprop d ''calories'') \<Longrightarrow> normalize_vision_item fmt d = None"
  by (auto simp: normalize_vision_item_def coerce_number_unconvertible split: bind_splits)

lemma get_assign: "get (JObj (assign kvs k v)) k = v"
  by (induction kvs) auto

lemma details_of_set_details:
  "get out ''type'' = JStr ''food'' \<Longrightarrow> details_of (set_details out (JArr xs)) = xs"
  by (cases out) (auto simp: set_details_def details_of_def get_assign simp del: get.simps(1))

lemma details_of_fallback: "details_of (JObj [(''type'', JStr ''food''), (''details'', JArr [])]) = []"
  by (simp add: details_of_def)

lemma details_of_empty_vision: "details_of empty_vision = []"
  by (simp add: details_of_def empty_vision_def)

lemma type_empty_vision: "get empty_vision ''type'' = JStr ''food''"
  by (simp add: empty_vision_def)

lemma plain_empty_vision: "plain empty_vision"
  by (simp add: empty_vision_def)

text \<open>The three paths have the shape of \<open>food_path\<close>, with their callback for \<open>f\<close>.\<close>

lemma food_path:
  assumes "get v ''type'' = JStr ''food''"
      and "map_option (\<lambda>items. set_details v (JArr items)) (those (map f (details_of v))) = Some res"
  shows "list_all2 (\<lambda>d i. f d = Some i) (details_of v) (details_of res)"
proof -
  from assms(2) obtain items where
    i: "those (map f (details_of v)) = Some items" and r: "res = set_details v (JArr items)"
    by auto
  from r have "details_of res = items" using details_of_set_details [OF assms(1)] by simp
  with i show ?thesis by (simp add: those_map_Some)
qed

lemma food_path_total:
  assumes "plain v" and "\<And>d. plain d \<Longrightarrow> \<exists>i. f d = Some i"
  shows "\<exists>res. map_option (\<lambda>items. set_details v (JArr items)) (those (map f (details_of v)))
           = Some res"
proof -
  have "\<And>d. d \<in> set (details_of v) \<Longrightarrow> \<exists>i. f d = Some i"
    using assms(2) plain_details_of [OF assms(1)] by blast
  from those_map_total [of "details_of v" f, OF this] show ?thesis by auto
qed

lemma food_path_None:
  assumes "d \<in> set (details_of v)" and "f d = None"
  shows "map_option (\<lambda>items. set_details v (JArr items)) (those (map f (details_of v))) = None"
  using those_map_None [of d "details_of v" f] assms by simp

lemma list_all2_items:
  assumes "list_all2 (\<lambda>d i. f d = Some i) ds is"
      and "\<And>d i. f d = Some i \<Longrightarrow> normalized_item i \<and> item_kept d i"
  shows "(\<forall>i\<in>set is. normalized_item i) \<and> list_all2 item_kept ds is"
proof -
  have "list_all2 (\<lambda>d i. normalized_item i \<and> item_kept d i) ds is"
    using assms by (auto elim: list_all2_mono)
  then show ?thesis
    by (auto simp: list_all2_conv_all_nth in_set_conv_nth)
qed

lemma text_food_output_items:
  assumes "text_food_output out = Some res"
  shows "(\<forall>i\<in>set (details_of res). normalized_item i)
       \<and> (truthy out \<and> get out ''type'' = JStr ''food''
            \<longrightarrow> list_all2 item_kept (details_of out) (details_of res))"
proof (cases "truthy out \<and> get out ''type'' = JStr ''food''")
  case False
  with assms have "res = JObj [(''type'', JStr ''food''), (''details'', JArr [])]"
    by (auto simp: text_food_output_def)
  with False show ?thesis by (auto simp: details_of_fallback)
next
  case True
  with assms have "map_option (\<lambda>items. set_details out (JArr items))
      (those (map normalize_text_item (details_of out))) = Some res"
    by (simp add: text_food_output_def)
  from food_path [of out normalize_text_item res, OF _ this] True
  have "list_all2 (\<lambda>d i. normalize_text_item d = Some i) (details_of out) (details_of res)"
    by simp
  from list_all2_items [OF this normalize_text_item_Some] show ?thesis by blast
qed

lemma image_food_output_items:
  assumes "image_food_output out = Some res"
  shows "(\<forall>i\<in>set (details_of res). normalized_item i)
       \<and> (truthy out \<and> get out ''type'' = JStr ''food''
            \<longrightarrow> list_all2 item_kept (details_of out) (details_of res))"
proof (cases "truthy out \<and> get out ''type'' = JStr ''food''")
  case False
  with assms have "res = JObj [(''type'', JStr ''food''), (''details'', JArr [])]"
    by (auto simp: image_food_output_def)
  with False show ?thesis by (auto simp: details_of_fallback)
next
  case True
  with assms have "map_option (\<lambda>items. set_details out (JArr items))
      (those (map normalize_image_item (details_of out))) = Some res"
    by (simp add: image_food_output_def)
  from food_path [of out normalize_image_item res, OF _ this] True
  have "list_all2 (\<lambda>d i. normalize_image_item d = Some i) (details_of out) (details_of res)"
    by simp
  from list_all2_items [OF this normalize_image_item_Some] show ?thesis by blast
qed

lemma vision_food_output_items:
  assumes "vision_food_output fmt out = Some res"
  shows "(\<forall>i\<in>set (details_of res). normalized_item i)
       \<and> (truthy out \<and> get out ''type'' = JStr ''food''
            \<longrightarrow> list_all2 item_kept (details_of out) (details_of res))"
proof (cases "truthy out \<and> get out ''type'' = JStr ''food''")
  case False
  with assms have "res = set_details empty_vision (JArr [])"
    by (auto simp: vision_food_output_def details_of_empty_vision)
  then have "details_of res = []"
    using details_of_set_details [OF type_empty_vision] by simp
  with False show ?thesis by auto
next
  case True
  with assms have "map_option (\<lambda>items. set_details out (JArr items))
      (those (map (normalize_vision_item fmt) (details_of out))) = Some res"
    by (simp add: vision_food_output_def)
  from food_path [of out "normalize_vision_item fmt" res, OF _ this] True
  have "list_all2 (\<lambda>d i. normalize_vision_item fmt d = Some i) (details_of out) (details_of res)"
    by simp
  from list_all2_items [OF this normalize_vision_item_Some [of fmt]] show ?thesis by blast
qed

lemma text_food_output_plain: "plain out \<Longrightarrow> \<exists>res. text_food_output out = Some res"
  using food_path_total [of out normalize_text_item] normalize_text_item_plain
  by (simp add: text_food_output_def)

lemma image_food_output_plain: "plain out \<Longrightarrow> \<exists>res. image_food_output out = Some res"
  using food_path_total [of out normalize_image_item] normalize_image_item_plain
  by (simp add: image_food_output_def)

lemma vision_food_output_plain: "plain out \<Longrightarrow> \<exists>res. vision_food_output fmt out = Some res"
  using food_path_total [of out "normalize_vision_item fmt"]
    food_path_total [of empty_vision "normalize_vision_item fmt"]
    normalize_vision_item_plain plain_empty_vision
  by (simp add: vision_food_output_def)

lemma text_food_output_unconvertible:
  assumes "truthy out" and "get out ''type'' = JStr ''food''"
      and "d \<in> set (details_of out)" and "\<not> convertible (oprop d ''calories'')"
  shows "text_food_output out = None"
  using food_path_None [of d out normalize_text_item] normalize_text_item_unconvertible [OF assms(4)] assms(1,2,3)
  by (simp add: text_food_output_def)

lemma image_food_output_unconvertible:
  assumes "truthy out" and "get out ''type'' = JStr ''food''"
      and "d \<in> set (details_of out)" and "\<not> convertible (oprop d ''calories'')"
  shows "image_food_output out = None"
  using food_path_None [of d out normalize_image_item] normalize_image_item_unconvertible [OF assms(4)] assms(1,2,3)
  by (simp add: image_food_output_def)

lemma vision_food_output_unconvertible:
  assumes "truthy out" and "get out ''type'' = JStr ''food''"
      and "d \<in> set (details_of out)" and "\<not> convertible (oprop d ''calories'')"
  shows "vision_food_output fmt out = None"
  using food_path_None [of d out "normalize_vision_item fmt"]
    normalize_vision_item_unconvertible [OF assms(4), of fmt] assms(1,2,3)
  by (simp add: vision_food_output_def)


text \<open>
  Claim C5, as amended.  Take the output of one of the three paths (text, image,
  vision) when the path returns.  Every item in it has numbers in \<^verbatim>\<open>quantity\<close>,
  \<^verbatim>\<open>calories\<close> and the three macros, none of them \<open>NaN\<close>, and a confidence in
  \<open>[0, 1]\<close>.  When the parsed output is a food record, the items are those made of
  its details, one for one, and each numeric field is \<open>0\<close> when its input is absent
  (\<^verbatim>\<open>null\<close>, \<^verbatim>\<open>undefined\<close>) or no number, and \<^verbatim>\<open>Number(input)\<close> otherwise: no bound is
  put on it, so a negative or an infinite input stays what it is.  Only the confidence
  is brought into \<open>[0, 1]\<close>.  The path returns for every plain parsed output, and
  throws when the calories of a detail are not convertible.
\<close>

theorem normalization_numeric_fields:
  "(text_food_output out = Some res \<longrightarrow> (\<forall>i\<in>set (details_of res). normalized_item i))
   \<and> (truthy out \<and> get out ''type'' = JStr ''food'' \<and> text_food_output out = Some res
        \<longrightarrow> list_all2 item_kept (details_of out) (details_of res))
   \<and> (plain out \<longrightarrow> (\<exists>r. text_food_output out = Some r))
   \<and> (truthy out \<and> get out ''type'' = JStr ''food''
        \<and> (\<exists>d\<in>set (details_of out). \<not> convertible (oprop d ''calories''))
        \<longrightarrow> text_food_output out = None)
   \<and> (image_food_output out = Some res \<longrightarrow> (\<forall>i\<in>set (details_of res). normalized_item i))
   \<and> (truthy out \<and> get out ''type'' = JStr ''food'' \<and> image_food_output out = Some res
        \<longrightarrow> list_all2 item_kept (details_of out) (details_of res))
   \<and> (plain out \<longrightarrow> (\<exists>r. image_food_output out = Some r))
   \<and> (truthy out \<and> get out ''type'' = JStr ''food''
        \<and> (\<exists>d\<in>set (details_of out). \<not> convertible (oprop d ''calories''))
        \<longrightarrow> image_food_output out = None)
   \<and> (vision_food_output fmt out = Some res \<longrightarrow> (\<forall>i\<in>set (details_of res). normalized_item i))
   \<and> (truthy out \<and> get out ''type'' = JStr ''food'' \<and> vision_food_output fmt out = Some res
        \<longrightarrow> list_all2 item_kept (details_of out) (details_of res))
   \<and> (plain out \<longrightarrow> (\<exists>r. vision_food_output fmt out = Some r))
   \<and> (truthy out \<and> get out ''type'' = JStr ''food''
        \<and> (\<exists>d\<in>set (details_of out). \<not> convertible (oprop d ''calories''))
        \<longrightarrow> vision_food_output fmt out = None)"
proof -
  have t1: "text_food_output out = Some res \<longrightarrow> (\<forall>i\<in>set (details_of res). normalized_item i)"
    using text_food_output_items [of out res] by blast
  have t2: "truthy out \<and> get out ''type'' = JStr ''food'' \<and> text_food_output out = Some res
        \<longrightarrow> list_all2 item_kept (details_of out) (details_of res)"
    using text_food_output_items [of out res] by blast
  have t3: "plain out \<longrightarrow> (\<exists>r. text_food_output out = Some r)"
    using text_food_output_plain by blast
  have t4: "truthy out \<and> get out ''type'' = JStr ''food''
        \<and> (\<exists>d\<in>set (details_of out). \<not> convertible (oprop d ''calories''))
        \<longrightarrow> text_food_output out = None"
    using text_food_output_unconvertible [of out] by blast
  have i1: "image_food_output out = Some res \<longrightarrow> (\<forall>i\<in>set (details_of res). normalized_item i)"
    using image_food_output_items [of out res] by blast
  have i2: "truthy out \<and> get out ''type'' = JStr ''food'' \<and> image_food_output out = Some res
        \<longrightarrow> list_all2 item_kept (details_of out) (details_of res)"
    using image_food_output_items [of out res] by blast
  have i3: "plain out \<longrightarrow> (\<exists>r. image_food_output out = Some r)"
    using image_food_output_plain by blast
  have i4: "truthy out \<and> get out ''type'' = JStr ''food''
        \<and> (\<exists>d\<in>set (details_of out). \<not> convertible (oprop d ''calories''))
        \<longrightarrow> image_food_output out = None"
    using image_food_output_unconvertible [of out] by blast
  have v1: "vision_food_output fmt out = Some res
      \<longrightarrow> (\<forall>i\<in>set (details_of res). normalized_item i)"
    using vision_food_output_items [of fmt out res] by blast
  have v2: "truthy out \<and> get out ''type'' = JStr ''food'' \<and> vision_food_output fmt out = Some res
        \<longrightarrow> list_all2 item_kept (details_of out) (details_of res)"
    using vision_food_output_items [of fmt out res] by blast
  have v3: "plain out \<longrightarrow> (\<exists>r. vision_food_output fmt out = Some r)"
    using vision_food_output_plain by blast
  have v4: "truthy out \<and> get out ''type'' = JStr ''food''
        \<and> (\<exists>d\<in>set (details_of out). \<not> convertible (oprop d ''calories''))
        \<longrightarrow> vision_food_output fmt out = None"
    using vision_food_output_unconvertible [of out _ fmt] by blast
  from t1 t2 t3 t4 i1 i2 i3 i4 v1 v2 v3 v4 show ?thesis by blast
qed

theorem normalization_numeric_fields_witness:
  "truthy raw_food_output \<and> get raw_food_output ''type'' = JStr ''food''
   \<and> plain raw_food_output
   \<and> details_of raw_food_output = [raw_detail, JNull]
   \<and> text_food_output raw_food_output = Some raw_food_normalized
   \<and> image_food_output raw_food_output = Some raw_food_normalized
   \<and> details_of raw_food_normalized = [raw_detail_normalized, null_detail_normalized]
   \<and> normalized_item raw_detail_normalized \<and> normalized_item null_detail_normalized
   \<and> list_all2 item_kept [raw_detail, JNull] [raw_detail_normalized, null_detail_normalized]
   \<and> get raw_detail ''quantity'' = JStr ''2''
   \<and> get raw_detail_normalized ''quantity'' = JNum (Fin 2)
   \<and> get (get raw_detail ''macros'') ''fat'' = JNum (Fin (- 3))
   \<and> get (get raw_detail_normalized ''macros'') ''fat'' = JNum (Fin (- 3))
   \<and> truthy unconvertible_food_output \<and> get unconvertible_food_output ''type'' = JStr ''food''
   \<and> (\<exists>d\<in>set (details_of unconvertible_food_output). \<not> convertible (oprop d ''calories''))
   \<and> text_food_output unconvertible_food_output = None
   \<and> vision_food_output decimal_fmt unconvertible_food_output = None"
proof -
  have h1: "truthy raw_food_output" by code_simp
  have h2: "get raw_food_output ''type'' = JStr ''food''" by code_simp
  have h3: "plain raw_food_output" by code_simp
  have h4: "details_of raw_food_output = [raw_detail, JNull]" by code_simp
  have h5: "text_food_output raw_food_output = Some raw_food_normalized" by code_simp
  have h6: "image_food_output raw_food_output = Some raw_food_normalized" by code_simp
  have h7: "details_of raw_food_normalized = [raw_detail_normalized, null_detail_normalized]"
    by code_simp
  have e1: "get raw_detail ''quantity'' = JStr ''2''" by code_simp
  have e2: "get raw_detail_normalized ''quantity'' = JNum (Fin 2)" by code_simp
  have e3: "get (get raw_detail ''macros'') ''fat'' = JNum (Fin (- 3))" by code_simp
  have e4: "get (get raw_detail_normalized ''macros'') ''fat'' = JNum (Fin (- 3))" by code_simp
  have u1: "truthy unconvertible_food_output" by code_simp
  have u2: "get unconvertible_food_output ''type'' = JStr ''food''" by code_simp
  have u3: "\<exists>d\<in>set (details_of unconvertible_food_output). \<not> convertible (oprop d ''calories'')"
    by code_simp
  note t = normalization_numeric_fields [of raw_food_output raw_food_normalized decimal_fmt]
  have "text_food_output raw_food_output = Some raw_food_normalized
      \<longrightarrow> (\<forall>i\<in>set (details_of raw_food_normalized). normalized_item i)"
    using t by (rule conjunct1)
  then have "\<forall>i\<in>set (details_of raw_food_normalized). normalized_item i"
    using h5 by (rule mp)
  then have n1: "normalized_item raw_detail_normalized"
    and n2: "normalized_item null_detail_normalized"
    by (simp_all add: h7)
  have "truthy raw_food_output \<and> get raw_food_output ''type'' = JStr ''food''
        \<and> text_food_output raw_food_output = Some raw_food_normalized
      \<longrightarrow> list_all2 item_kept (details_of raw_food_output) (details_of raw_food_normalized)"
    using t [THEN conjunct2] by (rule conjunct1)
  with h1 h2 h5
  have "list_all2 item_kept (details_of raw_food_output) (details_of raw_food_normalized)"
    by simp
  then have k: "list_all2 item_kept [raw_detail, JNull] [raw_detail_normalized, null_detail_normalized]"
    by (simp only: h4 h7)
  note u = normalization_numeric_fields [of unconvertible_food_output raw_food_normalized decimal_fmt]
  have "truthy unconvertible_food_output \<and> get unconvertible_food_output ''type'' = JStr ''food''
        \<and> (\<exists>d\<in>set (details_of unconvertible_food_output). \<not> convertible (oprop d ''calories''))
      \<longrightarrow> text_food_output unconvertible_food_output = None"
    using u [THEN conjunct2, THEN conjunct2, THEN conjunct2] by (rule conjunct1)
  with u1 u2 u3 have x1: "text_food_output unconvertible_food_output = None" by simp
  have "truthy unconvertible_food_output \<and> get unconvertible_food_output ''type'' = JStr ''food''
        \<and> (\<exists>d\<in>set (details_of unconvertible_food_output). \<not> convertible (oprop d ''calories''))
      \<longrightarrow> vision_food_output decimal_fmt unconvertible_food_output = None"
    using u [THEN conjunct2, THEN conjunct2, THEN conjunct2, THEN conjunct2, THEN conjunct2,
        THEN conjunct2, THEN conjunct2, THEN conjunct2, THEN conjunct2, THEN conjunct2]
    by (rule conjunct2)
  with u1 u2 u3 have x2: "vision_food_output decimal_fmt unconvertible_food_output = None" by simp
  show ?thesis
    by (intro conjI h1 h2 h3 h4 h5 h6 h7 n1 n2 k e1 e2 e3 e4 u1 u2 u3 x1 x2)
qed

text \<open>
  The claim as it was stated (every numeric field is finite and not negative) fails:
  \<^verbatim>\<open>calories: -5\<close> stays \<open>-5\<close>, and a quantity that is \<^verbatim>\<open>Infinity\<close> stays infinite.
\<close>

theorem normalization_negative_counterexample:
  "text_food_output unbounded_food_output
     = Some (JObj [(''type'', JStr ''food''),
          (''details'', JArr [JObj [(''item'', JStr []), (''quantity'', JNum PInf),
             (''unit'', JStr []), (''calories'', JNum (Fin (- 5))),
             (''macros'', JObj [(''protein'', JNum (Fin 0)), (''fat'', JNum (Fin 0)),
                                (''carbs'', JNum (Fin 0))]),
             (''brand'', JStr []), (''source'', JStr []), (''confidence'', JNum (Fin 0))]])])
   \<and> vision_food_output decimal_fmt unbounded_food_output
     = Some (JObj [(''type'', JStr ''food''),
          (''details'', JArr [JObj [(''item'', JStr []), (''quantity'', JNum PInf),
             (''unit'', JStr []), (''calories'', JNum (Fin (- 5))),
             (''macros'', JObj [(''protein'', JNum (Fin 0)), (''fat'', JNum (Fin 0)),
                                (''carbs'', JNum (Fin 0))]),
             (''brand'', JStr []), (''source'', JStr ''vision''), (''confidence'', JNum (Fin 0)),
             (''assumptions'', JArr [])]])])"
  by code_simp


section \<open>Properties of the classifiers and of \<^verbatim>\<open>preprocessAudio\<close>\<close>

lemma text_label_Some:
  "text_label fmt create text = Some label \<longleftrightarrow>
     convertible (js_or text (JStr []))
     \<and> (if trim (string_value fmt (js_or text (JStr []))) = [] then label = ''food''
         else \<exists>resp. create (text_request (trim (string_value fmt (js_or text (JStr []))))) = Some resp
                \<and> convertible (js_or (message_content resp) (JStr []))
                \<and> label = (if str_includes
                                 (toLowerCase (string_value fmt (js_or (message_content resp) (JStr []))))
                                 ''workout''
                            then ''workout'' else ''food''))"
  by (auto simp: text_label_def ToString_def split: bind_splits if_splits)

text \<open>
  Claim C7.  The text classifier returns \<^verbatim>\<open>"workout"\<close> exactly when its input is
  convertible to a string that is not blank, the inference call made with it returns,
  and the content of the response is convertible to a string that contains
  \<^verbatim>\<open>workout\<close> once lower-cased.  In every other case it returns \<^verbatim>\<open>"food"\<close>: when the
  input is not convertible (the exception is caught), when the input is blank, when the
  call throws, when the content is not convertible, and when the content does not
  contain \<^verbatim>\<open>workout\<close>.  The image classifier does the same with the trimmed content,
  a content that is not a string counting as a failure.
\<close>

theorem classifier_workout_iff:
  "(classifyFoodOrWorkoutFromText fmt create text = ''workout'' \<longleftrightarrow>
      convertible (js_or text (JStr []))
      \<and> trim (string_value fmt (js_or text (JStr []))) \<noteq> []
      \<and> (\<exists>resp. create (text_request (trim (string_value fmt (js_or text (JStr []))))) = Some resp
            \<and> convertible (js_or (message_content resp) (JStr []))
            \<and> str_includes
                 (toLowerCase (string_value fmt (js_or (message_content resp) (JStr []))))
                 ''workout''))
   \<and> (classifyFoodOrWorkoutFromText fmt create text = ''workout''
        \<or> classifyFoodOrWorkoutFromText fmt create text = ''food'')
   \<and> (\<not> convertible (js_or text (JStr []))
        \<longrightarrow> classifyFoodOrWorkoutFromText fmt create text = ''food'')
   \<and> (create (text_request (trim (string_value fmt (js_or text (JStr []))))) = None
        \<longrightarrow> classifyFoodOrWorkoutFromText fmt create text = ''food'')
   \<and> (classifyFoodOrWorkoutFromImage create imageBase64 mimeType = ''workout'' \<longleftrightarrow>
        (\<exists>r s. create (image_request mimeType imageBase64) = Some r \<and> \<not> nullish r
            \<and> js_or (message_content r) (JStr ''food'') = JStr s
            \<and> str_includes (toLowerCase (trim s)) ''workout''))
   \<and> (classifyFoodOrWorkoutFromImage create imageBase64 mimeType = ''workout''
        \<or> classifyFoodOrWorkoutFromImage create imageBase64 mimeType = ''food'')
   \<and> (create (image_request mimeType imageBase64) = None
        \<longrightarrow> classifyFoodOrWorkoutFromImage create imageBase64 mimeType = ''food'')"
proof -
  have l: "classifyFoodOrWorkoutFromText fmt create text = ''workout''
      \<longleftrightarrow> text_label fmt create text = Some ''workout''"
    by (cases "text_label fmt create text") (auto simp: classifyFoodOrWorkoutFromText_def)
  have t1: "classifyFoodOrWorkoutFromText fmt create text = ''workout'' \<longleftrightarrow>
      convertible (js_or text (JStr []))
      \<and> trim (string_value fmt (js_or text (JStr []))) \<noteq> []
      \<and> (\<exists>resp. create (text_request (trim (string_value fmt (js_or text (JStr []))))) = Some resp
            \<and> convertible (js_or (message_content resp) (JStr []))
            \<and> str_includes
                 (toLowerCase (string_value fmt (js_or (message_content resp) (JStr []))))
                 ''workout'')"
    unfolding l text_label_Some by auto
  have t2: "classifyFoodOrWorkoutFromText fmt create text = ''workout''
        \<or> classifyFoodOrWorkoutFromText fmt create text = ''food''"
  proof (cases "text_label fmt create text")
    case None
    then show ?thesis by (simp add: classifyFoodOrWorkoutFromText_def)
  next
    case (Some label)
    then have "label = ''workout'' \<or> label = ''food''"
      unfolding text_label_Some by (auto split: if_splits)
    with Some show ?thesis by (auto simp: classifyFoodOrWorkoutFromText_def)
  qed
  have t3: "\<not> convertible (js_or text (JStr []))
        \<longrightarrow> classifyFoodOrWorkoutFromText fmt create text = ''food''"
    by (simp add: classifyFoodOrWorkoutFromText_def text_label_def ToString_def)
  have t4: "create (text_request (trim (string_value fmt (js_or text (JStr []))))) = None
        \<longrightarrow> classifyFoodOrWorkoutFromText fmt create text = ''food''"
    using t1 t2 by auto
  have i1: "classifyFoodOrWorkoutFromImage create imageBase64 mimeType = ''workout'' \<longleftrightarrow>
        (\<exists>r s. create (image_request mimeType imageBase64) = Some r \<and> \<not> nullish r
            \<and> js_or (message_content r) (JStr ''food'') = JStr s
            \<and> str_includes (toLowerCase (trim s)) ''workout'')"
    by (auto simp: classifyFoodOrWorkoutFromImage_def getprop_def message_content_def oprop_def
        split: option.splits jsval.splits bind_splits if_splits)
  have i2: "classifyFoodOrWorkoutFromImage create imageBase64 mimeType = ''workout''
        \<or> classifyFoodOrWorkoutFromImage create imageBase64 mimeType = ''food''"
    by (auto simp: classifyFoodOrWorkoutFromImage_def getprop_def
        split: option.splits jsval.splits bind_splits if_splits)
  have i3: "create (image_request mimeType imageBase64) = None
        \<longrightarrow> classifyFoodOrWorkoutFromImage create imageBase64 mimeType = ''food''"
    by (auto simp: classifyFoodOrWorkoutFromImage_def)
  from t1 t2 t3 t4 i1 i2 i3 show ?thesis by blast
qed

theorem classifier_workout_iff_witness:
  "classifyFoodOrWorkoutFromText decimal_fmt (answering (chat_response ''Workout'')) (JStr ''ran 5 km'')
     = ''workout''
   \<and> classifyFoodOrWorkoutFromImage (answering (chat_response ''Workout'')) ''AAAA'' ''image/png''
     = ''workout''
   \<and> \<not> convertible (js_or unconvertible_text (JStr []))
   \<and> classifyFoodOrWorkoutFromText decimal_fmt (answering (chat_response ''Workout''))
        unconvertible_text = ''food''
   \<and> throwing (text_request (trim (string_value decimal_fmt (js_or (JStr ''ran 5 km'') (JStr [])))))
       = None
   \<and> classifyFoodOrWorkoutFromText decimal_fmt throwing (JStr ''ran 5 km'') = ''food''
   \<and> throwing (image_request ''image/png'' ''AAAA'') = None
   \<and> classifyFoodOrWorkoutFromImage throwing ''AAAA'' ''image/png'' = ''food''"
proof -
  let ?c = "answering (chat_response ''Workout'')"
  have a0: "convertible (js_or (JStr ''ran 5 km'') (JStr []))" by code_simp
  have a1: "trim (string_value decimal_fmt (js_or (JStr ''ran 5 km'') (JStr []))) \<noteq> []"
    by code_simp
  have a2: "?c (text_request (trim (string_value decimal_fmt (js_or (JStr ''ran 5 km'') (JStr [])))))
      = Some (chat_response ''Workout'')"
    by (simp add: answering_def)
  have a3: "convertible (js_or (message_content (chat_response ''Workout'')) (JStr []))"
    by code_simp
  have a4: "str_includes (toLowerCase (string_value decimal_fmt
      (js_or (message_content (chat_response ''Workout'')) (JStr [])))) ''workout''"
    by code_simp
  have b1: "?c (image_request ''image/png'' ''AAAA'') = Some (chat_response ''Workout'')"
    by (simp add: answering_def)
  have b2: "\<not> nullish (chat_response ''Workout'')" by code_simp
  have b3: "js_or (message_content (chat_response ''Workout'')) (JStr ''food'') = JStr ''Workout''"
    by code_simp
  have b4: "str_includes (toLowerCase (trim ''Workout'')) ''workout''" by code_simp
  have u1: "\<not> convertible (js_or unconvertible_text (JStr []))" by code_simp
  have n1: "throwing (text_request (trim (string_value decimal_fmt (js_or (JStr ''ran 5 km'') (JStr [])))))
      = None"
    by (simp add: throwing_def)
  have n2: "throwing (image_request ''image/png'' ''AAAA'') = None"
    by (simp add: throwing_def)
  from classifier_workout_iff [of decimal_fmt ?c "JStr ''ran 5 km''" "''AAAA''" "''image/png''"]
    a0 a1 a2 a3 a4 b1 b2 b3 b4
  have w: "classifyFoodOrWorkoutFromText decimal_fmt ?c (JStr ''ran 5 km'') = ''workout''
      \<and> classifyFoodOrWorkoutFromImage ?c ''AAAA'' ''image/png'' = ''workout''"
    by blast
  from classifier_workout_iff [of decimal_fmt ?c unconvertible_text "''AAAA''" "''image/png''"] u1
  have u: "classifyFoodOrWorkoutFromText decimal_fmt ?c unconvertible_text = ''food''"
    by blast
  from classifier_workout_iff [of decimal_fmt throwing "JStr ''ran 5 km''" "''AAAA''" "''image/png''"]
    n1 n2
  have f: "classifyFoodOrWorkoutFromText decimal_fmt throwing (JStr ''ran 5 km'') = ''food''
      \<and> classifyFoodOrWorkoutFromImage throwing ''AAAA'' ''image/png'' = ''food''"
    by blast
  from w u1 u f n1 n2 show ?thesis by blast
qed

text \<open>
  Claim C8.  When the shell call for \<^verbatim>\<open>ffmpeg\<close> rejects, for whatever reason,
  \<^verbatim>\<open>preprocessAudio\<close> returns the raw path it was given (the function has no other
  failing step, so it returns in every case).  The transcription then streams the file
  at that path: the buffer that was written there, when the failed call left that file
  in place.
\<close>

theorem preprocess_falls_back_to_raw:
  "(fst (execPromise (preprocess_command RNNOISE_MODEL fs rawPath cleanedPath) fs) = Rejected message
      \<longrightarrow> fst (preprocessAudio RNNOISE_MODEL execPromise fs rawPath cleanedPath) = rawPath)
   \<and> (execPromise
          (preprocess_command RNNOISE_MODEL (fs0(raw_path stamp \<mapsto> audioBuffer))
             (raw_path stamp) (cleaned_path stamp))
          (fs0(raw_path stamp \<mapsto> audioBuffer)) = (Rejected message, fs')
        \<and> fs' (raw_path stamp) = Some audioBuffer
      \<longrightarrow> whisper_input RNNOISE_MODEL execPromise fs0 stamp audioBuffer = Some audioBuffer)"
proof -
  have "fst (execPromise (preprocess_command RNNOISE_MODEL fs rawPath cleanedPath) fs) = Rejected message
      \<longrightarrow> fst (preprocessAudio RNNOISE_MODEL execPromise fs rawPath cleanedPath) = rawPath"
    by (auto simp: preprocessAudio_def split: prod.splits exec_outcome.splits)
  moreover have "execPromise
          (preprocess_command RNNOISE_MODEL (fs0(raw_path stamp \<mapsto> audioBuffer))
             (raw_path stamp) (cleaned_path stamp))
          (fs0(raw_path stamp \<mapsto> audioBuffer)) = (Rejected message, fs')
        \<and> fs' (raw_path stamp) = Some audioBuffer
      \<longrightarrow> whisper_input RNNOISE_MODEL execPromise fs0 stamp audioBuffer = Some audioBuffer"
    by (simp add: whisper_input_def preprocessAudio_def Let_def)
  ultimately show ?thesis by blast
qed

theorem preprocess_falls_back_to_raw_witness:
  "fst (no_ffmpeg (preprocess_command None Map.empty ''in.ogg'' ''out.wav'') Map.empty)
     = Rejected ''ffmpeg: not found''
   \<and> fst (preprocessAudio None no_ffmpeg Map.empty ''in.ogg'' ''out.wav'') = ''in.ogg''
   \<and> no_ffmpeg
        (preprocess_command None (Map.empty(raw_path ''17'' \<mapsto> ''OggS''))
           (raw_path ''17'') (cleaned_path ''17''))
        (Map.empty(raw_path ''17'' \<mapsto> ''OggS''))
      = (Rejected ''ffmpeg: not found'', Map.empty(raw_path ''17'' \<mapsto> ''OggS''))
   \<and> (Map.empty(raw_path ''17'' \<mapsto> ''OggS'')) (raw_path ''17'') = Some ''OggS''
   \<and> whisper_input None no_ffmpeg Map.empty ''17'' ''OggS'' = Some ''OggS''"
proof -
  have h1: "fst (no_ffmpeg (preprocess_command None Map.empty ''in.ogg'' ''out.wav'') Map.empty)
      = Rejected ''ffmpeg: not found''"
    by (simp add: no_ffmpeg_def)
  have h2: "no_ffmpeg
        (preprocess_command None (Map.empty(raw_path ''17'' \<mapsto> ''OggS''))
           (raw_path ''17'') (cleaned_path ''17''))
        (Map.empty(raw_path ''17'' \<mapsto> ''OggS''))
      = (Rejected ''ffmpeg: not found'', Map.empty(raw_path ''17'' \<mapsto> ''OggS''))"
    by (simp add: no_ffmpeg_def)
  have h3: "(Map.empty(raw_path ''17'' \<mapsto> ''OggS'')) (raw_path ''17'') = Some ''OggS''"
    by simp
  from preprocess_falls_back_to_raw [of no_ffmpeg None Map.empty "''in.ogg''" "''out.wav''"
      "''ffmpeg: not found''" Map.empty "''17''" "''OggS''" "Map.empty(raw_path ''17'' \<mapsto> ''OggS'')"]
    h1 h2 h3
  show ?thesis by blast
qed

section \<open>Properties of \<^verbatim>\<open>fetchMetaMediaBytes\<close>\<close>

subsection \<open>The schedule of the download loop\<close>

lemma download_loop_all_fail:
  assumes "\<forall>k. a \<le> k \<and> int k \<le> maxR \<longrightarrow> \<not> succeeded (server k (0 < k))"
  shows "download_loop server maxR b a t
         = (None, t @ concat (map (failed_attempt b) [a..<nat (maxR + 1)]))"
  using assms
proof (induction server maxR b a t rule: download_loop.induct)
  case (1 server maxR baseDelay attempt trace)
  show ?case
  proof (cases "int attempt \<le> maxR")
    case True
    then have ns: "\<not> succeeded (server attempt (0 < attempt))" using "1.prems" by simp
    have ih: "download_loop server maxR baseDelay (Suc attempt)
        (trace @ [Download attempt (0 < attempt), Sleep (baseDelay * 2 ^ Suc attempt)])
      = (None, (trace @ [Download attempt (0 < attempt), Sleep (baseDelay * 2 ^ Suc attempt)])
           @ concat (map (failed_attempt baseDelay) [Suc attempt..<nat (maxR + 1)]))"
    proof (rule "1.IH" [OF True ns])
      show "\<forall>k. Suc attempt \<le> k \<and> int k \<le> maxR \<longrightarrow> \<not> succeeded (server k (0 < k))"
        using "1.prems" by (metis Suc_leD)
    qed
    have lt: "attempt < nat (maxR + 1)" using True by linarith
    have "[attempt..<nat (maxR + 1)] = attempt # [Suc attempt..<nat (maxR + 1)]"
      using lt by (simp add: upt_conv_Cons)
    then show ?thesis
      using True ns ih by (subst download_loop.simps) (simp add: failed_attempt_def)
  next
    case False
    then have "[attempt..<nat (maxR + 1)] = []" by simp
    then show ?thesis using False by (subst download_loop.simps) simp
  qed
qed

lemma download_loop_first_success:
  assumes "a \<le> j" and "int j \<le> maxR" and "succeeded (server j (0 < j))"
      and "\<forall>k. a \<le> k \<and> k < j \<longrightarrow> \<not> succeeded (server k (0 < k))"
  shows "download_loop server maxR b a t
         = (Some (response_body (server j (0 < j))),
            t @ concat (map (failed_attempt b) [a..<j]) @ [Download j (0 < j)])"
  using assms
proof (induction server maxR b a t rule: download_loop.induct)
  case (1 server maxR baseDelay attempt trace)
  have le: "int attempt \<le> maxR" using "1.prems" by linarith
  show ?case
  proof (cases "attempt = j")
    case True
    then show ?thesis using le "1.prems" by (subst download_loop.simps) simp
  next
    case False
    then have lt: "attempt < j" using "1.prems" by simp
    then have ns: "\<not> succeeded (server attempt (0 < attempt))" using "1.prems" by simp
    have ih: "download_loop server maxR baseDelay (Suc attempt)
        (trace @ [Download attempt (0 < attempt), Sleep (baseDelay * 2 ^ Suc attempt)])
      = (Some (response_body (server j (0 < j))),
         (trace @ [Download attempt (0 < attempt), Sleep (baseDelay * 2 ^ Suc attempt)])
           @ concat (map (failed_attempt baseDelay) [Suc attempt..<j]) @ [Download j (0 < j)])"
    proof (rule "1.IH" [OF le ns])
      show "Suc attempt \<le> j" using lt by simp
      show "int j \<le> maxR" using "1.prems" by blast
      show "succeeded (server j (0 < j))" using "1.prems" by blast
      show "\<forall>k. Suc attempt \<le> k \<and> k < j \<longrightarrow> \<not> succeeded (server k (0 < k))"
        using "1.prems" by (metis Suc_leD)
    qed
    have "[attempt..<j] = attempt # [Suc attempt..<j]"
      using lt by (simp add: upt_conv_Cons)
    then show ?thesis
      using le ns ih by (subst download_loop.simps) (simp add: failed_attempt_def)
  qed
qed

text \<open>
  Claim C4, as amended.  Let the media object have a \<^verbatim>\<open>url\<close>.  If every attempt up to
  \<open>maxRetries\<close> fails (and \<open>maxRetries\<close> is not negative), the function makes
  \<open>1 + maxRetries\<close> requests and then fails with the error "Failed to download media
  after retries" (\<^verbatim>\<open>MediaUnavailable\<close>).  If attempt \<open>j\<close> is the first to succeed, its
  body is returned after \<open>j\<close> failed attempts.  A failed attempt \<open>k\<close> is a request, without
  the credential for \<open>k = 0\<close> and with it for \<open>k > 0\<close>, followed by a sleep of
  \<open>base * 2 ^ (k + 1)\<close> milliseconds: the counter is incremented before the delay is
  computed.  The defaults are \<open>3\<close> retries and a base of \<open>300\<close> ms.
\<close>

theorem fetch_retry_schedule:
  "(truthy (get (js_or data (JObj [])) ''url'') \<and> 0 \<le> max_retries opts
      \<and> (\<forall>k. int k \<le> max_retries opts \<longrightarrow> \<not> succeeded (server k (0 < k)))
     \<longrightarrow> fetchMetaMediaBytes (Some data) server opts
         = (Inl DownloadFailed,
            concat (map (failed_attempt (base_delay opts)) [0..<nat (max_retries opts) + 1])))
   \<and> (truthy (get (js_or data (JObj [])) ''url'') \<and> int j \<le> max_retries opts
      \<and> succeeded (server j (0 < j)) \<and> (\<forall>k. k < j \<longrightarrow> \<not> succeeded (server k (0 < k)))
     \<longrightarrow> fetchMetaMediaBytes (Some data) server opts
         = (Inr (response_body (server j (0 < j)),
                 js_or (get (js_or data (JObj [])) ''mime_type'') (JStr ''application/octet-stream'')),
            concat (map (failed_attempt (base_delay opts)) [0..<j]) @ [Download j (0 < j)]))
   \<and> failed_attempt b 0 = [Download 0 False, Sleep (b * 2)]
   \<and> (0 < n \<longrightarrow> failed_attempt b n = [Download n True, Sleep (b * 2 ^ (n + 1))])
   \<and> max_retries default_opts = 3 \<and> base_delay default_opts = 300"
proof -
  let ?url = "get (js_or data (JObj [])) ''url''"
  have all_fail: "truthy ?url \<and> 0 \<le> max_retries opts
      \<and> (\<forall>k. int k \<le> max_retries opts \<longrightarrow> \<not> succeeded (server k (0 < k)))
     \<longrightarrow> fetchMetaMediaBytes (Some data) server opts
         = (Inl DownloadFailed,
            concat (map (failed_attempt (base_delay opts)) [0..<nat (max_retries opts) + 1]))"
  proof (intro impI, elim conjE)
    assume u: "truthy ?url" and m: "0 \<le> max_retries opts"
      and f: "\<forall>k. int k \<le> max_retries opts \<longrightarrow> \<not> succeeded (server k (0 < k))"
    have "download_loop server (max_retries opts) (base_delay opts) 0 []
        = (None, [] @ concat (map (failed_attempt (base_delay opts)) [0..<nat (max_retries opts + 1)]))"
      by (rule download_loop_all_fail) (use f in blast)
    moreover have "nat (max_retries opts + 1) = nat (max_retries opts) + 1"
      using m by linarith
    ultimately show "fetchMetaMediaBytes (Some data) server opts
         = (Inl DownloadFailed,
            concat (map (failed_attempt (base_delay opts)) [0..<nat (max_retries opts) + 1]))"
      using u by (simp add: fetchMetaMediaBytes_def Let_def)
  qed
  have first_ok: "truthy ?url \<and> int j \<le> max_retries opts
      \<and> succeeded (server j (0 < j)) \<and> (\<forall>k. k < j \<longrightarrow> \<not> succeeded (server k (0 < k)))
     \<longrightarrow> fetchMetaMediaBytes (Some data) server opts
         = (Inr (response_body (server j (0 < j)),
                 js_or (get (js_or data (JObj [])) ''mime_type'') (JStr ''application/octet-stream'')),
            concat (map (failed_attempt (base_delay opts)) [0..<j]) @ [Download j (0 < j)])"
  proof (intro impI, elim conjE)
    assume u: "truthy ?url" and le: "int j \<le> max_retries opts"
      and ok: "succeeded (server j (0 < j))"
      and f: "\<forall>k. k < j \<longrightarrow> \<not> succeeded (server k (0 < k))"
    have "download_loop server (max_retries opts) (base_delay opts) 0 []
        = (Some (response_body (server j (0 < j))),
           [] @ concat (map (failed_attempt (base_delay opts)) [0..<j]) @ [Download j (0 < j)])"
      by (rule download_loop_first_success) (use le ok f in auto)
    then show "fetchMetaMediaBytes (Some data) server opts
         = (Inr (response_body (server j (0 < j)),
                 js_or (get (js_or data (JObj [])) ''mime_type'') (JStr ''application/octet-stream'')),
            concat (map (failed_attempt (base_delay opts)) [0..<j]) @ [Download j (0 < j)])"
      using u by (simp add: fetchMetaMediaBytes_def Let_def)
  qed
  have first: "failed_attempt b 0 = [Download 0 False, Sleep (b * 2)]"
    by (simp add: failed_attempt_def)
  have later: "0 < n \<longrightarrow> failed_attempt b n = [Download n True, Sleep (b * 2 ^ (n + 1))]"
    by (simp add: failed_attempt_def)
  have defaults: "max_retries default_opts = 3 \<and> base_delay default_opts = 300"
    by (simp add: max_retries_def base_delay_def default_opts_def)
  from all_fail first_ok first later defaults show ?thesis by blast
qed

theorem fetch_retry_schedule_witness:
  "truthy (get (js_or media_object (JObj [])) ''url'') \<and> 0 \<le> max_retries default_opts
   \<and> fetchMetaMediaBytes (Some media_object) refusing default_opts
       = (Inl DownloadFailed,
          [Download 0 False, Sleep 600, Download 1 True, Sleep 1200,
           Download 2 True, Sleep 2400, Download 3 True, Sleep 4800])
   \<and> int 1 \<le> max_retries default_opts \<and> succeeded (wants_credential 1 (0 < (1::nat)))
   \<and> fetchMetaMediaBytes (Some media_object) wants_credential default_opts
       = (Inr (''bytes'', JStr ''image/jpeg''), [Download 0 False, Sleep 600, Download 1 True])"
proof -
  have u: "truthy (get (js_or media_object (JObj [])) ''url'')" by code_simp
  have m: "0 \<le> max_retries default_opts" by code_simp
  have f: "\<forall>k. int k \<le> max_retries default_opts \<longrightarrow> \<not> succeeded (refusing k (0 < k))"
    by (simp add: refusing_def)
  have l: "concat (map (failed_attempt (base_delay default_opts)) [0..<nat (max_retries default_opts) + 1])
      = [Download 0 False, Sleep 600, Download 1 True, Sleep 1200,
         Download 2 True, Sleep 2400, Download 3 True, Sleep 4800]"
    by code_simp
  from fetch_retry_schedule [of media_object default_opts refusing] u m f
  have "fetchMetaMediaBytes (Some media_object) refusing default_opts
       = (Inl DownloadFailed,
          concat (map (failed_attempt (base_delay default_opts))
            [0..<nat (max_retries default_opts) + 1]))"
    by blast
  then have r1: "fetchMetaMediaBytes (Some media_object) refusing default_opts
       = (Inl DownloadFailed,
          [Download 0 False, Sleep 600, Download 1 True, Sleep 1200,
           Download 2 True, Sleep 2400, Download 3 True, Sleep 4800])"
    by (simp only: l)
  have j: "int 1 \<le> max_retries default_opts" by code_simp
  have ok: "succeeded (wants_credential 1 (0 < (1::nat)))" by code_simp
  have before: "\<forall>k. k < (1::nat) \<longrightarrow> \<not> succeeded (wants_credential k (0 < k))"
    by (simp add: wants_credential_def)
  have body: "response_body (wants_credential 1 (0 < (1::nat))) = ''bytes''" by code_simp
  have mime: "js_or (get (js_or media_object (JObj [])) ''mime_type'') (JStr ''application/octet-stream'')
      = JStr ''image/jpeg''"
    by code_simp
  have l2: "concat (map (failed_attempt (base_delay default_opts)) [0..<1]) @ [Download 1 (0 < (1::nat))]
      = [Download 0 False, Sleep 600, Download 1 True]"
    by code_simp
  from fetch_retry_schedule [of media_object default_opts wants_credential 1] u j ok before
  have "fetchMetaMediaBytes (Some media_object) wants_credential default_opts
         = (Inr (response_body (wants_credential 1 (0 < (1::nat))),
                 js_or (get (js_or media_object (JObj [])) ''mime_type'') (JStr ''application/octet-stream'')),
            concat (map (failed_attempt (base_delay default_opts)) [0..<1]) @ [Download 1 (0 < (1::nat))])"
    by blast
  then have r2: "fetchMetaMediaBytes (Some media_object) wants_credential default_opts
       = (Inr (''bytes'', JStr ''image/jpeg''), [Download 0 False, Sleep 600, Download 1 True])"
    by (simp only: body mime l2)
  from u m r1 j ok r2 show ?thesis by blast
qed

text \<open>
  The claim as it was stated (the delay after failed attempt \<open>k\<close> is \<open>base * 2 ^ k\<close>)
  fails at the first attempt: with the defaults the sleep after attempt \<open>0\<close> is \<open>600\<close> ms,
  not \<open>300 * 2 ^ 0 = 300\<close> ms.
\<close>

theorem fetch_first_delay_counterexample:
  "snd (fetchMetaMediaBytes (Some media_object) refusing default_opts)
     = [Download 0 False, Sleep 600, Download 1 True, Sleep 1200,
        Download 2 True, Sleep 2400, Download 3 True, Sleep 4800]
   \<and> base_delay default_opts * 2 ^ 0 = 300"
  by code_simp


section \<open>Properties of the merge\<close>

subsection \<open>The example items\<close>

lemma caption_item_normalized:
  "normalize_caption_item fmt (JObj [(''item'', JStr n)]) = Some (caption_item n)"
  by (simp add: normalize_caption_item_def caption_item_def coerce_number_def coerce_macros_def
      coerce_assumptions_def ToNumber_def oprop_def js_coalesce_def num_or_zero_def Math_max_def)

lemma vision_item_normalized:
  "normalize_vision_item fmt (JObj [(''item'', JStr n)]) = Some (vision_item n)"
  by (simp add: normalize_vision_item_def vision_item_def coerce_number_def coerce_macros_def
      coerce_confidence_def coerce_assumptions_def ToNumber_def ToString_def oprop_def
      js_coalesce_def num_or_zero_def Math_max_def Math_min_def)

subsection \<open>What a round of the vision loop does\<close>

lemma get_assign_other: "k' \<noteq> k \<Longrightarrow> get (JObj (assign kvs k v)) k' = get (JObj kvs) k'"
  by (induction kvs) auto

lemma assign_assign: "assign (assign kvs k v) k w = assign kvs k w"
  by (induction kvs) auto

lemma get_assign_prop_other: "k' \<noteq> k \<Longrightarrow> get (assign_prop m k v) k' = get m k'"
  by (cases m) (simp_all add: assign_prop_def get_assign_other del: get.simps(1))

lemma nullish_assign_prop: "nullish (assign_prop m k v) = nullish m"
  by (cases m) (simp_all add: assign_prop_def)

lemma attach_assumptions_item:
  assumes "attach_assumptions fmt v m = Some m'"
  shows "get m' ''item'' = get m ''item''" and "nullish m' = nullish m"
  using assms
  by (auto simp: attach_assumptions_def get_assign_prop_other nullish_assign_prop
      split: bind_splits if_splits)

lemma attach_items:
  "attach fmt v vn ms = Some ms'
   \<Longrightarrow> map (\<lambda>m. get m ''item'') ms' = map (\<lambda>m. get m ''item'') ms
       \<and> map nullish ms' = map nullish ms"
proof (induction ms arbitrary: ms')
  case Nil
  then show ?case by simp
next
  case (Cons m ms)
  then show ?case
    by (auto split: bind_splits if_splits dest: attach_assumptions_item)
qed

lemma normalizeName_undefined: "normalizeName fmt JUndefined = Some []"
  by (simp add: normalizeName_def ToString_def js_or_def toLowerCase_def trim_def)

lemma item_name_nullish: "nullish m \<Longrightarrow> item_name fmt m = Some []"
  by (cases m) (simp_all add: item_name_def normalizeName_undefined)

lemma item_matches_not_nullish:
  "item_name fmt m = Some mn \<Longrightarrow> item_matches mn vn \<Longrightarrow> \<not> nullish m"
  using item_name_nullish [of m fmt] by (auto simp: item_matches_def)

lemma named_item_object:
  assumes "item_name fmt m = Some mn" and "mn \<noteq> []"
  shows "\<exists>kvs. m = JObj kvs"
proof (cases m)
  case (JObj kvs)
  then show ?thesis by simp
qed (use assms in \<open>simp_all add: item_name_def normalizeName_undefined\<close>)

lemma matching_item_object:
  "item_name fmt m = Some mn \<Longrightarrow> item_matches mn vn \<Longrightarrow> \<exists>kvs. m = JObj kvs"
  using named_item_object [of fmt m mn] by (auto simp: item_matches_def)

lemma attach_unfold:
  "\<not> nullish m \<Longrightarrow> attach fmt v vn (m # ms) =
     (case item_name fmt m of
        None \<Rightarrow> None
      | Some mn \<Rightarrow>
          if item_matches mn vn then map_option (\<lambda>m'. m' # ms) (attach_assumptions fmt v m)
          else map_option (\<lambda>ms'. m # ms') (attach fmt v vn ms))"
  by (cases "item_name fmt m"; cases "attach_assumptions fmt v m"; cases "attach fmt v vn ms")
    (simp_all add: getprop_def item_name_def)

lemma attach_first_match:
  assumes "\<forall>p\<in>set pre. \<not> nullish p \<and> (\<exists>pn. item_name fmt p = Some pn \<and> \<not> item_matches pn vn)"
      and "item_name fmt m = Some mn" and "item_matches mn vn"
  shows "attach fmt v vn (pre @ m # post)
         = map_option (\<lambda>m'. pre @ m' # post) (attach_assumptions fmt v m)"
  using assms(1)
proof (induction pre)
  case Nil
  have "\<not> nullish m" using assms(2,3) by (rule item_matches_not_nullish)
  then show ?case using assms(2,3) by (simp add: attach_unfold del: attach.simps)
next
  case (Cons p pre)
  then obtain pn where "\<not> nullish p" "item_name fmt p = Some pn" "\<not> item_matches pn vn"
    by auto
  moreover have "attach fmt v vn (pre @ m # post)
      = map_option (\<lambda>m'. pre @ m' # post) (attach_assumptions fmt v m)"
    using Cons by simp
  ultimately show ?case
    by (cases "attach_assumptions fmt v m") (simp_all add: attach_unfold del: attach.simps)
qed

lemma attach_assumptions_arrays:
  assumes "\<not> nullish v" and "get v ''assumptions'' = JArr ys"
      and "get (JObj kvs) ''assumptions'' = JArr xs"
      and "convertible (js_or (get v ''confidence'') (JNum (Fin 0)))"
  shows "attach_assumptions fmt v (JObj kvs)
         = Some (JObj (assign kvs ''assumptions''
              (JArr ((if ys = [] then xs else foldl set_insert [] (xs @ ys))
                     @ [JStr (''vision_conf:''
                          @ string_value fmt (js_or (get v ''confidence'') (JNum (Fin 0))))]))))"
proof (cases "ys = []")
  case True
  then show ?thesis using assms
    by (simp add: attach_assumptions_def getprop_def js_or_def js_concat_def assign_prop_def
        vision_marker_def ToString_def del: get.simps(1))
next
  case False
  then show ?thesis using assms
    by (simp add: attach_assumptions_def getprop_def js_or_def js_concat_def assign_prop_def
        vision_marker_def ToString_def array_from_set_def get_assign assign_assign
        del: get.simps(1))
qed

lemma set_set_add: "set (set_add n seen) = insert n (set seen)"
  by (auto simp: set_add_def)

lemma merge_invariantD:
  assumes "merge_invariant fmt (merged, seen)"
  shows "Some ` set seen = item_name fmt ` set merged" and "[] \<notin> set seen"
    and "\<forall>m\<in>set merged. \<not> nullish m"
  using assms by (auto simp: merge_invariant_def)

lemma merge_invariantI:
  assumes "Some ` set seen = item_name fmt ` set merged" and "[] \<notin> set seen"
    and "\<forall>m\<in>set merged. \<not> nullish m"
  shows "merge_invariant fmt (merged, seen)"
  using assms by (simp add: merge_invariant_def)

lemma merge_invariant_push:
  assumes "merge_invariant fmt (merged, seen)" and "\<not> nullish c"
      and "item_name fmt c = Some n" and "n \<noteq> []"
  shows "merge_invariant fmt (merged @ [c], set_add n seen)"
proof (rule merge_invariantI)
  show "Some ` set (set_add n seen) = item_name fmt ` set (merged @ [c])"
    using merge_invariantD(1) [OF assms(1)] assms(3) by (simp add: set_set_add)
  show "[] \<notin> set (set_add n seen)"
    using merge_invariantD(2) [OF assms(1)] assms(4) by (simp add: set_set_add)
  show "\<forall>m\<in>set (merged @ [c]). \<not> nullish m"
    using merge_invariantD(3) [OF assms(1)] assms(2) by simp
qed

lemma add_caption_items_unfold:
  "\<not> nullish c \<Longrightarrow> add_caption_items fmt (c # cs) (merged, seen) =
     (case item_name fmt c of
        None \<Rightarrow> None
      | Some n \<Rightarrow>
          if n = [] then add_caption_items fmt cs (merged, seen)
          else add_caption_items fmt cs (merged @ [c], set_add n seen))"
  by (cases "item_name fmt c") (simp_all add: getprop_def item_name_def)

lemma add_caption_items_nullish: "nullish c \<Longrightarrow> add_caption_items fmt (c # cs) st = None"
  by (simp add: getprop_def)

lemma add_caption_items_invariant:
  "add_caption_items fmt cs (merged, seen) = Some st' \<Longrightarrow> merge_invariant fmt (merged, seen)
   \<Longrightarrow> merge_invariant fmt st'"
proof (induction cs arbitrary: merged seen)
  case Nil
  then show ?case by simp
next
  case (Cons c cs)
  have nn: "\<not> nullish c"
    using Cons.prems(1) add_caption_items_nullish [of c fmt cs "(merged, seen)"] by auto
  note u = add_caption_items_unfold [OF nn, of fmt cs merged seen]
  from Cons.prems(1) u obtain n where n: "item_name fmt c = Some n"
    by (cases "item_name fmt c") simp_all
  show ?case
  proof (cases "n = []")
    case True
    then have "add_caption_items fmt cs (merged, seen) = Some st'"
      using Cons.prems(1) u n by simp
    then show ?thesis using Cons.IH Cons.prems(2) by blast
  next
    case False
    then have "add_caption_items fmt cs (merged @ [c], set_add n seen) = Some st'"
      using Cons.prems(1) u n by simp
    then show ?thesis
      using Cons.IH merge_invariant_push [OF Cons.prems(2) nn n False] by blast
  qed
qed

lemma attach_invariant:
  assumes "attach fmt v vn merged = Some merged'" and "merge_invariant fmt (merged, seen)"
  shows "merge_invariant fmt (merged', seen)"
proof -
  from attach_items [OF assms(1)] have
    i: "map (\<lambda>m. get m ''item'') merged' = map (\<lambda>m. get m ''item'') merged" and
    n: "map nullish merged' = map nullish merged"
    by blast+
  have "map (item_name fmt) merged' = map (item_name fmt) merged"
  proof -
    have "map (item_name fmt) merged' = map (normalizeName fmt) (map (\<lambda>m. get m ''item'') merged')"
      by (simp add: item_name_def comp_def)
    also have "\<dots> = map (normalizeName fmt) (map (\<lambda>m. get m ''item'') merged)"
      by (simp only: i)
    also have "\<dots> = map (item_name fmt) merged"
      by (simp add: item_name_def comp_def)
    finally show ?thesis .
  qed
  then have names: "item_name fmt ` set merged' = item_name fmt ` set merged"
    by (metis image_set)
  have "nullish ` set merged' = nullish ` set merged"
    using n by (metis image_set)
  then have nn: "\<forall>m\<in>set merged'. \<not> nullish m"
    using merge_invariantD(3) [OF assms(2)] by (metis (full_types) image_iff)
  show ?thesis
  proof (rule merge_invariantI)
    show "Some ` set seen = item_name fmt ` set merged'"
      using merge_invariantD(1) [OF assms(2)] names by simp
    show "[] \<notin> set seen" using merge_invariantD(2) [OF assms(2)] .
    show "\<forall>m\<in>set merged'. \<not> nullish m" using nn .
  qed
qed

lemma vision_step_unfold:
  assumes "\<not> nullish v"
  shows "vision_step fmt v (merged, seen) =
     (case item_name fmt v of
        None \<Rightarrow> None
      | Some vn \<Rightarrow>
          if vn = [] then Some (merged, seen)
          else if \<not> (\<exists>s\<in>set seen. names_conflict s vn)
          then Some (merged @ [v], set_add vn seen)
          else map_option (\<lambda>merged'. (merged', seen)) (attach fmt v vn merged))"
proof (cases "item_name fmt v")
  case None
  with assms show ?thesis by (simp add: vision_step_def getprop_def item_name_def)
next
  case (Some vn)
  with assms show ?thesis
    by (cases "attach fmt v vn merged") (simp_all add: vision_step_def getprop_def item_name_def)
qed

lemma vision_step_nullish: "nullish v \<Longrightarrow> vision_step fmt v st = None"
  by (simp add: vision_step_def getprop_def)

lemma vision_step_invariant:
  assumes "vision_step fmt v (merged, seen) = Some st'" and "merge_invariant fmt (merged, seen)"
  shows "merge_invariant fmt st'"
proof -
  have nn: "\<not> nullish v"
    using assms(1) vision_step_nullish [of v fmt "(merged, seen)"] by auto
  note u = vision_step_unfold [OF nn, of fmt merged seen]
  from assms(1) u obtain vn where vn: "item_name fmt v = Some vn"
    by (cases "item_name fmt v") simp_all
  show ?thesis
  proof (cases "vn = []")
    case True
    with assms u vn show ?thesis by simp
  next
    case False
    show ?thesis
    proof (cases "\<exists>s\<in>set seen. names_conflict s vn")
      case c: False
      with False assms(1) u vn have "st' = (merged @ [v], set_add vn seen)"
        by simp
      then show ?thesis using merge_invariant_push [OF assms(2) nn vn False] by simp
    next
      case c: True
      with False assms(1) u vn have
        "map_option (\<lambda>merged'. (merged', seen)) (attach fmt v vn merged) = Some st'"
        by simp
      then obtain merged' where
        a: "attach fmt v vn merged = Some merged'" and s: "st' = (merged', seen)"
        by auto
      from attach_invariant [OF a assms(2)] s show ?thesis by simp
    qed
  qed
qed

lemma vision_items_invariant:
  "vision_items fmt vs st = Some st' \<Longrightarrow> merge_invariant fmt st \<Longrightarrow> merge_invariant fmt st'"
proof (induction vs arbitrary: st)
  case Nil
  then show ?case by simp
next
  case (Cons v vs)
  from Cons.prems(1) obtain st1 where
    s1: "vision_step fmt v st = Some st1" and r: "vision_items fmt vs st1 = Some st'"
    by (auto split: bind_splits)
  have "merge_invariant fmt st1"
    using vision_step_invariant [of fmt v "fst st" "snd st" st1] s1 Cons.prems(2) by simp
  then show ?case using Cons.IH [OF r] by blast
qed

lemma merge_invariant_empty: "merge_invariant fmt ([], [])"
  by (simp add: merge_invariant_def)

lemma caption_phase_invariant:
  assumes "(if truthy captionParsed
            then do {
              d \<leftarrow> getprop captionParsed ''details'';
              if Array_isArray d \<and> elements d \<noteq> [] then add_caption_items fmt (elements d) ([], [])
              else Some ([], [])
            }
            else Some ([], [])) = Some st0"
  shows "merge_invariant fmt st0"
proof (cases "truthy captionParsed
    \<and> Array_isArray (get captionParsed ''details'') \<and> elements (get captionParsed ''details'') \<noteq> []")
  case True
  with assms have "add_caption_items fmt (elements (get captionParsed ''details'')) ([], []) = Some st0"
    by (simp add: getprop_truthy)
  then show ?thesis using add_caption_items_invariant merge_invariant_empty by blast
next
  case False
  with assms have "st0 = ([], [])"
    by (cases "truthy captionParsed") (auto simp: getprop_truthy split: if_splits)
  then show ?thesis using merge_invariant_empty by simp
qed

lemma merge_state_invariant:
  assumes "merge_state fmt captionParsed visionDetails = Some st"
  shows "merge_invariant fmt st"
proof -
  from assms obtain st0 where
    c: "(if truthy captionParsed
            then do {
              d \<leftarrow> getprop captionParsed ''details'';
              if Array_isArray d \<and> elements d \<noteq> [] then add_caption_items fmt (elements d) ([], [])
              else Some ([], [])
            }
            else Some ([], [])) = Some st0" and
    v: "vision_items fmt visionDetails st0 = Some st"
    unfolding merge_state_def by (auto split: bind_splits)
  from caption_phase_invariant [OF c] vision_items_invariant [OF v] show ?thesis by blast
qed

lemma tokens_subset: "set (tokens s) \<subseteq> set (split_space s)"
  by (auto simp: tokens_def)

lemma names_conflict_item_matches: "s \<noteq> [] \<Longrightarrow> names_conflict s vn \<Longrightarrow> item_matches s vn"
  using tokens_subset by (fastforce simp: names_conflict_def item_matches_def)

lemma conflict_has_match:
  assumes "merge_invariant fmt (merged, seen)" and "\<exists>s\<in>set seen. names_conflict s vn"
  shows "\<exists>m\<in>set merged. \<exists>mn. item_name fmt m = Some mn \<and> item_matches mn vn"
proof -
  from assms(2) obtain s where s: "s \<in> set seen" "names_conflict s vn" by blast
  have "s \<noteq> []" using s(1) merge_invariantD(2) [OF assms(1)] by metis
  moreover have "Some s \<in> item_name fmt ` set merged"
    using s(1) merge_invariantD(1) [OF assms(1)] by blast
  then obtain m where "m \<in> set merged" "item_name fmt m = Some s"
    by auto
  ultimately show ?thesis using s(2) names_conflict_item_matches by blast
qed

lemma vision_step_conflict_items:
  assumes "\<not> nullish v" and "item_name fmt v = Some vn" and "vn \<noteq> []"
      and "\<exists>s\<in>set seen. names_conflict s vn"
      and "vision_step fmt v (merged, seen) = Some (merged', seen')"
  shows "seen' = seen \<and> item_names merged' = item_names merged"
proof -
  from assms vision_step_unfold [OF assms(1), of fmt merged seen]
  have "map_option (\<lambda>merged'. (merged', seen)) (attach fmt v vn merged)
      = Some (merged', seen')"
    by simp
  then have a: "attach fmt v vn merged = Some merged'" and s: "seen' = seen"
    by auto
  from attach_items [OF a] s show ?thesis by (simp add: item_names_def)
qed

lemma vision_step_conflict_target:
  assumes "\<not> nullish v" and "item_name fmt v = Some vn" and "vn \<noteq> []"
      and "\<exists>s\<in>set seen. names_conflict s vn"
      and "\<forall>p\<in>set pre. \<not> nullish p \<and> (\<exists>pn. item_name fmt p = Some pn \<and> \<not> item_matches pn vn)"
      and "item_name fmt m = Some mn" and "item_matches mn vn"
  shows "vision_step fmt v (pre @ m # post, seen)
         = map_option (\<lambda>m'. (pre @ m' # post, seen)) (attach_assumptions fmt v m)"
  using assms(2,3,4) vision_step_unfold [OF assms(1), of fmt "pre @ m # post" seen]
    attach_first_match [OF assms(5,6,7), of v post]
  by (cases "attach_assumptions fmt v m") simp_all

lemma vision_step_unconvertible:
  "\<not> nullish v \<Longrightarrow> item_name fmt v = None \<Longrightarrow> vision_step fmt v (merged, seen) = None"
  by (simp add: vision_step_unfold)

lemma item_name_None: "item_name fmt v = None \<longleftrightarrow> \<not> convertible (js_or (get v ''item'') (JStr []))"
  by (simp add: item_name_def normalizeName_def ToString_def)


text \<open>
  Claim C3, as amended.  A vision item with an empty normalised name is skipped, and
  one whose name is not convertible makes the merge throw.  Any other vision item is
  tested against the seen names, which are the names of all items merged so far: the
  caption items and the vision items appended before it (the invariant).  The test is
  containment of one name in the other, which covers equality, or a token in common.
  With no match the item is appended and its name is seen from then on.  With a match
  it is not added: the merged list keeps its items, and the first merged item that
  matches (there is one) gets the vision item's assumptions, joined to its own without
  duplicates when there are any, and then the marker \<^verbatim>\<open>vision_conf:<value>\<close>.  Caption
  \<^verbatim>\<open>[banana smoothie]\<close> with vision \<^verbatim>\<open>[smoothie]\<close> gives one item, caption \<^verbatim>\<open>[dal]\<close>
  with vision \<^verbatim>\<open>[rice]\<close> two.
\<close>

theorem merge_vision_item:
  "(\<not> nullish v \<and> item_name fmt v = Some []
      \<longrightarrow> vision_step fmt v (merged, seen) = Some (merged, seen))
   \<and> (\<not> nullish v \<and> item_name fmt v = None
      \<longrightarrow> vision_step fmt v (merged, seen) = None)
   \<and> (\<not> nullish v \<and> item_name fmt v = Some vn \<and> vn \<noteq> []
        \<and> \<not> (\<exists>s\<in>set seen. names_conflict s vn)
      \<longrightarrow> vision_step fmt v (merged, seen) = Some (merged @ [v], set_add vn seen))
   \<and> (\<not> nullish v \<and> item_name fmt v = Some vn \<and> vn \<noteq> []
        \<and> (\<exists>s\<in>set seen. names_conflict s vn)
        \<and> vision_step fmt v (merged, seen) = Some (merged', seen')
      \<longrightarrow> seen' = seen \<and> item_names merged' = item_names merged)
   \<and> (\<not> nullish v \<and> item_name fmt v = Some vn \<and> vn \<noteq> []
        \<and> (\<exists>s\<in>set seen. names_conflict s vn)
        \<and> (\<forall>p\<in>set pre. \<not> nullish p
               \<and> (\<exists>pn. item_name fmt p = Some pn \<and> \<not> item_matches pn vn))
        \<and> item_name fmt m = Some mn \<and> item_matches mn vn
      \<longrightarrow> vision_step fmt v (pre @ m # post, seen)
            = map_option (\<lambda>m'. (pre @ m' # post, seen)) (attach_assumptions fmt v m))
   \<and> (\<not> nullish v \<and> get v ''assumptions'' = JArr ys \<and> get (JObj kvs) ''assumptions'' = JArr xs
        \<and> convertible (js_or (get v ''confidence'') (JNum (Fin 0)))
      \<longrightarrow> attach_assumptions fmt v (JObj kvs)
            = Some (JObj (assign kvs ''assumptions''
                (JArr ((if ys = [] then xs else foldl set_insert [] (xs @ ys))
                       @ [JStr (''vision_conf:''
                            @ string_value fmt (js_or (get v ''confidence'') (JNum (Fin 0))))])))))
   \<and> (merge_invariant fmt (merged, seen) \<and> (\<exists>s\<in>set seen. names_conflict s vn)
      \<longrightarrow> (\<exists>m\<in>set merged. \<exists>mn. item_name fmt m = Some mn \<and> item_matches mn vn))
   \<and> (merge_state fmt captionParsed visionDetails = Some st \<longrightarrow> merge_invariant fmt st)
   \<and> map_option length
        (merge_details fmt (caption_of [''banana smoothie'']) (vision_of [''smoothie'']))
       = Some 1
   \<and> map_option length (merge_details fmt (caption_of [''dal'']) (vision_of [''rice'']))
       = Some 2"
proof -
  have p1: "\<not> nullish v \<and> item_name fmt v = Some []
      \<longrightarrow> vision_step fmt v (merged, seen) = Some (merged, seen)"
    using vision_step_unfold [of v fmt merged seen] by simp
  have p0: "\<not> nullish v \<and> item_name fmt v = None
      \<longrightarrow> vision_step fmt v (merged, seen) = None"
    using vision_step_unconvertible by blast
  have p2: "\<not> nullish v \<and> item_name fmt v = Some vn \<and> vn \<noteq> []
        \<and> \<not> (\<exists>s\<in>set seen. names_conflict s vn)
      \<longrightarrow> vision_step fmt v (merged, seen) = Some (merged @ [v], set_add vn seen)"
    using vision_step_unfold [of v fmt merged seen] by simp
  have p3: "\<not> nullish v \<and> item_name fmt v = Some vn \<and> vn \<noteq> []
        \<and> (\<exists>s\<in>set seen. names_conflict s vn)
        \<and> vision_step fmt v (merged, seen) = Some (merged', seen')
      \<longrightarrow> seen' = seen \<and> item_names merged' = item_names merged"
    using vision_step_conflict_items [of v fmt vn seen merged merged' seen'] by blast
  have p4: "\<not> nullish v \<and> item_name fmt v = Some vn \<and> vn \<noteq> []
        \<and> (\<exists>s\<in>set seen. names_conflict s vn)
        \<and> (\<forall>p\<in>set pre. \<not> nullish p
               \<and> (\<exists>pn. item_name fmt p = Some pn \<and> \<not> item_matches pn vn))
        \<and> item_name fmt m = Some mn \<and> item_matches mn vn
      \<longrightarrow> vision_step fmt v (pre @ m # post, seen)
            = map_option (\<lambda>m'. (pre @ m' # post, seen)) (attach_assumptions fmt v m)"
    using vision_step_conflict_target [of v fmt vn seen pre m mn post] by blast
  have p5: "\<not> nullish v \<and> get v ''assumptions'' = JArr ys \<and> get (JObj kvs) ''assumptions'' = JArr xs
        \<and> convertible (js_or (get v ''confidence'') (JNum (Fin 0)))
      \<longrightarrow> attach_assumptions fmt v (JObj kvs)
            = Some (JObj (assign kvs ''assumptions''
                (JArr ((if ys = [] then xs else foldl set_insert [] (xs @ ys))
                       @ [JStr (''vision_conf:''
                            @ string_value fmt (js_or (get v ''confidence'') (JNum (Fin 0))))]))))"
    using attach_assumptions_arrays [of v ys kvs xs fmt] by blast
  have p6: "merge_invariant fmt (merged, seen) \<and> (\<exists>s\<in>set seen. names_conflict s vn)
      \<longrightarrow> (\<exists>m\<in>set merged. \<exists>mn. item_name fmt m = Some mn \<and> item_matches mn vn)"
    using conflict_has_match [of fmt merged seen vn] by blast
  have p7: "merge_state fmt captionParsed visionDetails = Some st \<longrightarrow> merge_invariant fmt st"
    using merge_state_invariant by blast
  have e1: "map_option length
        (merge_details fmt (caption_of [''banana smoothie'']) (vision_of [''smoothie'']))
       = Some 1"
    by code_simp
  have e2: "map_option length (merge_details fmt (caption_of [''dal'']) (vision_of [''rice'']))
       = Some 2"
    by code_simp
  show ?thesis
    by (intro conjI p1 p0 p2 p3 p4 p5 p6 p7 e1 e2)
qed

theorem merge_vision_item_witness:
  "vision_step decimal_fmt (vision_item ''!!'')
      ([caption_item ''banana smoothie''], [''banana smoothie''])
     = Some ([caption_item ''banana smoothie''], [''banana smoothie''])
   \<and> vision_step decimal_fmt (vision_item ''rice'')
      ([caption_item ''banana smoothie''], [''banana smoothie''])
     = Some ([caption_item ''banana smoothie'', vision_item ''rice''],
             [''banana smoothie'', ''rice''])
   \<and> vision_step decimal_fmt (vision_item ''smoothie'')
      ([caption_item ''banana smoothie''], [''banana smoothie''])
     = map_option (\<lambda>m'. ([m'], [''banana smoothie'']))
         (attach_assumptions decimal_fmt (vision_item ''smoothie'')
            (caption_item ''banana smoothie''))
   \<and> attach_assumptions decimal_fmt
        (JObj [(''item'', JStr ''dal''), (''assumptions'', JArr [JStr ''a'', JStr ''b'']),
               (''confidence'', JNum (Fin 1))])
        (JObj [(''item'', JStr ''dal''), (''assumptions'', JArr [JStr ''a''])])
     = Some (JObj [(''item'', JStr ''dal''),
                   (''assumptions'', JArr [JStr ''a'', JStr ''b'', JStr ''vision_conf:1''])])
   \<and> merge_invariant decimal_fmt ([caption_item ''banana smoothie''], [''banana smoothie''])
   \<and> (\<exists>m\<in>set [caption_item ''banana smoothie''].
         \<exists>mn. item_name decimal_fmt m = Some mn \<and> item_matches mn ''smoothie'')
   \<and> vision_step decimal_fmt (JObj [(''item'', JObj [(''toString'', JNum (Fin 1))])])
      ([caption_item ''banana smoothie''], [''banana smoothie''])
     = None"
proof -
  let ?c = "caption_item ''banana smoothie''"
  let ?seen = "[''banana smoothie'']"
  let ?skip = "vision_item ''!!''"
  let ?rice = "vision_item ''rice''"
  let ?sm = "vision_item ''smoothie''"
  let ?bad = "JObj [(''item'', JObj [(''toString'', JNum (Fin 1))])]"
  let ?v5 = "JObj [(''item'', JStr ''dal''), (''assumptions'', JArr [JStr ''a'', JStr ''b'']),
               (''confidence'', JNum (Fin 1))]"
  let ?kvs = "[(''item'', JStr ''dal''), (''assumptions'', JArr [JStr ''a''])]"
  have a1: "\<not> nullish ?skip" by code_simp
  have a2: "item_name decimal_fmt ?skip = Some []" by code_simp
  have "\<not> nullish ?skip \<and> item_name decimal_fmt ?skip = Some []
      \<longrightarrow> vision_step decimal_fmt ?skip ([?c], ?seen) = Some ([?c], ?seen)"
    using merge_vision_item [where v = ?skip and fmt = decimal_fmt and merged = "[?c]"
        and seen = ?seen]
    by (rule conjunct1)
  with a1 a2 have r1: "vision_step decimal_fmt ?skip ([?c], ?seen) = Some ([?c], ?seen)"
    by simp
  have z1: "\<not> nullish ?bad" by simp
  have z2: "item_name decimal_fmt ?bad = None" by code_simp
  have "\<not> nullish ?bad \<and> item_name decimal_fmt ?bad = None
      \<longrightarrow> vision_step decimal_fmt ?bad ([?c], ?seen) = None"
    using merge_vision_item [where v = ?bad and fmt = decimal_fmt and merged = "[?c]"
        and seen = ?seen, THEN conjunct2]
    by (rule conjunct1)
  with z1 z2 have r0: "vision_step decimal_fmt ?bad ([?c], ?seen) = None"
    by simp
  have b1: "\<not> nullish ?rice" by code_simp
  have b2: "item_name decimal_fmt ?rice = Some ''rice''" by code_simp
  have b3: "\<not> (\<exists>s\<in>set ?seen. names_conflict s ''rice'')" by code_simp
  have b4: "set_add ''rice'' ?seen = [''banana smoothie'', ''rice'']" by code_simp
  have b5: "''rice'' \<noteq> []" by simp
  have "\<not> nullish ?rice \<and> item_name decimal_fmt ?rice = Some ''rice'' \<and> ''rice'' \<noteq> []
        \<and> \<not> (\<exists>s\<in>set ?seen. names_conflict s ''rice'')
      \<longrightarrow> vision_step decimal_fmt ?rice ([?c], ?seen)
            = Some ([?c] @ [?rice], set_add ''rice'' ?seen)"
    using merge_vision_item [where v = ?rice and fmt = decimal_fmt and merged = "[?c]"
        and seen = ?seen and vn = "''rice''", THEN conjunct2, THEN conjunct2]
    by (rule conjunct1)
  with b1 b2 b3 b5 have "vision_step decimal_fmt ?rice ([?c], ?seen)
      = Some ([?c] @ [?rice], set_add ''rice'' ?seen)"
    by blast
  then have r2: "vision_step decimal_fmt ?rice ([?c], ?seen)
      = Some ([?c, ?rice], [''banana smoothie'', ''rice''])"
    by (simp only: b4 append.simps)
  have c1: "\<not> nullish ?sm" by code_simp
  have c2: "item_name decimal_fmt ?sm = Some ''smoothie''" by code_simp
  have c3: "\<exists>s\<in>set ?seen. names_conflict s ''smoothie''" by code_simp
  have c4: "\<forall>p\<in>set []. \<not> nullish p
      \<and> (\<exists>pn. item_name decimal_fmt p = Some pn \<and> \<not> item_matches pn ''smoothie'')"
    by simp
  have c5: "item_name decimal_fmt ?c = Some ''banana smoothie''" by code_simp
  have c6: "item_matches ''banana smoothie'' ''smoothie''" by code_simp
  have c7: "''smoothie'' \<noteq> []" by simp
  have "\<not> nullish ?sm \<and> item_name decimal_fmt ?sm = Some ''smoothie'' \<and> ''smoothie'' \<noteq> []
        \<and> (\<exists>s\<in>set ?seen. names_conflict s ''smoothie'')
        \<and> (\<forall>p\<in>set []. \<not> nullish p
               \<and> (\<exists>pn. item_name decimal_fmt p = Some pn \<and> \<not> item_matches pn ''smoothie''))
        \<and> item_name decimal_fmt ?c = Some ''banana smoothie''
        \<and> item_matches ''banana smoothie'' ''smoothie''
      \<longrightarrow> vision_step decimal_fmt ?sm ([] @ ?c # [], ?seen)
            = map_option (\<lambda>m'. ([] @ m' # [], ?seen)) (attach_assumptions decimal_fmt ?sm ?c)"
    using merge_vision_item [where v = ?sm and fmt = decimal_fmt and seen = ?seen
        and vn = "''smoothie''" and pre = "[]" and m = ?c and mn = "''banana smoothie''"
        and post = "[]", THEN conjunct2, THEN conjunct2, THEN conjunct2, THEN conjunct2]
    by (rule conjunct1)
  with c1 c2 c3 c4 c5 c6 c7 have "vision_step decimal_fmt ?sm ([] @ ?c # [], ?seen)
      = map_option (\<lambda>m'. ([] @ m' # [], ?seen)) (attach_assumptions decimal_fmt ?sm ?c)"
    by blast
  then have r3: "vision_step decimal_fmt ?sm ([?c], ?seen)
      = map_option (\<lambda>m'. ([m'], ?seen)) (attach_assumptions decimal_fmt ?sm ?c)"
    by (simp only: append.simps)
  have d1: "\<not> nullish ?v5" by simp
  have d2: "get ?v5 ''assumptions'' = JArr [JStr ''a'', JStr ''b'']" by code_simp
  have d3: "get (JObj ?kvs) ''assumptions'' = JArr [JStr ''a'']" by code_simp
  have d5: "convertible (js_or (get ?v5 ''confidence'') (JNum (Fin 0)))" by code_simp
  have d4: "JObj (assign ?kvs ''assumptions''
      (JArr ((if [JStr ''a'', JStr ''b''] = [] then [JStr ''a'']
              else foldl set_insert [] ([JStr ''a''] @ [JStr ''a'', JStr ''b'']))
             @ [JStr (''vision_conf:''
                  @ string_value decimal_fmt (js_or (get ?v5 ''confidence'') (JNum (Fin 0))))])))
     = JObj [(''item'', JStr ''dal''),
             (''assumptions'', JArr [JStr ''a'', JStr ''b'', JStr ''vision_conf:1''])]"
    by code_simp
  have "\<not> nullish ?v5 \<and> get ?v5 ''assumptions'' = JArr [JStr ''a'', JStr ''b'']
        \<and> get (JObj ?kvs) ''assumptions'' = JArr [JStr ''a'']
        \<and> convertible (js_or (get ?v5 ''confidence'') (JNum (Fin 0)))
      \<longrightarrow> attach_assumptions decimal_fmt ?v5 (JObj ?kvs)
      = Some (JObj (assign ?kvs ''assumptions''
          (JArr ((if [JStr ''a'', JStr ''b''] = [] then [JStr ''a'']
                  else foldl set_insert [] ([JStr ''a''] @ [JStr ''a'', JStr ''b'']))
                 @ [JStr (''vision_conf:''
                  @ string_value decimal_fmt (js_or (get ?v5 ''confidence'') (JNum (Fin 0))))]))))"
    using merge_vision_item [where v = ?v5 and fmt = decimal_fmt and kvs = ?kvs
      and xs = "[JStr ''a'']" and ys = "[JStr ''a'', JStr ''b'']",
      THEN conjunct2, THEN conjunct2, THEN conjunct2, THEN conjunct2, THEN conjunct2]
    by (rule conjunct1)
  with d1 d2 d3 d5 have "attach_assumptions decimal_fmt ?v5 (JObj ?kvs)
      = Some (JObj (assign ?kvs ''assumptions''
          (JArr ((if [JStr ''a'', JStr ''b''] = [] then [JStr ''a'']
                  else foldl set_insert [] ([JStr ''a''] @ [JStr ''a'', JStr ''b'']))
                 @ [JStr (''vision_conf:''
                  @ string_value decimal_fmt (js_or (get ?v5 ''confidence'') (JNum (Fin 0))))]))))"
    by blast
  then have r5: "attach_assumptions decimal_fmt ?v5 (JObj ?kvs)
      = Some (JObj [(''item'', JStr ''dal''),
             (''assumptions'', JArr [JStr ''a'', JStr ''b'', JStr ''vision_conf:1''])])"
    by (simp only: d4)
  have e1: "merge_state decimal_fmt (caption_of [''banana smoothie'']) []
      = Some ([?c], ?seen)"
    by code_simp
  have "merge_state decimal_fmt (caption_of [''banana smoothie'']) [] = Some ([?c], ?seen)
      \<longrightarrow> merge_invariant decimal_fmt ([?c], ?seen)"
    using merge_vision_item [where fmt = decimal_fmt
      and captionParsed = "caption_of [''banana smoothie'']"
      and visionDetails = "[]" and st = "([?c], ?seen)",
      THEN conjunct2, THEN conjunct2, THEN conjunct2, THEN conjunct2, THEN conjunct2,
      THEN conjunct2, THEN conjunct2]
    by (rule conjunct1)
  with e1 have r7: "merge_invariant decimal_fmt ([?c], ?seen)"
    by blast
  have "merge_invariant decimal_fmt ([?c], ?seen) \<and> (\<exists>s\<in>set ?seen. names_conflict s ''smoothie'')
      \<longrightarrow> (\<exists>m\<in>set [?c]. \<exists>mn. item_name decimal_fmt m = Some mn \<and> item_matches mn ''smoothie'')"
    using merge_vision_item [where fmt = decimal_fmt and merged = "[?c]" and seen = ?seen
      and vn = "''smoothie''",
      THEN conjunct2, THEN conjunct2, THEN conjunct2, THEN conjunct2, THEN conjunct2,
      THEN conjunct2]
    by (rule conjunct1)
  with r7 c3
  have r6: "\<exists>m\<in>set [?c]. \<exists>mn. item_name decimal_fmt m = Some mn \<and> item_matches mn ''smoothie''"
    by blast
  show ?thesis
    by (intro conjI r1 r2 r3 r5 r7 r6 r0)
qed

text \<open>
  The claim as it was stated (a vision item is dropped only when it matches a
  caption-derived name, and is appended otherwise) fails on caption \<^verbatim>\<open>[dal]\<close> with
  vision \<^verbatim>\<open>[rice, rice]\<close>: the second \<^verbatim>\<open>rice\<close> matches no caption name, yet it is not
  appended, because the first one is among the seen names by then.
\<close>

theorem merge_vision_only_counterexample:
  "map_option item_names (merge_details decimal_fmt (caption_of [''dal''])
       (vision_of [''rice'', ''rice'']))
     = Some [JStr ''dal'', JStr ''rice'']
   \<and> normalizeName decimal_fmt (JStr ''dal'') = Some ''dal''
   \<and> normalizeName decimal_fmt (JStr ''rice'') = Some ''rice''
   \<and> \<not> names_conflict ''dal'' ''rice''"
  by code_simp

end
